theory Spec2Isabelle
  imports Main "HOL-Library.Sublist"
begin

section \<open>Strings as the query layer uses them\<close>

text \<open>
  A JavaScript string is modelled as a \<^typ>\<open>string\<close>, one \<^typ>\<open>char\<close> per code unit; the code
  units are those from 0 to 255 (a restriction of the model: a text with a code unit above 255
  is not a value of it).

  \<open>isSpace\<close> is the class that \<open>String.prototype.trim\<close> and the regular-expression escape \<open>\s\<close>
  share, as far as it lies in that range: tab, line feed, vertical tab, form feed, carriage
  return, space and the no-break space U+00A0.
\<close>

definition isSpace :: "char \<Rightarrow> bool" where
  "isSpace c = (c = CHR '' '' \<or> c = CHR 0x09 \<or> c = CHR 0x0A \<or> c = CHR 0x0B \<or> c = CHR 0x0C \<or> c = CHR 0x0D \<or>
                c = CHR 0xA0)"

definition trim :: "string \<Rightarrow> string" where
  "trim s = rev (dropWhile isSpace (rev (dropWhile isSpace s)))"

text \<open>
  \<open>upperChar\<close> is the capital of an ASCII letter and leaves every other character alone: the
  comparison that a regular expression with the flag \<open>i\<close> makes against an ASCII letter.

  \<open>toUpperCase\<close> is \<open>String.prototype.toUpperCase\<close>: beside the ASCII letters it maps the small
  letters U+00E0 to U+00FE (U+00F7 is the division sign) to their capitals, and the sharp s
  U+00DF to the two letters SS. The capitals of U+00B5 and U+00FF are code units above 255;
  these two characters are left alone: neither they nor their capitals are ASCII
  characters, so no comparison with an ASCII text is changed by it.
\<close>

definition upperChar :: "char \<Rightarrow> char" where
  "upperChar c =
     (case map_of (zip ''abcdefghijklmnopqrstuvwxyz'' ''ABCDEFGHIJKLMNOPQRSTUVWXYZ'') c of
        Some u \<Rightarrow> u
      | None \<Rightarrow> c)"

definition latinSmall :: string where
  "latinSmall =
     [CHR 0xE0, CHR 0xE1, CHR 0xE2, CHR 0xE3, CHR 0xE4, CHR 0xE5, CHR 0xE6, CHR 0xE7, CHR 0xE8, CHR 0xE9,
      CHR 0xEA, CHR 0xEB, CHR 0xEC, CHR 0xED, CHR 0xEE, CHR 0xEF, CHR 0xF0, CHR 0xF1, CHR 0xF2, CHR 0xF3,
      CHR 0xF4, CHR 0xF5, CHR 0xF6, CHR 0xF8, CHR 0xF9, CHR 0xFA, CHR 0xFB, CHR 0xFC, CHR 0xFD, CHR 0xFE]"

definition latinCapital :: string where
  "latinCapital =
     [CHR 0xC0, CHR 0xC1, CHR 0xC2, CHR 0xC3, CHR 0xC4, CHR 0xC5, CHR 0xC6, CHR 0xC7, CHR 0xC8, CHR 0xC9,
      CHR 0xCA, CHR 0xCB, CHR 0xCC, CHR 0xCD, CHR 0xCE, CHR 0xCF, CHR 0xD0, CHR 0xD1, CHR 0xD2, CHR 0xD3,
      CHR 0xD4, CHR 0xD5, CHR 0xD6, CHR 0xD8, CHR 0xD9, CHR 0xDA, CHR 0xDB, CHR 0xDC, CHR 0xDD, CHR 0xDE]"

definition upperCase :: "char \<Rightarrow> string" where
  "upperCase c =
     (if c = CHR 0xDF then ''SS''
      else case map_of (zip latinSmall latinCapital) c of
             Some u \<Rightarrow> [u]
           | None \<Rightarrow> [upperChar c])"

definition toUpperCase :: "string \<Rightarrow> string" where
  "toUpperCase s = concat (map upperCase s)"

text \<open>The capital ASCII letters.\<close>

definition capitals :: string where
  "capitals = ''ABCDEFGHIJKLMNOPQRSTUVWXYZ''"

definition startsWith :: "string \<Rightarrow> string \<Rightarrow> bool" where
  "startsWith s p = (take (length p) s = p)"

text \<open>\<open>s.includes(k)\<close>: \<open>k\<close> occurs in \<open>s\<close> as a contiguous run of characters.\<close>

fun includesStr :: "string \<Rightarrow> string \<Rightarrow> bool" where
  "includesStr [] k = (k = [])"
| "includesStr (c # cs) k = (startsWith (c # cs) k \<or> includesStr cs k)"

section \<open>Query validation (mcp-server/database/queries.ts)\<close>

definition FORBIDDEN_KEYWORDS :: "string list" where
  "FORBIDDEN_KEYWORDS =
     [''INSERT'', ''UPDATE'', ''DELETE'', ''DROP'', ''CREATE'', ''ALTER'', ''REPLACE'',
      ''PRAGMA'', ''ATTACH'', ''DETACH'', ''VACUUM'', ''REINDEX'']"

datatype query_error =
    OnlySelectAllowed
  | ForbiddenKeyword string
  | SuspiciousPattern
  | InvalidLimit int
  | QueryExecutionFailed string

text \<open>
  The four \<open>suspiciousPatterns\<close>, each as the search \<open>RegExp.prototype.test\<close> performs: a match
  may start at any position of the text.

  \<^item> \<open>/;\s*(INSERT|UPDATE|DELETE|DROP|CREATE|ALTER)/i\<close>: a semicolon, any run of white space,
    one of six keywords in any casing. No keyword starts with white space, so the greedy run is
    \<open>dropWhile isSpace\<close>. Under the flag \<open>i\<close> a letter of the pattern matches its two ASCII
    forms and nothing else, which is the comparison after \<open>map upperChar\<close>.
  \<^item> \<open>/UNION\s+SELECT/i\<close>: the word, one or more white-space characters, the second word.
  \<^item> \<open>/--/\<close> and \<open>/\/\*/\<close>: the two comment openers, as plain substrings.
\<close>

definition separatorKeywords :: "string list" where
  "separatorKeywords = [''INSERT'', ''UPDATE'', ''DELETE'', ''DROP'', ''CREATE'', ''ALTER'']"

fun matchSeparatorMutation :: "string \<Rightarrow> bool" where
  "matchSeparatorMutation [] = False"
| "matchSeparatorMutation (c # cs) =
     ((c = CHR '';'' \<and>
       list_ex (\<lambda>k. startsWith (map upperChar (dropWhile isSpace cs)) k) separatorKeywords)
      \<or> matchSeparatorMutation cs)"

definition unionSelectHere :: "string \<Rightarrow> bool" where
  "unionSelectHere s =
     (startsWith (map upperChar s) ''UNION'' \<and>
      (let r = drop 5 s in
       r \<noteq> [] \<and> isSpace (hd r) \<and> startsWith (map upperChar (dropWhile isSpace r)) ''SELECT''))"

fun matchUnionSelect :: "string \<Rightarrow> bool" where
  "matchUnionSelect [] = False"
| "matchUnionSelect (c # cs) = (unionSelectHere (c # cs) \<or> matchUnionSelect cs)"

definition suspiciousPatterns :: "(string \<Rightarrow> bool) list" where
  "suspiciousPatterns =
     [matchSeparatorMutation, matchUnionSelect, (\<lambda>s. includesStr s ''--''), (\<lambda>s. includesStr s ''/*'')]"

text \<open>
  \<open>validateQuery\<close> returns nothing and throws on rejection; the model returns the thrown error on
  the left. The two loops stop at the first hit, as the \<open>throw\<close> inside them does.
\<close>

definition validateQuery :: "string \<Rightarrow> query_error + unit" where
  "validateQuery sql =
     (let normalizedSql = toUpperCase (trim sql) in
      if \<not> startsWith normalizedSql ''SELECT'' then Inl OnlySelectAllowed
      else case find (\<lambda>keyword. includesStr normalizedSql keyword) FORBIDDEN_KEYWORDS of
             Some keyword \<Rightarrow> Inl (ForbiddenKeyword keyword)
           | None \<Rightarrow>
               if list_ex (\<lambda>pattern. pattern sql) suspiciousPatterns then Inl SuspiciousPattern
               else Inr ())"


record QueryArgs =
  sql :: string
  limit :: "int option"




definition containsKeyword :: "string \<Rightarrow> string \<Rightarrow> bool" where
  "containsKeyword s k = sublist k (map upperChar s)"


section \<open>Sliding-window rate limiting (RateLimiter.checkSlidingWindow)\<close>

text \<open>
  Times are \<open>Date.now()\<close> readings in milliseconds and are passed in; counts and limits are
  integers. \<open>ceilSeconds ms\<close> is \<open>Math.ceil(ms / 1000)\<close>. The limiter keeps one entry per
  caller in a map; an entry fetched from the map is mutated in place by the source, which the
  model writes back under the caller's key.
\<close>

record RateLimitEntry =
  count :: int
  windowStart :: int
  blocked :: bool
  blockUntil :: "int option"

record RateLimitResult =
  allowed :: bool
  retryAfter :: "int option"
  remaining :: "int option"

definition ceilSeconds :: "int \<Rightarrow> int" where
  "ceilSeconds ms = - ((- ms) div 1000)"

definition windowSize :: int where
  "windowSize = 60000"

text \<open>\<open>customLimit || this.config.rateLimitPerMinute\<close>: an absent or zero custom limit is falsy.\<close>

definition effectiveLimit :: "int \<Rightarrow> int option \<Rightarrow> int" where
  "effectiveLimit rateLimitPerMinute customLimit =
     (case customLimit of
        None \<Rightarrow> rateLimitPerMinute
      | Some l \<Rightarrow> if l \<noteq> 0 then l else rateLimitPerMinute)"

definition freshEntry :: "int \<Rightarrow> RateLimitEntry" where
  "freshEntry now = \<lparr>count = 0, windowStart = now, blocked = False, blockUntil = None\<rparr>"

text \<open>\<open>entry.blocked && entry.blockUntil && now < entry.blockUntil\<close>; a zero \<open>blockUntil\<close> is falsy.\<close>

definition stillBlocked :: "RateLimitEntry \<Rightarrow> int \<Rightarrow> bool" where
  "stillBlocked entry now =
     (blocked entry \<and> (case blockUntil entry of None \<Rightarrow> False | Some b \<Rightarrow> b \<noteq> 0 \<and> now < b))"

definition checkSlidingWindow ::
  "int \<Rightarrow> int \<Rightarrow> (string \<rightharpoonup> RateLimitEntry) \<Rightarrow> string \<Rightarrow> int option \<Rightarrow>
     RateLimitResult \<times> (string \<rightharpoonup> RateLimitEntry)" where
  "checkSlidingWindow rateLimitPerMinute now clients clientId customLimit =
     (let lim = effectiveLimit rateLimitPerMinute customLimit;
          entry = (case clients clientId of
                     None \<Rightarrow> freshEntry now
                   | Some e \<Rightarrow> if now - windowStart e > windowSize then freshEntry now else e)
      in if stillBlocked entry now then
           (\<lparr>allowed = False,
             retryAfter = Some (ceilSeconds (the (blockUntil entry) - now)),
             remaining = Some 0\<rparr>,
            clients(clientId \<mapsto> entry))
         else if count entry \<ge> lim then
           (let entry' = entry\<lparr>blocked := True, blockUntil := Some (windowStart entry + windowSize)\<rparr>
            in (\<lparr>allowed = False,
                  retryAfter = Some (ceilSeconds (windowStart entry + windowSize - now)),
                  remaining = Some 0\<rparr>,
                 clients(clientId \<mapsto> entry')))
         else
           (let entry' = entry\<lparr>count := count entry + 1\<rparr>
            in (\<lparr>allowed = True, retryAfter = None, remaining = Some (lim - count entry')\<rparr>,
                 clients(clientId \<mapsto> entry'))))"

text \<open>A caller's requests at the given clock readings, one after the other.\<close>

fun slidingRequests ::
  "int \<Rightarrow> (string \<rightharpoonup> RateLimitEntry) \<Rightarrow> string \<Rightarrow> int list \<Rightarrow>
     RateLimitResult list \<times> (string \<rightharpoonup> RateLimitEntry)" where
  "slidingRequests rpm clients clientId [] = ([], clients)"
| "slidingRequests rpm clients clientId (now # ts) =
     (let (r, clients') = checkSlidingWindow rpm now clients clientId None;
          (rs, clients'') = slidingRequests rpm clients' clientId ts
      in (r # rs, clients''))"

section \<open>Connection pool (sync_engine/utils/connection_pool.ts)\<close>

text \<open>
  \<open>PoolOptions\<close> declares \<open>minConnections\<close>, \<open>maxConnections\<close>, \<open>idleTimeoutMs\<close>,
  \<open>acquireTimeoutMs\<close> and \<open>busyTimeout\<close>; the class also reads the older names \<open>min\<close>, \<open>max\<close>,
  \<open>idleTimeout\<close> and \<open>acquireTimeout\<close> from the same object (fields \<open>opt_min\<close>, \<open>opt_max\<close>,
  \<open>opt_idleTimeout\<close>, \<open>opt_acquireTimeout\<close> here). A field that was not given is
  \<open>undefined\<close>, the value \<open>None\<close>.
\<close>

record PoolOptions =
  minConnections :: "int option"
  maxConnections :: "int option"
  idleTimeoutMs :: "int option"
  acquireTimeoutMs :: "int option"
  busyTimeout :: "int option"
  opt_min :: "int option"
  opt_max :: "int option"
  opt_idleTimeout :: "int option"
  opt_acquireTimeout :: "int option"

record PooledConnection =
  conn_id :: nat
  inUse :: bool
  lastUsed :: int
  created :: int

text \<open>
  A waiting \<open>acquire\<close> leaves a resolver closure in \<open>waitQueue\<close>; the model names each
  resolver by a ticket number, drawn from \<open>nextTicket\<close>.
\<close>

record DatabasePool =
  poolOptions :: PoolOptions
  connections :: "PooledConnection list"
  waitQueue :: "nat list"
  nextId :: nat
  closed :: bool
  nextTicket :: nat

text \<open>\<open>a || b\<close> on optional numbers: \<open>undefined\<close> and \<open>0\<close> are falsy.\<close>

definition orNumber :: "int option \<Rightarrow> int option \<Rightarrow> int option" where
  "orNumber a b = (case a of None \<Rightarrow> b | Some n \<Rightarrow> if n \<noteq> 0 then Some n else b)"

text \<open>\<open>n < x\<close> where \<open>x\<close> may be \<open>undefined\<close>: the comparison with \<open>undefined\<close> is false.\<close>

definition lessThanOpt :: "int \<Rightarrow> int option \<Rightarrow> bool" where
  "lessThanOpt n x = (case x of None \<Rightarrow> False | Some m \<Rightarrow> n < m)"

text \<open>The defaults the constructor writes into the options object.\<close>

definition constructorDefaults :: "PoolOptions \<Rightarrow> PoolOptions" where
  "constructorDefaults options =
     options\<lparr>
       minConnections := orNumber (minConnections options) (orNumber (opt_min options) (Some 1)),
       maxConnections := orNumber (maxConnections options) (orNumber (opt_max options) (Some 10)),
       idleTimeoutMs := orNumber (idleTimeoutMs options) (orNumber (opt_idleTimeout options) (Some 60000)),
       acquireTimeoutMs :=
         orNumber (acquireTimeoutMs options) (orNumber (opt_acquireTimeout options) (Some 30000)),
       busyTimeout := orNumber (busyTimeout options) (Some 30000)\<rparr>"

definition createConnection :: "int \<Rightarrow> DatabasePool \<Rightarrow> PooledConnection \<times> DatabasePool" where
  "createConnection now pool =
     (let connection = \<lparr>conn_id = nextId pool, inUse = False, lastUsed = now, created = now\<rparr>
      in (connection,
          pool\<lparr>connections := connections pool @ [connection], nextId := nextId pool + 1\<rparr>))"

text \<open>\<open>for (let i = 0; i < this.options.min!; i++) this.createConnection()\<close>, with fuel \<open>k\<close>
  for the iterations that remain.\<close>

fun createConnections :: "nat \<Rightarrow> int \<Rightarrow> DatabasePool \<Rightarrow> DatabasePool" where
  "createConnections 0 now pool = pool"
| "createConnections (Suc k) now pool = createConnections k now (snd (createConnection now pool))"

definition initializePool :: "int \<Rightarrow> DatabasePool \<Rightarrow> DatabasePool" where
  "initializePool now pool =
     (case opt_min (poolOptions pool) of
        None \<Rightarrow> pool
      | Some m \<Rightarrow> createConnections (nat m) now pool)"

definition newDatabasePool :: "int \<Rightarrow> PoolOptions \<Rightarrow> DatabasePool" where
  "newDatabasePool now options =
     initializePool now
       \<lparr>poolOptions = constructorDefaults options, connections = [], waitQueue = [],
        nextId = 1, closed = False, nextTicket = 0\<rparr>"

datatype acquire_outcome =
    Acquired PooledConnection
  | PoolClosed
  | Waiting nat "int option"

text \<open>
  \<open>this.connections.find(c => !c.inUse)\<close> followed by the two assignments to the connection
  found: the first idle connection is marked in place.
\<close>

fun takeIdle :: "int \<Rightarrow> PooledConnection list \<Rightarrow> (PooledConnection \<times> PooledConnection list) option" where
  "takeIdle now [] = None"
| "takeIdle now (c # cs) =
     (if \<not> inUse c then
        Some (c\<lparr>inUse := True, lastUsed := now\<rparr>, c\<lparr>inUse := True, lastUsed := now\<rparr> # cs)
      else (case takeIdle now cs of
              None \<Rightarrow> None
            | Some (r, cs') \<Rightarrow> Some (r, c # cs')))"

text \<open>Assignments to one pooled connection object, found by its identity.\<close>

definition updateConnection ::
  "nat \<Rightarrow> (PooledConnection \<Rightarrow> PooledConnection) \<Rightarrow> PooledConnection list \<Rightarrow> PooledConnection list" where
  "updateConnection i f cs = map (\<lambda>c. if conn_id c = i then f c else c) cs"

text \<open>
  \<open>acquire\<close>. The third outcome is the pending promise: \<open>Waiting t d\<close> says that resolver \<open>t\<close>
  was appended to the wait queue and that a timer was started with delay \<open>d\<close>, the value of
  \<open>this.options.acquireTimeout\<close>.
\<close>

definition acquire :: "int \<Rightarrow> DatabasePool \<Rightarrow> acquire_outcome \<times> DatabasePool" where
  "acquire now pool =
     (if closed pool then (PoolClosed, pool)
      else case takeIdle now (connections pool) of
             Some (connection, cs') \<Rightarrow> (Acquired connection, pool\<lparr>connections := cs'\<rparr>)
           | None \<Rightarrow>
               if lessThanOpt (int (length (connections pool))) (opt_max (poolOptions pool)) then
                 (let (connection, pool') = createConnection now pool;
                      connection' = connection\<lparr>inUse := True, lastUsed := now\<rparr>
                  in (Acquired connection',
                      pool'\<lparr>connections :=
                              updateConnection (conn_id connection) (\<lambda>_. connection') (connections pool')\<rparr>))
               else
                 (Waiting (nextTicket pool) (opt_acquireTimeout (poolOptions pool)),
                  pool\<lparr>waitQueue := waitQueue pool @ [nextTicket pool],
                       nextTicket := nextTicket pool + 1\<rparr>))"

text \<open>The delay a timer really gets: \<open>setTimeout\<close> turns a missing delay, or one below 1, into 1 ms.\<close>

definition timerDelay :: "int option \<Rightarrow> int" where
  "timerDelay d = (case d of None \<Rightarrow> 1 | Some n \<Rightarrow> if n < 1 then 1 else n)"

text \<open>
  The timer of a waiting \<open>acquire\<close> fires: its resolver leaves the queue and the promise is
  rejected with "Connection acquire timeout". A resolver that was already served cleared its
  timer, so the event does nothing for it.
\<close>

definition acquireTimeoutFires :: "nat \<Rightarrow> DatabasePool \<Rightarrow> bool \<times> DatabasePool" where
  "acquireTimeoutFires t pool =
     (if t \<in> set (waitQueue pool) then (True, pool\<lparr>waitQueue := remove1 t (waitQueue pool)\<rparr>)
      else (False, pool))"

text \<open>
  \<open>release\<close>: the connection becomes idle; if a resolver waits, the oldest one is taken from the
  front of the queue and called with the connection, which marks it in use again. The result
  names the resolver served, if any.
\<close>

definition release :: "int \<Rightarrow> nat \<Rightarrow> DatabasePool \<Rightarrow> nat option \<times> DatabasePool" where
  "release now i pool =
     (let pool1 = pool\<lparr>connections :=
                        updateConnection i (\<lambda>c. c\<lparr>inUse := False, lastUsed := now\<rparr>) (connections pool)\<rparr>
      in case waitQueue pool1 of
           [] \<Rightarrow> (None, pool1)
         | resolver # rest \<Rightarrow>
             (Some resolver,
              pool1\<lparr>waitQueue := rest,
                     connections :=
                       updateConnection i (\<lambda>c. c\<lparr>inUse := True, lastUsed := now\<rparr>) (connections pool1)\<rparr>))"

text \<open>The options the connection manager passes (database/connection.ts, \<open>getPool\<close>).\<close>

definition managerPoolOptions :: PoolOptions where
  "managerPoolOptions =
     \<lparr>minConnections = Some 2, maxConnections = Some 10, idleTimeoutMs = Some 30000,
      acquireTimeoutMs = Some 5000, busyTimeout = None,
      opt_min = None, opt_max = None, opt_idleTimeout = None, opt_acquireTimeout = None\<rparr>"

text \<open>The options of the module's own fallback in \<open>getPool\<close>, given under the older names.\<close>

definition legacyPoolOptions :: PoolOptions where
  "legacyPoolOptions =
     \<lparr>minConnections = None, maxConnections = None, idleTimeoutMs = None,
      acquireTimeoutMs = None, busyTimeout = Some 30000,
      opt_min = Some 2, opt_max = Some 10, opt_idleTimeout = Some 60000,
      opt_acquireTimeout = Some 30000\<rparr>"

section \<open>Streaming line processor (sync_engine/utils/jsonl_stream.ts)\<close>

text \<open>
  \<open>JSONLStreamProcessor.processFile\<close> reacts to the \<open>line\<close> events of a line reader and to its
  \<open>close\<close> event. The model runs the handlers one after the other over the lines of the file:
  each handler call finishes, including the awaited batch, before the next line is looked at.
  \<open>JSON.parse\<close> is the parameter \<open>parse\<close> (\<open>None\<close> when it throws) and the downstream
  \<open>processor\<close> is a parameter that says whether its promise resolves (\<open>True\<close>) or rejects.
  Two traces are kept besides the fields of the class: the events emitted and the batches
  handed to the processor.
\<close>

record JSONLStreamOptions =
  batchSize :: "nat option"
  maxLineLength :: "nat option"

record 'a JSONLEntry =
  data :: 'a
  lineNumber :: nat
  raw :: string

record ProcessingStats =
  totalLines :: nat
  processedLines :: nat
  errorLines :: nat

datatype stream_event =
    ErrorLine nat
  | ParseErrorLine nat
  | BatchError "nat list"
  | Progress nat nat nat
  | Complete

record 'a JSONLStreamProcessor =
  optBatchSize :: nat
  optMaxLineLength :: nat
  stats :: ProcessingStats
  currentBatch :: "'a JSONLEntry list"
  lineCounter :: nat
  emitted :: "stream_event list"
  delivered :: "'a JSONLEntry list list"

text \<open>\<open>options.batchSize || 100\<close> and \<open>options.maxLineLength || 10 * 1024 * 1024\<close>.\<close>

definition orDefault :: "nat option \<Rightarrow> nat \<Rightarrow> nat" where
  "orDefault v d = (case v of None \<Rightarrow> d | Some n \<Rightarrow> if n \<noteq> 0 then n else d)"

definition newJSONLStreamProcessor :: "JSONLStreamOptions \<Rightarrow> 'a JSONLStreamProcessor" where
  "newJSONLStreamProcessor options =
     \<lparr>optBatchSize = orDefault (batchSize options) 100,
      optMaxLineLength = orDefault (maxLineLength options) (10 * 1024 * 1024),
      stats = \<lparr>totalLines = 0, processedLines = 0, errorLines = 0\<rparr>,
      currentBatch = [], lineCounter = 0, emitted = [], delivered = []\<rparr>"

definition addErrorLines :: "nat \<Rightarrow> 'a JSONLStreamProcessor \<Rightarrow> 'a JSONLStreamProcessor" where
  "addErrorLines k sp = sp\<lparr>stats := (stats sp)\<lparr>errorLines := errorLines (stats sp) + k\<rparr>\<rparr>"

definition emit :: "stream_event \<Rightarrow> 'a JSONLStreamProcessor \<Rightarrow> 'a JSONLStreamProcessor" where
  "emit ev sp = sp\<lparr>emitted := emitted sp @ [ev]\<rparr>"

definition processBatch ::
  "('a JSONLEntry list \<Rightarrow> bool) \<Rightarrow> 'a JSONLStreamProcessor \<Rightarrow> 'a JSONLStreamProcessor" where
  "processBatch processor sp =
     (if currentBatch sp = [] then sp
      else
        (let batch = currentBatch sp;
             sp1 = sp\<lparr>currentBatch := [], delivered := delivered sp @ [batch]\<rparr>
         in if processor batch then
              (let sp2 = sp1\<lparr>stats := (stats sp1)
                                \<lparr>processedLines := processedLines (stats sp1) + length batch\<rparr>\<rparr>
               in emit (Progress (processedLines (stats sp2)) (totalLines (stats sp2))
                          (errorLines (stats sp2))) sp2)
            else addErrorLines (length batch) (emit (BatchError (map lineNumber batch)) sp1)))"

definition onLine ::
  "(string \<Rightarrow> 'a option) \<Rightarrow> ('a JSONLEntry list \<Rightarrow> bool) \<Rightarrow> string \<Rightarrow>
     'a JSONLStreamProcessor \<Rightarrow> 'a JSONLStreamProcessor" where
  "onLine parse processor line sp =
     (let n = lineCounter sp + 1;
          sp1 = sp\<lparr>lineCounter := n, stats := (stats sp)\<lparr>totalLines := totalLines (stats sp) + 1\<rparr>\<rparr>
      in if length line > optMaxLineLength sp1 then addErrorLines 1 (emit (ErrorLine n) sp1)
         else if trim line = [] then sp1
         else case parse line of
                None \<Rightarrow> addErrorLines 1 (emit (ParseErrorLine n) sp1)
              | Some d \<Rightarrow>
                  (let sp2 = sp1\<lparr>currentBatch :=
                                    currentBatch sp1 @ [\<lparr>data = d, lineNumber = n, raw = line\<rparr>]\<rparr>
                   in if length (currentBatch sp2) \<ge> optBatchSize sp2 then processBatch processor sp2
                      else sp2))"

definition onClose ::
  "('a JSONLEntry list \<Rightarrow> bool) \<Rightarrow> 'a JSONLStreamProcessor \<Rightarrow> 'a JSONLStreamProcessor" where
  "onClose processor sp =
     emit Complete (if currentBatch sp \<noteq> [] then processBatch processor sp else sp)"

fun onLines ::
  "(string \<Rightarrow> 'a option) \<Rightarrow> ('a JSONLEntry list \<Rightarrow> bool) \<Rightarrow> string list \<Rightarrow>
     'a JSONLStreamProcessor \<Rightarrow> 'a JSONLStreamProcessor" where
  "onLines parse processor [] sp = sp"
| "onLines parse processor (l # ls) sp = onLines parse processor ls (onLine parse processor l sp)"

definition processFile ::
  "(string \<Rightarrow> 'a option) \<Rightarrow> ('a JSONLEntry list \<Rightarrow> bool) \<Rightarrow> JSONLStreamOptions \<Rightarrow> string list \<Rightarrow>
     'a JSONLStreamProcessor" where
  "processFile parse processor options ls =
     onClose processor (onLines parse processor ls (newJSONLStreamProcessor options))"

text \<open>The line-level error events of a trace, as the line numbers they carry.\<close>

fun lineErrorNumbers :: "stream_event list \<Rightarrow> nat list" where
  "lineErrorNumbers [] = []"
| "lineErrorNumbers (ErrorLine n # evs) = n # lineErrorNumbers evs"
| "lineErrorNumbers (ParseErrorLine n # evs) = n # lineErrorNumbers evs"
| "lineErrorNumbers (_ # evs) = lineErrorNumbers evs"

text \<open>
  The three kinds of line, as the specification separates them. A line is malformed in the
  specification's sense when it is longer than the maximum or cannot be decoded; a line is
  well formed when it is neither. The processor has a third kind: a line of white space only
  that is not too long.
\<close>

definition tooLong :: "nat \<Rightarrow> string \<Rightarrow> bool" where
  "tooLong maxLen l = (length l > maxLen)"

definition malformedLine :: "(string \<Rightarrow> 'a option) \<Rightarrow> nat \<Rightarrow> string \<Rightarrow> bool" where
  "malformedLine parse maxLen l = (tooLong maxLen l \<or> parse l = None)"

definition blankLine :: "nat \<Rightarrow> string \<Rightarrow> bool" where
  "blankLine maxLen l = (length l \<le> maxLen \<and> trim l = [])"

text \<open>
  What the file order promises: the entries of the lines that are decoded, and the numbers of
  the lines that are reported, counting lines from \<open>n + 1\<close>.
\<close>

fun decodedEntries :: "(string \<Rightarrow> 'a option) \<Rightarrow> nat \<Rightarrow> nat \<Rightarrow> string list \<Rightarrow> 'a JSONLEntry list" where
  "decodedEntries parse maxLen n [] = []"
| "decodedEntries parse maxLen n (l # ls) =
     (if tooLong maxLen l \<or> trim l = [] then decodedEntries parse maxLen (n + 1) ls
      else case parse l of
             None \<Rightarrow> decodedEntries parse maxLen (n + 1) ls
           | Some d \<Rightarrow> \<lparr>data = d, lineNumber = n + 1, raw = l\<rparr> # decodedEntries parse maxLen (n + 1) ls)"

fun reportedLines :: "(string \<Rightarrow> 'a option) \<Rightarrow> nat \<Rightarrow> nat \<Rightarrow> string list \<Rightarrow> nat list" where
  "reportedLines parse maxLen n [] = []"
| "reportedLines parse maxLen n (l # ls) =
     (if tooLong maxLen l \<or> (trim l \<noteq> [] \<and> parse l = None)
      then (n + 1) # reportedLines parse maxLen (n + 1) ls
      else reportedLines parse maxLen (n + 1) ls)"

text \<open>
  A decoder for concrete runs: \<open>JSON.parse\<close> on the texts \<open>null\<close>, \<open>true\<close>, \<open>false\<close>, \<open>{}\<close> and
  \<open>[]\<close>, with white space around them allowed. It rejects every other text, so it agrees with
  \<open>JSON.parse\<close> on the lines used below: the literals, blank lines, and \<open>{oops\<close>.
\<close>

datatype json_literal = LitNull | LitTrue | LitFalse | LitEmptyObject | LitEmptyArray

definition parseLiteral :: "string \<Rightarrow> json_literal option" where
  "parseLiteral s =
     (let t = trim s in
      if t = ''null'' then Some LitNull
      else if t = ''true'' then Some LitTrue
      else if t = ''false'' then Some LitFalse
      else if t = ''{}'' then Some LitEmptyObject
      else if t = ''[]'' then Some LitEmptyArray
      else None)"

text \<open>A downstream processor whose promise always resolves.\<close>

definition alwaysResolves :: "'a JSONLEntry list \<Rightarrow> bool" where
  "alwaysResolves batch = True"

section \<open>Decoded log lines: JSON values and the JavaScript operations used on them\<close>

text \<open>
  A decoded line is a JSON value. Numbers are integers of magnitude below \<open>10^21\<close> here (a
  restriction of the model: JavaScript prints a larger number in exponent notation, and a
  fraction with its decimals). An object is the list of its members, with distinct keys, in the
  order in which the object enumerates them: for a decoded line, the keys that are array
  indices first, in ascending order, then the other keys in the order of the text. A value that
  may be \<open>undefined\<close> is a \<open>jsval\<close>, with \<open>None\<close> for \<open>undefined\<close>.
\<close>

datatype json =
    JNull
  | JBool bool
  | JNum int
  | JStr string
  | JArr "json list"
  | JObj "(string \<times> json) list"

type_synonym jsval = "json option"

datatype js_error = TypeError string

text \<open>Truthiness: \<open>undefined\<close>, \<open>null\<close>, \<open>false\<close>, \<open>0\<close> and the empty string are falsy.\<close>

fun truthy :: "jsval \<Rightarrow> bool" where
  "truthy None = False"
| "truthy (Some JNull) = False"
| "truthy (Some (JBool b)) = b"
| "truthy (Some (JNum n)) = (n \<noteq> 0)"
| "truthy (Some (JStr s)) = (s \<noteq> [])"
| "truthy (Some (JArr xs)) = True"
| "truthy (Some (JObj kvs)) = True"

text \<open>
  \<open>x.f\<close> for the member names the pipeline reads: a \<open>TypeError\<close> when \<open>x\<close> is \<open>null\<close> or
  \<open>undefined\<close>, the member or \<open>undefined\<close> on an object, \<open>undefined\<close> on every other value.
  \<open>x?.f\<close> gives \<open>undefined\<close> instead of the error.
\<close>

fun getProp :: "json \<Rightarrow> string \<Rightarrow> js_error + jsval" where
  "getProp JNull f = Inl (TypeError f)"
| "getProp (JObj kvs) f = Inr (map_of kvs f)"
| "getProp (JBool b) f = Inr None"
| "getProp (JNum n) f = Inr None"
| "getProp (JStr s) f = Inr None"
| "getProp (JArr xs) f = Inr None"

fun optProp :: "jsval \<Rightarrow> string \<Rightarrow> jsval" where
  "optProp (Some (JObj kvs)) f = map_of kvs f"
| "optProp _ f = None"

text \<open>\<open>a || b\<close>, and \<open>a || null\<close> with a JSON value as result.\<close>

definition orElse :: "jsval \<Rightarrow> json \<Rightarrow> json" where
  "orElse a b = (if truthy a then the a else b)"

definition orNull :: "jsval \<Rightarrow> json" where
  "orNull a = orElse a JNull"

fun isArray :: "jsval \<Rightarrow> bool" where
  "isArray (Some (JArr xs)) = True"
| "isArray _ = False"

text \<open>\<open>item.type === t\<close> for a string \<open>t\<close>.\<close>

definition typeIs :: "json \<Rightarrow> string \<Rightarrow> js_error + bool" where
  "typeIs item t = (case getProp item ''type'' of Inl e \<Rightarrow> Inl e | Inr v \<Rightarrow> Inr (v = Some (JStr t)))"

text \<open>Decimal numerals, as number-to-string conversion prints integers.\<close>

definition digitChar :: "nat \<Rightarrow> char" where
  "digitChar d = ''0123456789abcdef'' ! d"

fun showNat :: "nat \<Rightarrow> string" where
  "showNat n = (if n < 10 then [digitChar n] else showNat (n div 10) @ [digitChar (n mod 10)])"

declare showNat.simps [simp del]

definition showInt :: "int \<Rightarrow> string" where
  "showInt i = (if i < 0 then CHR ''-'' # showNat (nat (- i)) else showNat (nat i))"

fun joinWith :: "string \<Rightarrow> string list \<Rightarrow> string" where
  "joinWith sep [] = []"
| "joinWith sep [x] = x"
| "joinWith sep (x # y # ys) = x @ sep @ joinWith sep (y # ys)"

text \<open>
  \<open>JSON.stringify\<close> on a JSON value: no white space, members in the order of enumeration,
  strings quoted with the escapes of the standard (quote, backslash, the short escapes,
  \<open>\u00XX\<close> for the other control characters), numbers in decimal digits (which is how
  JavaScript prints an integer below \<open>10^21\<close>).
\<close>

definition escapeChar :: "char \<Rightarrow> string" where
  "escapeChar c =
     (if c = CHR 0x22 then [CHR 0x5C, CHR 0x22]
      else if c = CHR 0x5C then [CHR 0x5C, CHR 0x5C]
      else if c = CHR 0x08 then [CHR 0x5C, CHR ''b'']
      else if c = CHR 0x0C then [CHR 0x5C, CHR ''f'']
      else if c = CHR 0x0A then [CHR 0x5C, CHR ''n'']
      else if c = CHR 0x0D then [CHR 0x5C, CHR ''r'']
      else if c = CHR 0x09 then [CHR 0x5C, CHR ''t'']
      else if (of_char c :: nat) < 32 then
        [CHR 0x5C, CHR ''u'', CHR ''0'', CHR ''0'',
         digitChar ((of_char c :: nat) div 16), digitChar ((of_char c :: nat) mod 16)]
      else [c])"

definition quoteString :: "string \<Rightarrow> string" where
  "quoteString s = CHR 0x22 # concat (map escapeChar s) @ [CHR 0x22]"

fun stringify :: "json \<Rightarrow> string"
  and stringifyElems :: "json list \<Rightarrow> string list"
  and stringifyMembers :: "(string \<times> json) list \<Rightarrow> string list" where
  "stringify JNull = ''null''"
| "stringify (JBool b) = (if b then ''true'' else ''false'')"
| "stringify (JNum n) = showInt n"
| "stringify (JStr s) = quoteString s"
| "stringify (JArr xs) = ''['' @ joinWith '','' (stringifyElems xs) @ '']''"
| "stringify (JObj kvs) = ''{'' @ joinWith '','' (stringifyMembers kvs) @ ''}''"
| "stringifyElems [] = []"
| "stringifyElems (x # xs) = stringify x # stringifyElems xs"
| "stringifyMembers [] = []"
| "stringifyMembers ((k, v) # kvs) = (quoteString k @ '':'' @ stringify v) # stringifyMembers kvs"

text \<open>
  Conversion to a string as \<open>Array.prototype.join\<close> and template literals do it: an array is
  joined with commas, \<open>null\<close> inside an array gives the empty string, an object gives
  \<open>[object Object]\<close>.
\<close>

fun toStr :: "json \<Rightarrow> string"
  and toStrElems :: "json list \<Rightarrow> string list" where
  "toStr JNull = ''null''"
| "toStr (JBool b) = (if b then ''true'' else ''false'')"
| "toStr (JNum n) = showInt n"
| "toStr (JStr s) = s"
| "toStr (JArr xs) = joinWith '','' (toStrElems xs)"
| "toStr (JObj kvs) = ''[object Object]''"
| "toStrElems [] = []"
| "toStrElems (x # xs) = (if x = JNull then [] else toStr x) # toStrElems xs"

text \<open>\<open>xs.some(f)\<close> for a callback that can throw: it stops at the first hit or error.\<close>

fun someE :: "('a \<Rightarrow> js_error + bool) \<Rightarrow> 'a list \<Rightarrow> js_error + bool" where
  "someE f [] = Inr False"
| "someE f (x # xs) =
     (case f x of
        Inl e \<Rightarrow> Inl e
      | Inr True \<Rightarrow> Inr True
      | Inr False \<Rightarrow> someE f xs)"

text \<open>\<open>message.message?.content\<close>.\<close>

definition messageContent :: "json \<Rightarrow> js_error + jsval" where
  "messageContent entry =
     (case getProp entry ''message'' of Inl e \<Rightarrow> Inl e | Inr m \<Rightarrow> Inr (optProp m ''content''))"

section \<open>Tool extraction (transform/tool_extractor.ts)\<close>

record ToolUseData =
  tu_id :: jsval
  tu_messageId :: jsval
  tu_toolId :: jsval
  tu_toolName :: jsval
  tu_parameters :: string

record ToolResultData =
  tr_id :: string
  tr_toolUseId :: jsval
  tr_messageId :: jsval
  tr_output :: "string option"
  tr_outputMimeType :: json
  tr_error :: json
  tr_errorType :: "string option"

record 'r Extracted =
  extracted :: "'r list"
  cleanedContent :: "json list"
  hasTools :: bool

text \<open>
  One step of the loop of \<open>extractToolUses\<close>: the item is split off as a tool use or kept. The
  second argument is \<open>message.uuid\<close>.
\<close>

definition toolUseOf :: "jsval \<Rightarrow> json \<Rightarrow> js_error + ToolUseData option" where
  "toolUseOf uuid contentItem =
     (case typeIs contentItem ''tool_use'' of
        Inl e \<Rightarrow> Inl e
      | Inr False \<Rightarrow> Inr None
      | Inr True \<Rightarrow>
          Inr (Some \<lparr>tu_id = optProp (Some contentItem) ''id'',
                     tu_messageId = uuid,
                     tu_toolId = optProp (Some contentItem) ''id'',
                     tu_toolName = optProp (Some contentItem) ''name'',
                     tu_parameters =
                       stringify (orElse (optProp (Some contentItem) ''input'') (JObj []))\<rparr>))"

fun toolUsesLoop :: "jsval \<Rightarrow> json list \<Rightarrow> js_error + (ToolUseData list \<times> json list)" where
  "toolUsesLoop uuid [] = Inr ([], [])"
| "toolUsesLoop uuid (contentItem # rest) =
     (case toolUseOf uuid contentItem of
        Inl e \<Rightarrow> Inl e
      | Inr r \<Rightarrow>
          (case toolUsesLoop uuid rest of
             Inl e \<Rightarrow> Inl e
           | Inr (uses, cleaned) \<Rightarrow>
               (case r of
                  Some toolUse \<Rightarrow> Inr (toolUse # uses, cleaned)
                | None \<Rightarrow> Inr (uses, contentItem # cleaned))))"

text \<open>The items of \<open>message.message?.content || []\<close> when the content is not a usable array.\<close>

definition contentOrEmpty :: "jsval \<Rightarrow> json list" where
  "contentOrEmpty content = (case content of Some (JArr xs) \<Rightarrow> xs | _ \<Rightarrow> [])"

definition extractToolUses :: "json \<Rightarrow> js_error + ToolUseData Extracted" where
  "extractToolUses message =
     (case messageContent message of
        Inl e \<Rightarrow> Inl e
      | Inr content \<Rightarrow>
          (case content of
             Some (JArr items) \<Rightarrow>
               (case getProp message ''uuid'' of
                  Inl e \<Rightarrow> Inl e
                | Inr uuid \<Rightarrow>
                    (case toolUsesLoop uuid items of
                       Inl e \<Rightarrow> Inl e
                     | Inr (uses, cleaned) \<Rightarrow>
                         Inr \<lparr>extracted = uses, cleanedContent = cleaned, hasTools = (uses \<noteq> [])\<rparr>))
           | _ \<Rightarrow> Inr \<lparr>extracted = [], cleanedContent = contentOrEmpty content, hasTools = False\<rparr>))"

text \<open>
  The text of one element of an array-valued result content:
  \<open>typeof item === 'string' ? item : (item.text || JSON.stringify(item))\<close>, then the conversion
  that \<open>join\<close> applies to it.
\<close>

definition resultItemText :: "json \<Rightarrow> js_error + string" where
  "resultItemText item =
     (case item of
        JStr s \<Rightarrow> Inr s
      | _ \<Rightarrow>
          (case getProp item ''text'' of
             Inl e \<Rightarrow> Inl e
           | Inr t \<Rightarrow> if truthy t then Inr (toStr (the t)) else Inr (stringify item)))"

fun mapE :: "('a \<Rightarrow> js_error + 'b) \<Rightarrow> 'a list \<Rightarrow> js_error + 'b list" where
  "mapE f [] = Inr []"
| "mapE f (x # xs) =
     (case f x of
        Inl e \<Rightarrow> Inl e
      | Inr y \<Rightarrow> (case mapE f xs of Inl e \<Rightarrow> Inl e | Inr ys \<Rightarrow> Inr (y # ys)))"

text \<open>The normalisation of \<open>contentItem.content\<close> into \<open>outputContent\<close>.\<close>

definition outputContent :: "jsval \<Rightarrow> js_error + string option" where
  "outputContent content =
     (if \<not> truthy content then Inr None
      else case the content of
             JStr s \<Rightarrow> Inr (Some s)
           | JArr items \<Rightarrow>
               (case mapE resultItemText items of
                  Inl e \<Rightarrow> Inl e
                | Inr texts \<Rightarrow> Inr (Some (joinWith [CHR 0x0A] texts)))
           | other \<Rightarrow> Inr (Some (stringify other)))"

text \<open>
  One step of the loop of \<open>extractToolResults\<close>. \<open>fresh\<close> is the identifier that \<open>uuidv4()\<close>
  returns for this item.
\<close>

definition toolResultOf :: "string \<Rightarrow> jsval \<Rightarrow> json \<Rightarrow> js_error + ToolResultData option" where
  "toolResultOf fresh uuid contentItem =
     (case typeIs contentItem ''tool_result'' of
        Inl e \<Rightarrow> Inl e
      | Inr False \<Rightarrow> Inr None
      | Inr True \<Rightarrow>
          (case outputContent (optProp (Some contentItem) ''content'') of
             Inl e \<Rightarrow> Inl e
           | Inr out \<Rightarrow>
               Inr (Some \<lparr>tr_id = fresh,
                          tr_toolUseId = optProp (Some contentItem) ''tool_use_id'',
                          tr_messageId = uuid,
                          tr_output = out,
                          tr_outputMimeType = orNull (optProp (Some contentItem) ''content_type''),
                          tr_error = orNull (optProp (Some contentItem) ''error''),
                          tr_errorType =
                            (if truthy (optProp (Some contentItem) ''error'')
                             then Some ''tool_error'' else None)\<rparr>)))"

text \<open>
  The loop takes its identifiers from the sequence \<open>uuids\<close>, starting at position \<open>k\<close>; every
  tool result uses up one position.
\<close>

fun toolResultsLoop ::
  "(nat \<Rightarrow> string) \<Rightarrow> nat \<Rightarrow> jsval \<Rightarrow> json list \<Rightarrow> js_error + (ToolResultData list \<times> json list)" where
  "toolResultsLoop uuids k uuid [] = Inr ([], [])"
| "toolResultsLoop uuids k uuid (contentItem # rest) =
     (case toolResultOf (uuids k) uuid contentItem of
        Inl e \<Rightarrow> Inl e
      | Inr (Some toolResult) \<Rightarrow>
          (case toolResultsLoop uuids (k + 1) uuid rest of
             Inl e \<Rightarrow> Inl e
           | Inr (rs, cleaned) \<Rightarrow> Inr (toolResult # rs, cleaned))
      | Inr None \<Rightarrow>
          (case toolResultsLoop uuids k uuid rest of
             Inl e \<Rightarrow> Inl e
           | Inr (rs, cleaned) \<Rightarrow> Inr (rs, contentItem # cleaned)))"

definition extractToolResults :: "(nat \<Rightarrow> string) \<Rightarrow> nat \<Rightarrow> json \<Rightarrow> js_error + ToolResultData Extracted" where
  "extractToolResults uuids k message =
     (case messageContent message of
        Inl e \<Rightarrow> Inl e
      | Inr content \<Rightarrow>
          (case content of
             Some (JArr items) \<Rightarrow>
               (case getProp message ''uuid'' of
                  Inl e \<Rightarrow> Inl e
                | Inr uuid \<Rightarrow>
                    (case toolResultsLoop uuids k uuid items of
                       Inl e \<Rightarrow> Inl e
                     | Inr (rs, cleaned) \<Rightarrow>
                         Inr \<lparr>extracted = rs, cleanedContent = cleaned, hasTools = (rs \<noteq> [])\<rparr>))
           | _ \<Rightarrow> Inr \<lparr>extracted = [], cleanedContent = contentOrEmpty content, hasTools = False\<rparr>))"

section \<open>Schema mapping of tool records (transform/schema_mapper.ts)\<close>

text \<open>
  \<open>ToolUseRecord\<close> and \<open>ToolResultRecord\<close> have the members of \<open>ToolUseData\<close> and
  \<open>ToolResultData\<close>, so the same record types serve for them.
\<close>

definition mapToToolUseRecord :: "ToolUseData \<Rightarrow> ToolUseData" where
  "mapToToolUseRecord toolUse =
     \<lparr>tu_id = tu_id toolUse, tu_messageId = tu_messageId toolUse, tu_toolId = tu_toolId toolUse,
      tu_toolName = tu_toolName toolUse, tu_parameters = tu_parameters toolUse\<rparr>"

definition mapToToolResultRecord :: "ToolResultData \<Rightarrow> ToolResultData" where
  "mapToToolResultRecord toolResult =
     \<lparr>tr_id = tr_id toolResult, tr_toolUseId = tr_toolUseId toolResult,
      tr_messageId = tr_messageId toolResult, tr_output = tr_output toolResult,
      tr_outputMimeType = JNull, tr_error = tr_error toolResult, tr_errorType = None\<rparr>"

text \<open>
  The vocabulary of the claims about fragments: a content item is a fragment of kind \<open>t\<close> when
  its \<open>type\<close> member is the string \<open>t\<close>; \<open>fragmentText\<close> is what one element of an array-valued
  result content contributes to the output; \<open>noNullFragments\<close> says that neither the content
  list nor an array-valued result content holds a \<open>null\<close> element (reading a member of \<open>null\<close>
  throws).
\<close>

definition isFragment :: "string \<Rightarrow> json \<Rightarrow> bool" where
  "isFragment t item = (optProp (Some item) ''type'' = Some (JStr t))"

definition fragmentText :: "json \<Rightarrow> string" where
  "fragmentText item =
     (case item of
        JStr s \<Rightarrow> s
      | _ \<Rightarrow> if truthy (optProp (Some item) ''text'') then toStr (the (optProp (Some item) ''text''))
             else stringify item)"

definition normalisedOutput :: "json \<Rightarrow> string option" where
  "normalisedOutput item =
     (let content = optProp (Some item) ''content'' in
      if \<not> truthy content then None
      else case the content of
             JStr s \<Rightarrow> Some s
           | JArr xs \<Rightarrow> Some (joinWith [CHR 0x0A] (map fragmentText xs))
           | other \<Rightarrow> Some (stringify other))"

definition nullFreeContent :: "json \<Rightarrow> bool" where
  "nullFreeContent item =
     (case optProp (Some item) ''content'' of Some (JArr xs) \<Rightarrow> JNull \<notin> set xs | _ \<Rightarrow> True)"

definition noNullFragments :: "json list \<Rightarrow> bool" where
  "noNullFragments items = (JNull \<notin> set items \<and> list_all nullFreeContent items)"

text \<open>An identifier sequence for concrete runs.\<close>

definition uuidSeq :: "nat \<Rightarrow> string" where
  "uuidSeq n = ''uuid-'' @ showNat n"

text \<open>
  Lines for concrete runs. The first two are the scenario lines of the specification; the third
  carries one result whose content is an array of mixed fragments and which has an \<open>error\<close>
  member; the fourth carries a result whose content is the empty string.
\<close>

definition toolUseLine :: json where
  "toolUseLine =
     JObj [(''type'', JStr ''assistant''), (''uuid'', JStr ''m1''), (''sessionId'', JStr ''s1''),
           (''timestamp'', JStr ''T''),
           (''message'', JObj [(''role'', JStr ''assistant''),
              (''content'', JArr [JObj [(''type'', JStr ''text''), (''text'', JStr ''ok'')],
                                 JObj [(''type'', JStr ''tool_use''), (''id'', JStr ''toolu_1''),
                                       (''name'', JStr ''Read''),
                                       (''input'', JObj [(''file_path'', JStr ''/a'')])]])])]"

definition toolResultLine :: json where
  "toolResultLine =
     JObj [(''type'', JStr ''user''), (''uuid'', JStr ''m2''), (''sessionId'', JStr ''s1''),
           (''timestamp'', JStr ''T2''),
           (''message'', JObj [(''role'', JStr ''user''),
              (''content'', JArr [JObj [(''type'', JStr ''tool_result''),
                                       (''tool_use_id'', JStr ''toolu_1''),
                                       (''content'', JStr ''file contents'')]])])]"

definition mixedResultLine :: json where
  "mixedResultLine =
     JObj [(''type'', JStr ''user''), (''uuid'', JStr ''m3''), (''sessionId'', JStr ''s1''),
           (''message'', JObj [(''role'', JStr ''user''),
              (''content'', JArr [JObj [(''type'', JStr ''tool_result''),
                                       (''tool_use_id'', JStr ''toolu_2''),
                                       (''content'', JArr [JStr ''a'',
                                                          JObj [(''type'', JStr ''text''), (''text'', JStr ''b'')],
                                                          JObj [(''n'', JNum 7)]]),
                                       (''error'', JStr ''bad'')]])])]"

definition emptyContentLine :: json where
  "emptyContentLine =
     JObj [(''type'', JStr ''user''), (''uuid'', JStr ''m4''), (''sessionId'', JStr ''s1''),
           (''message'', JObj [(''role'', JStr ''user''),
              (''content'', JArr [JObj [(''type'', JStr ''tool_result''),
                                       (''tool_use_id'', JStr ''toolu_3''),
                                       (''content'', JStr '''')]])])]"

section \<open>The store (execute/schema.ts)\<close>

text \<open>
  The six tables, each a list of rows in insertion order. A cell is a text or NULL
  (\<open>None\<close>); the two boolean columns hold integers. The constraints of the schema are checked
  by the insert functions below: NOT NULL columns, primary keys (a NULL key never conflicts),
  the UNIQUE \<open>sessionId\<close> of a session, and the foreign keys, which the connection enforces
  at the end of each statement.
\<close>

type_synonym cell = "string option"

record session_row =
  sr_id :: cell
  sr_sessionId :: cell
  sr_sessionPath :: cell

record message_row =
  mr_id :: cell
  mr_sessionId :: cell
  mr_type :: cell
  mr_timestamp :: cell
  mr_isSidechain :: int
  mr_projectName :: cell
  mr_activeFile :: cell
  mr_userText :: cell
  mr_userType :: cell
  mr_userAttachments :: cell
  mr_toolUseResultId :: cell
  mr_toolUseResultName :: cell
  mr_assistantRole :: cell
  mr_assistantText :: cell
  mr_assistantModel :: cell

record tool_use_row =
  ur_id :: cell
  ur_messageId :: cell
  ur_toolId :: cell
  ur_toolName :: cell
  ur_parameters :: cell

record tool_result_row =
  rr_id :: cell
  rr_toolUseId :: cell
  rr_messageId :: cell
  rr_output :: cell
  rr_outputMimeType :: cell
  rr_error :: cell
  rr_errorType :: cell

record attachment_row =
  ar_id :: cell
  ar_messageId :: cell
  ar_type :: cell
  ar_text :: cell
  ar_url :: cell
  ar_mimeType :: cell
  ar_title :: cell
  ar_filePath :: cell

record env_info_row =
  er_id :: cell
  er_messageId :: cell
  er_workingDirectory :: cell
  er_isGitRepo :: int
  er_platform :: cell
  er_osVersion :: cell
  er_todaysDate :: cell

record Store =
  sessions :: "session_row list"
  messages :: "message_row list"
  tool_uses :: "tool_use_row list"
  tool_use_results :: "tool_result_row list"
  attachments :: "attachment_row list"
  env_info :: "env_info_row list"

definition emptyStore :: Store where
  "emptyStore = \<lparr>sessions = [], messages = [], tool_uses = [], tool_use_results = [],
                  attachments = [], env_info = []\<rparr>"

text \<open>The errors a statement can raise, with the \<open>code\<close> and \<open>message\<close> the driver gives them.\<close>

datatype sqlite_error =
    NotNullFailed string
  | PrimaryKeyFailed string
  | ForeignKeyFailed
  | NoSuchColumn string

text \<open>\<open>SELECT id FROM t WHERE id = ?\<close> finds a row: some row has the text as its key.\<close>

definition hasKey :: "('r \<Rightarrow> cell) \<Rightarrow> 'r list \<Rightarrow> string \<Rightarrow> bool" where
  "hasKey key rows k = (Some k \<in> set (map key rows))"

text \<open>
  The checks of one INSERT, in the order the engine makes them: NOT NULL columns, then the
  primary key, then (at the end of the statement) the foreign keys. \<open>nn\<close> lists the NOT NULL
  columns with their cells, \<open>pk\<close> says whether the key is taken, \<open>fks\<close> lists for every
  foreign-key column whether its parent row is there.
\<close>

fun firstNull :: "(string \<times> cell) list \<Rightarrow> string option" where
  "firstNull [] = None"
| "firstNull ((name, c) # rest) = (case c of None \<Rightarrow> Some name | Some v \<Rightarrow> firstNull rest)"

definition checkInsert :: "(string \<times> cell) list \<Rightarrow> (string \<times> bool) \<Rightarrow> bool list \<Rightarrow> sqlite_error option" where
  "checkInsert nn pk fks =
     (case firstNull nn of
        Some column \<Rightarrow> Some (NotNullFailed column)
      | None \<Rightarrow>
          if snd pk then Some (PrimaryKeyFailed (fst pk))
          else if list_all (\<lambda>ok. ok) fks then None
          else Some ForeignKeyFailed)"

definition keyTaken :: "('r \<Rightarrow> cell) \<Rightarrow> 'r list \<Rightarrow> cell \<Rightarrow> bool" where
  "keyTaken key rows c = (case c of None \<Rightarrow> False | Some k \<Rightarrow> hasKey key rows k)"

definition parentThere :: "('r \<Rightarrow> cell) \<Rightarrow> 'r list \<Rightarrow> cell \<Rightarrow> bool" where
  "parentThere key rows c = (case c of None \<Rightarrow> True | Some k \<Rightarrow> hasKey key rows k)"

definition insertMessageRow :: "message_row \<Rightarrow> Store \<Rightarrow> sqlite_error + Store" where
  "insertMessageRow row db =
     (case checkInsert
             [(''messages.sessionId'', mr_sessionId row), (''messages.type'', mr_type row),
              (''messages.timestamp'', mr_timestamp row)]
             (''messages.id'', keyTaken mr_id (messages db) (mr_id row))
             [parentThere sr_sessionId (sessions db) (mr_sessionId row)] of
        Some e \<Rightarrow> Inl e
      | None \<Rightarrow> Inr (db\<lparr>messages := messages db @ [row]\<rparr>))"

definition insertToolUseRow :: "tool_use_row \<Rightarrow> Store \<Rightarrow> sqlite_error + Store" where
  "insertToolUseRow row db =
     (case checkInsert
             [(''tool_uses.messageId'', ur_messageId row), (''tool_uses.toolId'', ur_toolId row),
              (''tool_uses.toolName'', ur_toolName row), (''tool_uses.parameters'', ur_parameters row)]
             (''tool_uses.id'', keyTaken ur_id (tool_uses db) (ur_id row))
             [parentThere mr_id (messages db) (ur_messageId row)] of
        Some e \<Rightarrow> Inl e
      | None \<Rightarrow> Inr (db\<lparr>tool_uses := tool_uses db @ [row]\<rparr>))"

definition insertToolResultRow :: "tool_result_row \<Rightarrow> Store \<Rightarrow> sqlite_error + Store" where
  "insertToolResultRow row db =
     (case checkInsert
             [(''tool_use_results.toolUseId'', rr_toolUseId row),
              (''tool_use_results.messageId'', rr_messageId row)]
             (''tool_use_results.id'', keyTaken rr_id (tool_use_results db) (rr_id row))
             [parentThere ur_id (tool_uses db) (rr_toolUseId row),
              parentThere mr_id (messages db) (rr_messageId row)] of
        Some e \<Rightarrow> Inl e
      | None \<Rightarrow> Inr (db\<lparr>tool_use_results := tool_use_results db @ [row]\<rparr>))"

definition insertAttachmentRow :: "attachment_row \<Rightarrow> Store \<Rightarrow> sqlite_error + Store" where
  "insertAttachmentRow row db =
     (case checkInsert
             [(''attachments.messageId'', ar_messageId row), (''attachments.type'', ar_type row)]
             (''attachments.id'', keyTaken ar_id (attachments db) (ar_id row))
             [parentThere mr_id (messages db) (ar_messageId row)] of
        Some e \<Rightarrow> Inl e
      | None \<Rightarrow> Inr (db\<lparr>attachments := attachments db @ [row]\<rparr>))"

definition insertEnvInfoRow :: "env_info_row \<Rightarrow> Store \<Rightarrow> sqlite_error + Store" where
  "insertEnvInfoRow row db =
     (case checkInsert
             [(''env_info.messageId'', er_messageId row)]
             (''env_info.id'', keyTaken er_id (env_info db) (er_id row))
             [parentThere mr_id (messages db) (er_messageId row)] of
        Some e \<Rightarrow> Inl e
      | None \<Rightarrow> Inr (db\<lparr>env_info := env_info db @ [row]\<rparr>))"

text \<open>
  \<open>INSERT OR IGNORE INTO sessions (id, sessionId, sessionPath)\<close> with three texts: the row is
  dropped when its key or its \<open>sessionId\<close> is taken. The result says whether a row was added
  (\<open>result.changes > 0\<close>).
\<close>

definition insertSessionOrIgnore :: "session_row \<Rightarrow> Store \<Rightarrow> bool \<times> Store" where
  "insertSessionOrIgnore row db =
     (if keyTaken sr_id (sessions db) (sr_id row) \<or>
         keyTaken sr_sessionId (sessions db) (sr_sessionId row)
      then (False, db)
      else (True, db\<lparr>sessions := sessions db @ [row]\<rparr>))"

section \<open>Records and the transactional executor (execute/database.ts)\<close>

text \<open>
  The records of \<open>ParsedEntry\<close> at the types their interfaces declare: \<open>string\<close>,
  \<open>string | null\<close>, \<open>boolean\<close>. \<open>x || null\<close> binds the empty string as NULL.
\<close>

record SessionRecord =
  s_id :: string
  s_sessionId :: string
  s_sessionPath :: string

record MessageRecord =
  m_id :: string
  m_sessionId :: string
  m_type :: string
  m_timestamp :: string
  m_isSidechain :: bool
  m_projectName :: "string option"
  m_activeFile :: "string option"
  m_userText :: "string option"
  m_userType :: "string option"
  m_userAttachments :: "string option"
  m_toolUseResultId :: "string option"
  m_toolUseResultName :: "string option"
  m_assistantRole :: "string option"
  m_assistantText :: "string option"
  m_assistantModel :: "string option"

record ToolUseRecord =
  u_id :: string
  u_messageId :: string
  u_toolId :: string
  u_toolName :: string
  u_parameters :: string

record ToolResultRecord =
  r_id :: string
  r_toolUseId :: string
  r_messageId :: string
  r_output :: "string option"
  r_outputMimeType :: "string option"
  r_error :: "string option"
  r_errorType :: "string option"

record AttachmentRecord =
  a_id :: string
  a_messageId :: string
  a_type :: string
  a_text :: "string option"
  a_url :: "string option"
  a_mimeType :: "string option"
  a_title :: "string option"
  a_filePath :: "string option"

record EnvInfoRecord =
  e_id :: string
  e_messageId :: string
  e_workingDirectory :: "string option"
  e_isGitRepo :: "bool option"
  e_platform :: "string option"
  e_osVersion :: "string option"
  e_todaysDate :: "string option"

record ParsedEntry =
  pe_session :: SessionRecord
  pe_message :: "MessageRecord option"
  pe_toolUses :: "ToolUseRecord list"
  pe_toolResults :: "ToolResultRecord list"
  pe_attachments :: "AttachmentRecord list"
  pe_envInfo :: "EnvInfoRecord option"
  pe_shouldSkipMessage :: bool
  pe_errors :: "string list"

datatype execute_error = ParseError string | StoreError sqlite_error

record ExecuteResult =
  messagesInserted :: nat
  messagesUpdated :: nat
  toolUsesInserted :: nat
  toolResultsInserted :: nat
  attachmentsInserted :: nat
  envInfoInserted :: nat
  errors :: "execute_error list"

definition textOrNull :: "string \<Rightarrow> cell" where
  "textOrNull s = (if s = [] then None else Some s)"

definition optOrNull :: "string option \<Rightarrow> cell" where
  "optOrNull v = (case v of None \<Rightarrow> None | Some s \<Rightarrow> textOrNull s)"

definition ensureSessionRecord :: "SessionRecord \<Rightarrow> Store \<Rightarrow> Store" where
  "ensureSessionRecord session db =
     snd (insertSessionOrIgnore
            \<lparr>sr_id = Some (s_id session), sr_sessionId = Some (s_sessionId session),
             sr_sessionPath = Some (s_sessionPath session)\<rparr> db)"

definition insertMessageRecord :: "MessageRecord \<Rightarrow> Store \<Rightarrow> sqlite_error + Store" where
  "insertMessageRecord message db =
     insertMessageRow
       \<lparr>mr_id = Some (m_id message), mr_sessionId = Some (m_sessionId message),
        mr_type = Some (m_type message), mr_timestamp = Some (m_timestamp message),
        mr_isSidechain = (if m_isSidechain message then 1 else 0),
        mr_projectName = optOrNull (m_projectName message),
        mr_activeFile = optOrNull (m_activeFile message),
        mr_userText = optOrNull (m_userText message),
        mr_userType = optOrNull (m_userType message),
        mr_userAttachments = optOrNull (m_userAttachments message),
        mr_toolUseResultId = optOrNull (m_toolUseResultId message),
        mr_toolUseResultName = optOrNull (m_toolUseResultName message),
        mr_assistantRole = optOrNull (m_assistantRole message),
        mr_assistantText = optOrNull (m_assistantText message),
        mr_assistantModel = optOrNull (m_assistantModel message)\<rparr> db"

definition insertToolUseRecord :: "ToolUseRecord \<Rightarrow> Store \<Rightarrow> sqlite_error + Store" where
  "insertToolUseRecord toolUse db =
     insertToolUseRow
       \<lparr>ur_id = Some (u_id toolUse), ur_messageId = Some (u_messageId toolUse),
        ur_toolId = textOrNull (u_toolId toolUse), ur_toolName = textOrNull (u_toolName toolUse),
        ur_parameters = textOrNull (u_parameters toolUse)\<rparr> db"

definition insertToolResultRecord :: "ToolResultRecord \<Rightarrow> Store \<Rightarrow> sqlite_error + Store" where
  "insertToolResultRecord toolResult db =
     insertToolResultRow
       \<lparr>rr_id = textOrNull (r_id toolResult), rr_toolUseId = textOrNull (r_toolUseId toolResult),
        rr_messageId = textOrNull (r_messageId toolResult),
        rr_output = optOrNull (r_output toolResult),
        rr_outputMimeType = optOrNull (r_outputMimeType toolResult),
        rr_error = optOrNull (r_error toolResult),
        rr_errorType = optOrNull (r_errorType toolResult)\<rparr> db"

definition insertAttachmentRecord :: "AttachmentRecord \<Rightarrow> Store \<Rightarrow> sqlite_error + Store" where
  "insertAttachmentRecord attachment db =
     insertAttachmentRow
       \<lparr>ar_id = Some (a_id attachment), ar_messageId = Some (a_messageId attachment),
        ar_type = textOrNull (a_type attachment), ar_text = optOrNull (a_text attachment),
        ar_url = optOrNull (a_url attachment), ar_mimeType = optOrNull (a_mimeType attachment),
        ar_title = optOrNull (a_title attachment), ar_filePath = optOrNull (a_filePath attachment)\<rparr> db"

definition insertEnvInfoRecord :: "EnvInfoRecord \<Rightarrow> Store \<Rightarrow> sqlite_error + Store" where
  "insertEnvInfoRecord envInfo db =
     insertEnvInfoRow
       \<lparr>er_id = Some (e_id envInfo), er_messageId = Some (e_messageId envInfo),
        er_workingDirectory = optOrNull (e_workingDirectory envInfo),
        er_isGitRepo = (if e_isGitRepo envInfo = Some True then 1 else 0),
        er_platform = optOrNull (e_platform envInfo), er_osVersion = optOrNull (e_osVersion envInfo),
        er_todaysDate = optOrNull (e_todaysDate envInfo)\<rparr> db"

text \<open>
  \<open>executeParsedEntries\<close>. The state of a run is the store together with the result summary.
  Every statement of an entry's body either goes through or throws; a throw leaves the body
  (the \<open>try\<close> around it pushes the error) but keeps what the body did before. A step
  therefore returns the error thrown, if any, and the state reached. The transaction callback
  catches every error of every entry, so the transaction commits and
  \<open>retryDatabaseOperation\<close> returns at its first attempt. Calls to the audit logger, which
  swallows its own failures, are left out.
\<close>

type_synonym exec_state = "Store \<times> ExecuteResult"

definition emptyResult :: ExecuteResult where
  "emptyResult =
     \<lparr>messagesInserted = 0, messagesUpdated = 0, toolUsesInserted = 0, toolResultsInserted = 0,
      attachmentsInserted = 0, envInfoInserted = 0, errors = []\<rparr>"

definition thenStep ::
  "(exec_state \<Rightarrow> sqlite_error option \<times> exec_state) \<Rightarrow>
   (exec_state \<Rightarrow> sqlite_error option \<times> exec_state) \<Rightarrow>
   exec_state \<Rightarrow> sqlite_error option \<times> exec_state" where
  "thenStep f g st = (case f st of (Some e, st') \<Rightarrow> (Some e, st') | (None, st') \<Rightarrow> g st')"

text \<open>
  The loops over tool uses, tool results and attachments, and the block for the environment
  record, have one shape: look the record up by its identifier, insert it when it is not
  there, and count the insert.
\<close>

fun insertMissing ::
  "('a \<Rightarrow> Store \<Rightarrow> bool) \<Rightarrow> ('a \<Rightarrow> Store \<Rightarrow> sqlite_error + Store) \<Rightarrow>
   (ExecuteResult \<Rightarrow> ExecuteResult) \<Rightarrow> 'a list \<Rightarrow> exec_state \<Rightarrow> sqlite_error option \<times> exec_state" where
  "insertMissing present ins counted [] st = (None, st)"
| "insertMissing present ins counted (x # xs) st =
     (if present x (fst st) then insertMissing present ins counted xs st
      else case ins x (fst st) of
             Inl e \<Rightarrow> (Some e, st)
           | Inr db' \<Rightarrow> insertMissing present ins counted xs (db', counted (snd st)))"

definition toolUsePresent :: "ToolUseRecord \<Rightarrow> Store \<Rightarrow> bool" where
  "toolUsePresent toolUse db = hasKey ur_id (tool_uses db) (u_id toolUse)"

definition toolResultPresent :: "ToolResultRecord \<Rightarrow> Store \<Rightarrow> bool" where
  "toolResultPresent toolResult db = hasKey rr_id (tool_use_results db) (r_id toolResult)"

definition attachmentPresent :: "AttachmentRecord \<Rightarrow> Store \<Rightarrow> bool" where
  "attachmentPresent attachment db = hasKey ar_id (attachments db) (a_id attachment)"

definition envInfoPresent :: "EnvInfoRecord \<Rightarrow> Store \<Rightarrow> bool" where
  "envInfoPresent envInfo db = hasKey er_id (env_info db) (e_id envInfo)"

definition insertToolUses :: "ToolUseRecord list \<Rightarrow> exec_state \<Rightarrow> sqlite_error option \<times> exec_state" where
  "insertToolUses =
     insertMissing toolUsePresent insertToolUseRecord
       (\<lambda>r. r\<lparr>toolUsesInserted := toolUsesInserted r + 1\<rparr>)"

definition insertToolResults :: "ToolResultRecord list \<Rightarrow> exec_state \<Rightarrow> sqlite_error option \<times> exec_state" where
  "insertToolResults =
     insertMissing toolResultPresent insertToolResultRecord
       (\<lambda>r. r\<lparr>toolResultsInserted := toolResultsInserted r + 1\<rparr>)"

definition insertAttachments :: "AttachmentRecord list \<Rightarrow> exec_state \<Rightarrow> sqlite_error option \<times> exec_state" where
  "insertAttachments =
     insertMissing attachmentPresent insertAttachmentRecord
       (\<lambda>r. r\<lparr>attachmentsInserted := attachmentsInserted r + 1\<rparr>)"

definition insertEnvInfo :: "EnvInfoRecord option \<Rightarrow> exec_state \<Rightarrow> sqlite_error option \<times> exec_state" where
  "insertEnvInfo envInfo =
     insertMissing envInfoPresent insertEnvInfoRecord
       (\<lambda>r. r\<lparr>envInfoInserted := envInfoInserted r + 1\<rparr>)
       (case envInfo of None \<Rightarrow> [] | Some e \<Rightarrow> [e])"

text \<open>
  \<open>parsed.toolUses[0]?.messageId || parsed.toolResults[0]?.messageId\<close>: the identifier of the
  message that the tool records point to; \<open>None\<close> when it is undefined or empty.
\<close>

definition firstToolId :: "ParsedEntry \<Rightarrow> string option" where
  "firstToolId parsed =
     (let fromUses = (case pe_toolUses parsed of [] \<Rightarrow> [] | u # us \<Rightarrow> u_messageId u);
          fromResults = (case pe_toolResults parsed of [] \<Rightarrow> [] | r # rs \<Rightarrow> r_messageId r);
          chosen = (if fromUses \<noteq> [] then fromUses else fromResults)
      in if chosen \<noteq> [] then Some chosen else None)"

definition placeholderMessage :: "string \<Rightarrow> ParsedEntry \<Rightarrow> string \<Rightarrow> MessageRecord" where
  "placeholderMessage now parsed toolId =
     \<lparr>m_id = toolId, m_sessionId = s_id (pe_session parsed), m_type = ''tool_message'',
      m_timestamp = now, m_isSidechain = False,
      m_projectName = textOrNull (s_sessionPath (pe_session parsed)),
      m_activeFile = None, m_userText = None, m_userType = None, m_userAttachments = None,
      m_toolUseResultId = None, m_toolUseResultName = None, m_assistantRole = None,
      m_assistantText = None, m_assistantModel = None\<rparr>"

text \<open>
  The message the entry's body inserts, if any: the parsed message, or a placeholder when
  there is tool data but no message. \<open>now\<close> is \<open>new Date().toISOString()\<close>.
\<close>

definition messageToInsert :: "string \<Rightarrow> ParsedEntry \<Rightarrow> MessageRecord option" where
  "messageToInsert now parsed =
     (let hasToolData = (pe_toolUses parsed \<noteq> [] \<or> pe_toolResults parsed \<noteq> [])
      in case pe_message parsed of
           Some message \<Rightarrow> Some message
         | None \<Rightarrow>
             if hasToolData then map_option (placeholderMessage now parsed) (firstToolId parsed)
             else None)"

definition insertMessage :: "string \<Rightarrow> ParsedEntry \<Rightarrow> exec_state \<Rightarrow> sqlite_error option \<times> exec_state" where
  "insertMessage now parsed st =
     (case messageToInsert now parsed of
        None \<Rightarrow> (None, st)
      | Some message \<Rightarrow>
          if hasKey mr_id (messages (fst st)) (m_id message) then
            (None, (fst st, (snd st)\<lparr>messagesUpdated := messagesUpdated (snd st) + 1\<rparr>))
          else case insertMessageRecord message (fst st) of
                 Inl e \<Rightarrow> (Some e, st)
               | Inr db' \<Rightarrow>
                   (None, (db', (snd st)\<lparr>messagesInserted := messagesInserted (snd st) + 1\<rparr>)))"

definition pushErrors :: "execute_error list \<Rightarrow> exec_state \<Rightarrow> exec_state" where
  "pushErrors es st = (fst st, (snd st)\<lparr>errors := errors (snd st) @ es\<rparr>)"

definition executeEntry :: "string \<Rightarrow> ParsedEntry \<Rightarrow> exec_state \<Rightarrow> exec_state" where
  "executeEntry now parsed st =
     (let st1 = pushErrors (map ParseError (pe_errors parsed)) st;
          st2 = (ensureSessionRecord (pe_session parsed) (fst st1), snd st1)
      in case thenStep (insertMessage now parsed)
                (thenStep (insertToolUses (pe_toolUses parsed))
                   (thenStep (insertToolResults (pe_toolResults parsed))
                      (thenStep (insertAttachments (pe_attachments parsed))
                         (insertEnvInfo (pe_envInfo parsed))))) st2 of
           (None, st3) \<Rightarrow> st3
         | (Some e, st3) \<Rightarrow> pushErrors [StoreError e] st3)"

fun executeEntries :: "string \<Rightarrow> ParsedEntry list \<Rightarrow> exec_state \<Rightarrow> exec_state" where
  "executeEntries now [] st = st"
| "executeEntries now (parsed # rest) st = executeEntries now rest (executeEntry now parsed st)"

definition executeParsedEntries :: "string \<Rightarrow> ParsedEntry list \<Rightarrow> Store \<Rightarrow> exec_state" where
  "executeParsedEntries now parsedEntries db = executeEntries now parsedEntries (db, emptyResult)"

text \<open>The vocabulary of the idempotence claim.\<close>

fun isParseError :: "execute_error \<Rightarrow> bool" where
  "isParseError (ParseError m) = True"
| "isParseError (StoreError e) = False"

definition resultIdsGiven :: "ParsedEntry \<Rightarrow> bool" where
  "resultIdsGiven parsed = list_all (\<lambda>t. r_id t \<noteq> []) (pe_toolResults parsed)"

definition writesMessage :: "ParsedEntry \<Rightarrow> bool" where
  "writesMessage parsed = (messageToInsert [] parsed \<noteq> None)"

text \<open>Entries for concrete runs: a tool result whose tool use arrives in a later entry.\<close>

definition sessionS1 :: SessionRecord where
  "sessionS1 = \<lparr>s_id = ''s1'', s_sessionId = ''s1'', s_sessionPath = ''/p/s1.jsonl''\<rparr>"

definition resultFirstEntry :: ParsedEntry where
  "resultFirstEntry =
     \<lparr>pe_session = sessionS1, pe_message = None, pe_toolUses = [],
      pe_toolResults =
        [\<lparr>r_id = ''res-1'', r_toolUseId = ''toolu_1'', r_messageId = ''m2'',
          r_output = Some ''file contents'', r_outputMimeType = None, r_error = None,
          r_errorType = None\<rparr>],
      pe_attachments = [], pe_envInfo = None, pe_shouldSkipMessage = True, pe_errors = []\<rparr>"

definition useSecondEntry :: ParsedEntry where
  "useSecondEntry =
     \<lparr>pe_session = sessionS1,
      pe_message =
        Some \<lparr>m_id = ''m1'', m_sessionId = ''s1'', m_type = ''assistant'', m_timestamp = ''T'',
              m_isSidechain = False, m_projectName = None, m_activeFile = None,
              m_userText = None, m_userType = None, m_userAttachments = None,
              m_toolUseResultId = None, m_toolUseResultName = None,
              m_assistantRole = Some ''assistant'', m_assistantText = Some ''ok'',
              m_assistantModel = None\<rparr>,
      pe_toolUses =
        [\<lparr>u_id = ''toolu_1'', u_messageId = ''m1'', u_toolId = ''toolu_1'', u_toolName = ''Read'',
          u_parameters = ''{}''\<rparr>],
      pe_toolResults = [], pe_attachments = [], pe_envInfo = None,
      pe_shouldSkipMessage = False, pe_errors = []\<rparr>"

text \<open>
  For the proofs about repeated runs: a store extends another when every table keeps its rows,
  and an entry is written out in a store when the session insert would be ignored and every
  record of the entry is found by its identifier.
\<close>

definition extends :: "Store \<Rightarrow> Store \<Rightarrow> bool" where
  "extends a b =
     (set (sessions a) \<subseteq> set (sessions b) \<and> set (messages a) \<subseteq> set (messages b) \<and>
      set (tool_uses a) \<subseteq> set (tool_uses b) \<and>
      set (tool_use_results a) \<subseteq> set (tool_use_results b) \<and>
      set (attachments a) \<subseteq> set (attachments b) \<and> set (env_info a) \<subseteq> set (env_info b))"

definition sessionPresent :: "SessionRecord \<Rightarrow> Store \<Rightarrow> bool" where
  "sessionPresent session db =
     (hasKey sr_id (sessions db) (s_id session) \<or>
      hasKey sr_sessionId (sessions db) (s_sessionId session))"

definition messagePresent :: "ParsedEntry \<Rightarrow> Store \<Rightarrow> bool" where
  "messagePresent parsed db =
     (case messageToInsert [] parsed of
        None \<Rightarrow> True
      | Some message \<Rightarrow> hasKey mr_id (messages db) (m_id message))"

definition writtenOut :: "ParsedEntry \<Rightarrow> Store \<Rightarrow> bool" where
  "writtenOut parsed db =
     (sessionPresent (pe_session parsed) db \<and> messagePresent parsed db \<and>
      list_all (\<lambda>u. toolUsePresent u db) (pe_toolUses parsed) \<and>
      list_all (\<lambda>t. toolResultPresent t db) (pe_toolResults parsed) \<and>
      list_all (\<lambda>a. attachmentPresent a db) (pe_attachments parsed) \<and>
      list_all (\<lambda>e. envInfoPresent e db) (case pe_envInfo parsed of None \<Rightarrow> [] | Some e \<Rightarrow> [e]))"

text \<open>The body of an entry after the session insert, as one step.\<close>

definition entryBody :: "string \<Rightarrow> ParsedEntry \<Rightarrow> exec_state \<Rightarrow> sqlite_error option \<times> exec_state" where
  "entryBody now parsed =
     thenStep (insertMessage now parsed)
       (thenStep (insertToolUses (pe_toolUses parsed))
          (thenStep (insertToolResults (pe_toolResults parsed))
             (thenStep (insertAttachments (pe_attachments parsed))
                (insertEnvInfo (pe_envInfo parsed)))))"

section \<open>Foreign-key resolution (FKResolver, sync_engine/utils/fk_handler.ts)\<close>

text \<open>
  What a database operation throws: an error of the driver with its \<open>code\<close> and \<open>message\<close>,
  an \<open>Error\<close> made with \<open>new Error(message)\<close>, which has no code, or \<open>undefined\<close>.
\<close>

datatype js_thrown =
    SqliteError string string
  | PlainError string
  | ThrownUndefined

definition thrownBy :: "sqlite_error \<Rightarrow> js_thrown" where
  "thrownBy e =
     (case e of
        NotNullFailed column \<Rightarrow>
          SqliteError ''SQLITE_CONSTRAINT_NOTNULL'' (''NOT NULL constraint failed: '' @ column)
      | PrimaryKeyFailed column \<Rightarrow>
          SqliteError ''SQLITE_CONSTRAINT_PRIMARYKEY'' (''UNIQUE constraint failed: '' @ column)
      | ForeignKeyFailed \<Rightarrow>
          SqliteError ''SQLITE_CONSTRAINT_FOREIGNKEY'' ''FOREIGN KEY constraint failed''
      | NoSuchColumn m \<Rightarrow> SqliteError ''SQLITE_ERROR'' m)"

fun thrownCode :: "js_thrown \<Rightarrow> string option" where
  "thrownCode (SqliteError c m) = Some c"
| "thrownCode (PlainError m) = None"
| "thrownCode ThrownUndefined = None"

fun thrownMessage :: "js_thrown \<Rightarrow> string" where
  "thrownMessage (SqliteError c m) = m"
| "thrownMessage (PlainError m) = m"
| "thrownMessage ThrownUndefined = []"

record FKError =
  fk_table :: string
  fk_column :: string
  fk_value :: "string option"
  fk_parentTable :: string
  fk_parentColumn :: string

text \<open>
  The pattern \<open>/FOREIGN KEY constraint failed[:\s]+(\w+)\.(\w+)/\<close>: the phrase, one or more colons
  or white-space characters, a word, a dot, a word. Separators and word characters are
  disjoint and the dot is not a word character, so the greedy runs are the only way to match.
\<close>

definition isWordChar :: "char \<Rightarrow> bool" where
  "isWordChar c = (c \<in> set ''abcdefghijklmnopqrstuvwxyzABCDEFGHIJKLMNOPQRSTUVWXYZ0123456789_'')"

definition isSeparator :: "char \<Rightarrow> bool" where
  "isSeparator c = (c = CHR '':'' \<or> isSpace c)"

definition fkDetailHere :: "string \<Rightarrow> (string \<times> string) option" where
  "fkDetailHere s =
     (if \<not> startsWith s ''FOREIGN KEY constraint failed'' then None
      else
        (let rest = drop (length ''FOREIGN KEY constraint failed'') s;
             afterSeparators = dropWhile isSeparator rest;
             tbl = takeWhile isWordChar afterSeparators;
             afterTable = dropWhile isWordChar afterSeparators;
             col = takeWhile isWordChar (drop 1 afterTable)
         in if takeWhile isSeparator rest \<noteq> [] \<and> tbl \<noteq> [] \<and> take 1 afterTable = ''.'' \<and> col \<noteq> []
            then Some (tbl, col) else None))"

fun findFKDetail :: "string \<Rightarrow> (string \<times> string) option" where
  "findFKDetail [] = None"
| "findFKDetail (c # cs) =
     (case fkDetailHere (c # cs) of Some r \<Rightarrow> Some r | None \<Rightarrow> findFKDetail cs)"

definition parseFKError :: "js_thrown \<Rightarrow> FKError option" where
  "parseFKError error =
     (if thrownCode error \<noteq> Some ''SQLITE_CONSTRAINT_FOREIGNKEY'' then None
      else case findFKDetail (thrownMessage error) of
             Some (tbl, col) \<Rightarrow>
               Some \<lparr>fk_table = tbl, fk_column = col, fk_value = None, fk_parentTable = [],
                     fk_parentColumn = ''id''\<rparr>
           | None \<Rightarrow>
               Some \<lparr>fk_table = ''unknown'', fk_column = ''unknown'', fk_value = None,
                     fk_parentTable = ''unknown'', fk_parentColumn = ''id''\<rparr>)"

text \<open>
  \<open>INSERT OR IGNORE\<close>: a NOT NULL or key conflict drops the row without an error; a
  foreign-key failure is raised all the same.
\<close>

definition orIgnore :: "sqlite_error + Store \<Rightarrow> Store \<Rightarrow> sqlite_error + Store" where
  "orIgnore r db =
     (case r of
        Inr db' \<Rightarrow> Inr db'
      | Inl (NotNullFailed c) \<Rightarrow> Inr db
      | Inl (PrimaryKeyFailed c) \<Rightarrow> Inr db
      | Inl e \<Rightarrow> Inl e)"

text \<open>\<open>SELECT id FROM <parentTable> WHERE id = ?\<close>; an unknown table makes the statement fail.\<close>

definition parentExists :: "string \<Rightarrow> string \<Rightarrow> Store \<Rightarrow> sqlite_error + bool" where
  "parentExists parentTable parentId db =
     (if parentTable = ''sessions'' then Inr (hasKey sr_id (sessions db) parentId)
      else if parentTable = ''messages'' then Inr (hasKey mr_id (messages db) parentId)
      else if parentTable = ''tool_uses'' then Inr (hasKey ur_id (tool_uses db) parentId)
      else if parentTable = ''tool_use_results'' then Inr (hasKey rr_id (tool_use_results db) parentId)
      else if parentTable = ''attachments'' then Inr (hasKey ar_id (attachments db) parentId)
      else if parentTable = ''env_info'' then Inr (hasKey er_id (env_info db) parentId)
      else Inl (NoSuchColumn (''no such table: '' @ parentTable)))"

text \<open>
  The three placeholder inserts of \<open>resolveByCreatingParent\<close>, with \<open>parentData\<close> undefined, run
  against the schema: the session insert names the columns \<open>path\<close> and \<open>timestamp\<close>, which the
  table does not have; the message insert gives id, session \<open>unknown\<close>, type \<open>placeholder\<close>
  and the current time; the tool-use insert gives \<open>toolId\<close>, \<open>messageId\<close> and \<open>toolName\<close> only.
\<close>

definition createPlaceholder :: "string \<Rightarrow> string \<Rightarrow> string \<Rightarrow> Store \<Rightarrow> (sqlite_error + Store) option" where
  "createPlaceholder now parentTable parentId db =
     (if parentTable = ''sessions'' then
        Some (Inl (NoSuchColumn ''table sessions has no column named path''))
      else if parentTable = ''messages'' then
        Some (orIgnore
          (insertMessageRow
             \<lparr>mr_id = Some parentId, mr_sessionId = Some ''unknown'', mr_type = Some ''placeholder'',
              mr_timestamp = Some now, mr_isSidechain = 0, mr_projectName = None,
              mr_activeFile = None, mr_userText = None, mr_userType = None,
              mr_userAttachments = None, mr_toolUseResultId = None, mr_toolUseResultName = None,
              mr_assistantRole = None, mr_assistantText = None, mr_assistantModel = None\<rparr> db) db)
      else if parentTable = ''tool_uses'' then
        Some (orIgnore
          (insertToolUseRow
             \<lparr>ur_id = None, ur_messageId = Some ''unknown'', ur_toolId = Some parentId,
              ur_toolName = Some ''unknown'', ur_parameters = None\<rparr> db) db)
      else None)"

text \<open>
  \<open>resolveByCreatingParent\<close>: every error inside is caught and turned into \<open>false\<close>; the
  \<open>default\<close> branch of the switch returns \<open>false\<close> as well.
\<close>

definition resolveByCreatingParent :: "string \<Rightarrow> string \<Rightarrow> string \<Rightarrow> Store \<Rightarrow> bool \<times> Store" where
  "resolveByCreatingParent now parentTable parentId db =
     (case parentExists parentTable parentId db of
        Inl e \<Rightarrow> (False, db)
      | Inr True \<Rightarrow> (True, db)
      | Inr False \<Rightarrow>
          (case createPlaceholder now parentTable parentId db of
             None \<Rightarrow> (False, db)
           | Some (Inl e) \<Rightarrow> (False, db)
           | Some (Inr db') \<Rightarrow> (True, db')))"

definition fkRelationships :: "(string \<times> string) list" where
  "fkRelationships =
     [(''messages.sessionId'', ''sessions''), (''tool_uses.messageId'', ''messages''),
      (''tool_use_results.toolUseId'', ''tool_uses''), (''attachments.messageId'', ''messages''),
      (''env_info.messageId'', ''messages'')]"

text \<open>\<open>fkError.value || 'unknown'\<close> is the parent identifier the resolver works with.\<close>

definition tryCommonResolutions :: "string \<Rightarrow> FKError \<Rightarrow> Store \<Rightarrow> bool \<times> Store" where
  "tryCommonResolutions now fkError db =
     (case map_of fkRelationships (fk_table fkError @ ''.'' @ fk_column fkError) of
        Some parent \<Rightarrow>
          resolveByCreatingParent now parent
            (case fk_value fkError of
               None \<Rightarrow> ''unknown''
             | Some v \<Rightarrow> if v \<noteq> [] then v else ''unknown'') db
      | None \<Rightarrow> (False, db))"

text \<open>
  \<open>retryWithFKResolution\<close>. An operation takes the store and returns a value with the new
  store, or throws and leaves the store as it was. The loop runs for \<open>attempt = 1\<close> to
  \<open>maxRetries\<close>; the second-last argument counts the attempts that remain.
\<close>

fun retryAttempts ::
  "string \<Rightarrow> (Store \<Rightarrow> js_thrown + ('a \<times> Store)) \<Rightarrow> nat \<Rightarrow> nat \<Rightarrow> js_thrown \<Rightarrow> Store \<Rightarrow>
     (js_thrown + 'a) \<times> Store" where
  "retryAttempts now operation maxRetries 0 lastError db = (Inl lastError, db)"
| "retryAttempts now operation maxRetries (Suc k) lastError db =
     (case operation db of
        Inr (v, db') \<Rightarrow> (Inr v, db')
      | Inl error \<Rightarrow>
          if thrownCode error \<noteq> Some ''SQLITE_CONSTRAINT_FOREIGNKEY'' then (Inl error, db)
          else case parseFKError error of
                 None \<Rightarrow> (Inl error, db)
               | Some fkError \<Rightarrow>
                   (case tryCommonResolutions now fkError db of
                      (True, db1) \<Rightarrow> retryAttempts now operation maxRetries k error db1
                    | (False, db1) \<Rightarrow>
                        if k = 0 then
                          (Inl (PlainError (''FK constraint failure after '' @ showNat maxRetries @
                                           '' attempts: '' @ thrownMessage error)), db1)
                        else retryAttempts now operation maxRetries k error db1))"

definition retryWithFKResolution ::
  "string \<Rightarrow> (Store \<Rightarrow> js_thrown + ('a \<times> Store)) \<Rightarrow> nat \<Rightarrow> Store \<Rightarrow> (js_thrown + 'a) \<times> Store" where
  "retryWithFKResolution now operation maxRetries db =
     retryAttempts now operation maxRetries maxRetries ThrownUndefined db"

text \<open>
  Operations for concrete runs: the insert of a tool result whose message is in the store and
  whose tool use is not; the same with an error message that names the failing column; the
  insert of a message whose session is missing, as in the repository's test of the resolver.
\<close>

definition danglingToolResult :: ToolResultRecord where
  "danglingToolResult =
     \<lparr>r_id = ''res-1'', r_toolUseId = ''toolu_1'', r_messageId = ''m2'',
      r_output = Some ''file contents'', r_outputMimeType = None, r_error = None,
      r_errorType = None\<rparr>"

definition insertDanglingResult :: "Store \<Rightarrow> js_thrown + (unit \<times> Store)" where
  "insertDanglingResult db =
     (case insertToolResultRecord danglingToolResult db of
        Inl e \<Rightarrow> Inl (thrownBy e)
      | Inr db' \<Rightarrow> Inr ((), db'))"

definition insertDanglingResultDetailed :: "Store \<Rightarrow> js_thrown + (unit \<times> Store)" where
  "insertDanglingResultDetailed db =
     (case insertToolResultRecord danglingToolResult db of
        Inl ForeignKeyFailed \<Rightarrow>
          Inl (SqliteError ''SQLITE_CONSTRAINT_FOREIGNKEY''
                 ''FOREIGN KEY constraint failed: tool_use_results.toolUseId'')
      | Inl e \<Rightarrow> Inl (thrownBy e)
      | Inr db' \<Rightarrow> Inr ((), db'))"

definition storeWithMessageOnly :: Store where
  "storeWithMessageOnly = fst (executeParsedEntries ''T0'' [resultFirstEntry] emptyStore)"

section \<open>Classification and parsing (transform/message_classifier.ts, schema_mapper.ts, parse.ts)\<close>

datatype MessageType =
    user_message
  | assistant_message
  | system_message
  | summary_message
  | tool_use_message
  | tool_result_message
  | unknown_message

record ClassifiedMessage =
  cm_type :: MessageType
  originalMessage :: json
  isToolMessage :: bool
  hasTextContent :: bool
  cm_sessionId :: json
  cm_messageId :: json
  cm_parentId :: json
  cm_timestamp :: json

text \<open>\<open>containsTools\<close>: some content item is a \<open>tool_use\<close> or a \<open>tool_result\<close>.\<close>

definition isToolItem :: "json \<Rightarrow> js_error + bool" where
  "isToolItem item =
     (case typeIs item ''tool_use'' of
        Inl e \<Rightarrow> Inl e
      | Inr True \<Rightarrow> Inr True
      | Inr False \<Rightarrow> typeIs item ''tool_result'')"

definition containsTools :: "json \<Rightarrow> js_error + bool" where
  "containsTools message =
     (case messageContent message of
        Inl e \<Rightarrow> Inl e
      | Inr (Some (JArr items)) \<Rightarrow> someE isToolItem items
      | Inr other \<Rightarrow> Inr False)"

text \<open>
  \<open>item.type === 'text' && item.text && item.text.trim().length > 0\<close>: a truthy text that is
  not a string has no \<open>trim\<close>, and the call throws.
\<close>

definition isTextItem :: "json \<Rightarrow> js_error + bool" where
  "isTextItem item =
     (case typeIs item ''text'' of
        Inl e \<Rightarrow> Inl e
      | Inr False \<Rightarrow> Inr False
      | Inr True \<Rightarrow>
          (let t = optProp (Some item) ''text'' in
           if \<not> truthy t then Inr False
           else case the t of
                  JStr s \<Rightarrow> Inr (trim s \<noteq> [])
                | other \<Rightarrow> Inl (TypeError ''trim'')))"

definition hasNonToolTextContent :: "json \<Rightarrow> js_error + bool" where
  "hasNonToolTextContent entry =
     (case messageContent entry of
        Inl e \<Rightarrow> Inl e
      | Inr content \<Rightarrow>
          if \<not> truthy content then Inr False
          else case the content of
                 JStr s \<Rightarrow> Inr (trim s \<noteq> [])
               | JArr items \<Rightarrow> someE isTextItem items
               | other \<Rightarrow> Inr False)"

text \<open>\<open>classifyMessage\<close>; \<open>now\<close> is \<open>new Date().toISOString()\<close>.\<close>

definition classifyMessage :: "string \<Rightarrow> json \<Rightarrow> js_error + ClassifiedMessage" where
  "classifyMessage now entry =
     (case getProp entry ''uuid'' of
        Inl e \<Rightarrow> Inl e
      | Inr uuid \<Rightarrow>
          (case containsTools entry of
             Inl e \<Rightarrow> Inl e
           | Inr isTool \<Rightarrow>
               (case hasNonToolTextContent entry of
                  Inl e \<Rightarrow> Inl e
                | Inr hasText \<Rightarrow>
                    (let entryType = optProp (Some entry) ''type'' in
                     Inr \<lparr>cm_type =
                            (if entryType = Some (JStr ''user'') then
                               (if isTool then tool_result_message else user_message)
                             else if entryType = Some (JStr ''assistant'') then
                               (if isTool then tool_use_message else assistant_message)
                             else if entryType = Some (JStr ''system'') then system_message
                             else if entryType = Some (JStr ''summary'') then summary_message
                             else unknown_message),
                          originalMessage = entry,
                          isToolMessage = isTool,
                          hasTextContent = hasText,
                          cm_sessionId = orElse (optProp (Some entry) ''sessionId'') (JStr []),
                          cm_messageId = orElse uuid (JStr []),
                          cm_parentId = orNull (optProp (Some entry) ''parentUuid''),
                          cm_timestamp = orElse (optProp (Some entry) ''timestamp'') (JStr now)\<rparr>))))"

definition shouldStoreAsMessage :: "ClassifiedMessage \<Rightarrow> bool" where
  "shouldStoreAsMessage classified =
     (if hasTextContent classified then True
      else if cm_type classified = system_message \<or> cm_type classified = summary_message then True
      else False)"

text \<open>
  \<open>getTextContent\<close>: a string content as it is; of an array the texts of the \<open>text\<close> items that
  are truthy, joined with line feeds. Reading \<open>type\<close> of a \<open>null\<close> item throws.
\<close>

fun textItems :: "json list \<Rightarrow> js_error + string list" where
  "textItems [] = Inr []"
| "textItems (item # rest) =
     (case typeIs item ''text'' of
        Inl e \<Rightarrow> Inl e
      | Inr isText \<Rightarrow>
          (case textItems rest of
             Inl e \<Rightarrow> Inl e
           | Inr ts \<Rightarrow>
               if isText \<and> truthy (optProp (Some item) ''text'')
               then Inr (toStr (the (optProp (Some item) ''text'')) # ts)
               else Inr ts))"

definition getTextContent :: "json \<Rightarrow> js_error + string" where
  "getTextContent entry =
     (case messageContent entry of
        Inl e \<Rightarrow> Inl e
      | Inr content \<Rightarrow>
          if \<not> truthy content then Inr []
          else case the content of
                 JStr s \<Rightarrow> Inr s
               | JArr items \<Rightarrow>
                   (case textItems items of
                      Inl e \<Rightarrow> Inl e
                    | Inr ts \<Rightarrow> Inr (joinWith [CHR 0x0A] ts))
               | other \<Rightarrow> Inr [])"

definition extractMessageText :: "json \<Rightarrow> MessageType \<Rightarrow> js_error + (string option \<times> string option)" where
  "extractMessageText entry messageType =
     (case getTextContent entry of
        Inl e \<Rightarrow> Inl e
      | Inr textContent \<Rightarrow>
          if messageType = user_message \<or> messageType = tool_result_message then
            Inr (textOrNull textContent, None)
          else if messageType = assistant_message \<or> messageType = tool_use_message then
            Inr (None, textOrNull textContent)
          else Inr (None, None))"

text \<open>
  The records of the schema mapper, with the values they hold at run time: a member copied
  from the line is whatever JSON value the line has there.
\<close>

record SessionData =
  js_id :: json
  js_sessionId :: json
  js_sessionPath :: string

record MessageData =
  jm_id :: json
  jm_sessionId :: json
  jm_type :: string
  jm_timestamp :: json
  jm_isSidechain :: json
  jm_projectName :: json
  jm_activeFile :: json
  jm_userText :: "string option"
  jm_userType :: json
  jm_userAttachments :: json
  jm_toolUseResultId :: json
  jm_toolUseResultName :: json
  jm_assistantRole :: json
  jm_assistantText :: "string option"
  jm_assistantModel :: json

record EnvInfoData =
  je_id :: string
  je_messageId :: json
  je_workingDirectory :: json
  je_isGitRepo :: "bool option"
  je_platform :: json
  je_osVersion :: json
  je_todaysDate :: json

record ParsedData =
  jp_session :: SessionData
  jp_message :: "MessageData option"
  jp_toolUses :: "ToolUseData list"
  jp_toolResults :: "ToolResultData list"
  jp_attachments :: "AttachmentRecord list"
  jp_envInfo :: "EnvInfoData option"
  jp_shouldSkipMessage :: bool
  jp_errors :: "string list"

fun mapMessageType :: "MessageType \<Rightarrow> string" where
  "mapMessageType user_message = ''user''"
| "mapMessageType tool_result_message = ''user''"
| "mapMessageType assistant_message = ''assistant''"
| "mapMessageType tool_use_message = ''assistant''"
| "mapMessageType system_message = ''system''"
| "mapMessageType summary_message = ''summary''"
| "mapMessageType unknown_message = ''unknown''"

definition mapToMessageRecord :: "ClassifiedMessage \<Rightarrow> string option \<Rightarrow> string option \<Rightarrow> MessageData" where
  "mapToMessageRecord classified userText assistantText =
     (let entry = originalMessage classified in
      \<lparr>jm_id = cm_messageId classified,
       jm_sessionId = cm_sessionId classified,
       jm_type = mapMessageType (cm_type classified),
       jm_timestamp = cm_timestamp classified,
       jm_isSidechain = orElse (optProp (Some entry) ''isSidechain'') (JBool False),
       jm_projectName = JNull,
       jm_activeFile = JNull,
       jm_userText = userText,
       jm_userType = orNull (optProp (Some entry) ''userType''),
       jm_userAttachments = JNull,
       jm_toolUseResultId = JNull,
       jm_toolUseResultName = JNull,
       jm_assistantRole = orNull (optProp (optProp (Some entry) ''message'') ''role''),
       jm_assistantText = assistantText,
       jm_assistantModel = orNull (optProp (optProp (Some entry) ''message'') ''model'')\<rparr>)"

definition createSessionRecord :: "ClassifiedMessage \<Rightarrow> string \<Rightarrow> SessionData" where
  "createSessionRecord classified sessionPath =
     \<lparr>js_id = cm_sessionId classified, js_sessionId = cm_sessionId classified,
      js_sessionPath = sessionPath\<rparr>"

definition extractAttachments :: "ClassifiedMessage \<Rightarrow> AttachmentRecord list" where
  "extractAttachments classified = []"

definition extractEnvInfo :: "ClassifiedMessage \<Rightarrow> EnvInfoData option" where
  "extractEnvInfo classified =
     (let entry = Some (originalMessage classified) in
      if \<not> truthy (optProp entry ''cwd'') \<and> \<not> truthy (optProp entry ''platform'') \<and>
         \<not> truthy (optProp entry ''gitBranch'')
      then None
      else Some \<lparr>je_id = ''env_'' @ toStr (cm_messageId classified),
                 je_messageId = cm_messageId classified,
                 je_workingDirectory = orNull (optProp entry ''cwd''),
                 je_isGitRepo = (if truthy (optProp entry ''gitBranch'') then Some True else None),
                 je_platform = orNull (optProp entry ''platform''),
                 je_osVersion = orNull (optProp entry ''osVersion''),
                 je_todaysDate = JNull\<rparr>)"

text \<open>\<open>validateRecords\<close>: one message per record that misses a required member.\<close>

definition missingFields :: "(string \<times> bool) list \<Rightarrow> string list" where
  "missingFields checks = map fst (filter (\<lambda>c. \<not> snd c) checks)"

definition invalidRecord :: "string \<Rightarrow> jsval \<Rightarrow> (string \<times> bool) list \<Rightarrow> string list" where
  "invalidRecord kind ident checks =
     (if missingFields checks = [] then []
      else [''Invalid '' @ kind @ '' record '' @ toStr (orElse ident (JStr ''unknown'')) @
            '': missing fields ['' @ joinWith '', '' (missingFields checks) @ '']''])"

definition validateRecords ::
  "MessageData list \<Rightarrow> ToolUseData list \<Rightarrow> ToolResultData list \<Rightarrow> string list" where
  "validateRecords msgs tus trs =
     concat (map (\<lambda>msg. invalidRecord ''message'' (Some (jm_id msg))
                    [(''id'', truthy (Some (jm_id msg))),
                     (''sessionId'', truthy (Some (jm_sessionId msg))),
                     (''type'', jm_type msg \<noteq> []),
                     (''timestamp'', truthy (Some (jm_timestamp msg)))]) msgs) @
     concat (map (\<lambda>tool. invalidRecord ''tool use'' (tu_id tool)
                    [(''id'', truthy (tu_id tool)), (''messageId'', truthy (tu_messageId tool)),
                     (''toolId'', truthy (tu_toolId tool)),
                     (''toolName'', truthy (tu_toolName tool))]) tus) @
     concat (map (\<lambda>tr. invalidRecord ''tool result'' (Some (JStr (tr_id tr)))
                    [(''id'', tr_id tr \<noteq> []), (''toolUseId'', truthy (tr_toolUseId tr)),
                     (''messageId'', truthy (tr_messageId tr))]) trs)"

text \<open>
  The \<open>try\<close> block of \<open>parseAndTransform\<close>, then the function with its \<open>catch\<close>. The message of
  a \<open>TypeError\<close> is represented by the name of the member whose read failed. The handler reads
  \<open>entry.sessionId\<close>, which throws again when the entry itself is \<open>null\<close>.
\<close>

definition transformEntry ::
  "(nat \<Rightarrow> string) \<Rightarrow> nat \<Rightarrow> string \<Rightarrow> string \<Rightarrow> json \<Rightarrow> js_error + ParsedData" where
  "transformEntry uuids k now sessionPath entry =
     (case classifyMessage now entry of
        Inl e \<Rightarrow> Inl e
      | Inr classified \<Rightarrow>
     (case extractToolUses entry of
        Inl e \<Rightarrow> Inl e
      | Inr toolUses \<Rightarrow>
     (case extractToolResults uuids k entry of
        Inl e \<Rightarrow> Inl e
      | Inr toolResults \<Rightarrow>
     (case extractMessageText entry (cm_type classified) of
        Inl e \<Rightarrow> Inl e
      | Inr (userText, assistantText) \<Rightarrow>
          (let shouldSkipMessage = (\<not> shouldStoreAsMessage classified);
               message = (if shouldSkipMessage then None
                          else Some (mapToMessageRecord classified userText assistantText));
               mappedToolUses = map mapToToolUseRecord (extracted toolUses);
               mappedToolResults = map mapToToolResultRecord (extracted toolResults)
           in Inr \<lparr>jp_session = createSessionRecord classified sessionPath,
                    jp_message = message,
                    jp_toolUses = mappedToolUses,
                    jp_toolResults = mappedToolResults,
                    jp_attachments = extractAttachments classified,
                    jp_envInfo = extractEnvInfo classified,
                    jp_shouldSkipMessage = shouldSkipMessage,
                    jp_errors =
                      validateRecords (case message of None \<Rightarrow> [] | Some m \<Rightarrow> [m])
                        mappedToolUses mappedToolResults\<rparr>)))))"

fun errorText :: "js_error \<Rightarrow> string" where
  "errorText (TypeError member) = member"

definition parseAndTransform ::
  "(nat \<Rightarrow> string) \<Rightarrow> nat \<Rightarrow> string \<Rightarrow> string \<Rightarrow> json \<Rightarrow> js_error + ParsedData" where
  "parseAndTransform uuids k now sessionPath entry =
     (case transformEntry uuids k now sessionPath entry of
        Inr parsed \<Rightarrow> Inr parsed
      | Inl error \<Rightarrow>
          (case getProp entry ''sessionId'' of
             Inl e \<Rightarrow> Inl e
           | Inr sid \<Rightarrow>
               Inr \<lparr>jp_session = \<lparr>js_id = orElse sid (JStr ''unknown''),
                                  js_sessionId = orElse sid (JStr ''unknown''),
                                  js_sessionPath = sessionPath\<rparr>,
                    jp_message = None, jp_toolUses = [], jp_toolResults = [],
                    jp_attachments = [], jp_envInfo = None, jp_shouldSkipMessage = True,
                    jp_errors = [''Parse error: '' @ errorText error]\<rparr>))"

section \<open>From parsed data to the executor's records\<close>

text \<open>
  \<open>executeParsedEntries\<close> takes \<open>ParsedEntry\<close> values at their declared types. \<open>typedEntry\<close>
  reads parsed data at those types; it is defined exactly when every member holds a value of
  its declared type (\<open>string\<close>, \<open>string | null\<close>, \<open>boolean\<close>), and then changes nothing.
\<close>

fun asText :: "json \<Rightarrow> string option" where
  "asText (JStr s) = Some s"
| "asText other = None"

fun asNullableText :: "json \<Rightarrow> string option option" where
  "asNullableText JNull = Some None"
| "asNullableText (JStr s) = Some (Some s)"
| "asNullableText other = None"

fun asBool :: "json \<Rightarrow> bool option" where
  "asBool (JBool b) = Some b"
| "asBool other = None"

definition typedSession :: "SessionData \<Rightarrow> SessionRecord option" where
  "typedSession s =
     (case (asText (js_id s), asText (js_sessionId s)) of
        (Some i, Some sid) \<Rightarrow> Some \<lparr>s_id = i, s_sessionId = sid, s_sessionPath = js_sessionPath s\<rparr>
      | other \<Rightarrow> None)"

definition typedToolUse :: "ToolUseData \<Rightarrow> ToolUseRecord option" where
  "typedToolUse u =
     (case (Option.bind (tu_id u) asText, Option.bind (tu_messageId u) asText,
            Option.bind (tu_toolId u) asText, Option.bind (tu_toolName u) asText) of
        (Some i, Some m, Some t, Some n) \<Rightarrow>
          Some \<lparr>u_id = i, u_messageId = m, u_toolId = t, u_toolName = n,
                u_parameters = tu_parameters u\<rparr>
      | other \<Rightarrow> None)"

definition typedToolResult :: "ToolResultData \<Rightarrow> ToolResultRecord option" where
  "typedToolResult r =
     (case (Option.bind (tr_toolUseId r) asText, Option.bind (tr_messageId r) asText,
            asNullableText (tr_outputMimeType r), asNullableText (tr_error r)) of
        (Some t, Some m, Some mime, Some err) \<Rightarrow>
          Some \<lparr>r_id = tr_id r, r_toolUseId = t, r_messageId = m, r_output = tr_output r,
                r_outputMimeType = mime, r_error = err, r_errorType = tr_errorType r\<rparr>
      | other \<Rightarrow> None)"

definition typedMessage :: "MessageData \<Rightarrow> MessageRecord option" where
  "typedMessage m =
     (case (asText (jm_id m), asText (jm_sessionId m), asText (jm_timestamp m),
            asBool (jm_isSidechain m)) of
        (Some i, Some sid, Some ts, Some side) \<Rightarrow>
          (case (asNullableText (jm_projectName m), asNullableText (jm_activeFile m),
                 asNullableText (jm_userType m), asNullableText (jm_userAttachments m)) of
             (Some pn, Some af, Some ut, Some ua) \<Rightarrow>
               (case (asNullableText (jm_toolUseResultId m), asNullableText (jm_toolUseResultName m),
                      asNullableText (jm_assistantRole m), asNullableText (jm_assistantModel m)) of
                  (Some ri, Some rn, Some ar, Some am) \<Rightarrow>
                    Some \<lparr>m_id = i, m_sessionId = sid, m_type = jm_type m, m_timestamp = ts,
                          m_isSidechain = side, m_projectName = pn, m_activeFile = af,
                          m_userText = jm_userText m, m_userType = ut, m_userAttachments = ua,
                          m_toolUseResultId = ri, m_toolUseResultName = rn,
                          m_assistantRole = ar, m_assistantText = jm_assistantText m,
                          m_assistantModel = am\<rparr>
                | other \<Rightarrow> None)
           | other \<Rightarrow> None)
      | other \<Rightarrow> None)"

definition typedEnvInfo :: "EnvInfoData \<Rightarrow> EnvInfoRecord option" where
  "typedEnvInfo e =
     (case (asText (je_messageId e), asNullableText (je_workingDirectory e),
            asNullableText (je_platform e), asNullableText (je_osVersion e),
            asNullableText (je_todaysDate e)) of
        (Some m, Some wd, Some pf, Some os, Some td) \<Rightarrow>
          Some \<lparr>e_id = je_id e, e_messageId = m, e_workingDirectory = wd,
                e_isGitRepo = je_isGitRepo e, e_platform = pf, e_osVersion = os,
                e_todaysDate = td\<rparr>
      | other \<Rightarrow> None)"

fun allSome :: "'a option list \<Rightarrow> 'a list option" where
  "allSome [] = Some []"
| "allSome (x # xs) =
     (case x of
        None \<Rightarrow> None
      | Some v \<Rightarrow> (case allSome xs of None \<Rightarrow> None | Some vs \<Rightarrow> Some (v # vs)))"

definition typedEntry :: "ParsedData \<Rightarrow> ParsedEntry option" where
  "typedEntry p =
     (case (typedSession (jp_session p),
            (case jp_message p of None \<Rightarrow> Some None | Some m \<Rightarrow> map_option Some (typedMessage m)),
            allSome (map typedToolUse (jp_toolUses p)),
            allSome (map typedToolResult (jp_toolResults p)),
            (case jp_envInfo p of None \<Rightarrow> Some None | Some e \<Rightarrow> map_option Some (typedEnvInfo e))) of
        (Some s, Some m, Some us, Some rs, Some e) \<Rightarrow>
          Some \<lparr>pe_session = s, pe_message = m, pe_toolUses = us, pe_toolResults = rs,
                pe_attachments = jp_attachments p, pe_envInfo = e,
                pe_shouldSkipMessage = jp_shouldSkipMessage p, pe_errors = jp_errors p\<rparr>
      | other \<Rightarrow> None)"

section \<open>Tool-result carriers\<close>

text \<open>
  The vocabulary of the claim about entries that carry nothing but tool results. A plain result
  fragment is a \<open>tool_result\<close> item at its declared type: \<open>tool_use_id\<close> and \<open>content\<close> are
  strings, \<open>error\<close> is absent, \<open>null\<close> or a string. \<open>optionalText\<close> says the same of an optional
  member of the entry. \<open>carriedBy u item r\<close> says that the record \<open>r\<close> carries the fragment
  \<open>item\<close> of the entry \<open>u\<close>: its \<open>tool_use_id\<close>, the entry's identifier, and the content string
  as output, \<open>null\<close> standing for the empty string.
\<close>

definition optionalText :: "jsval \<Rightarrow> bool" where
  "optionalText v = (case v of None \<Rightarrow> True | Some JNull \<Rightarrow> True | Some (JStr s) \<Rightarrow> True | Some other \<Rightarrow> False)"

definition plainResultFragment :: "json \<Rightarrow> bool" where
  "plainResultFragment item =
     (isFragment ''tool_result'' item \<and>
      (case optProp (Some item) ''tool_use_id'' of Some (JStr t) \<Rightarrow> True | other \<Rightarrow> False) \<and>
      (case optProp (Some item) ''content'' of Some (JStr c) \<Rightarrow> True | other \<Rightarrow> False) \<and>
      optionalText (optProp (Some item) ''error''))"

definition carriedBy :: "string \<Rightarrow> json \<Rightarrow> ToolResultRecord \<Rightarrow> bool" where
  "carriedBy u item r =
     (optProp (Some item) ''tool_use_id'' = Some (JStr (r_toolUseId r)) \<and> r_messageId r = u \<and>
      (case optProp (Some item) ''content'' of
         Some (JStr c) \<Rightarrow> r_output r = (if c = [] then None else Some c)
       | other \<Rightarrow> False))"

text \<open>The row that \<open>insertToolResultRecord\<close> binds, and the row of the placeholder message.\<close>

definition toolResultRow :: "ToolResultRecord \<Rightarrow> tool_result_row" where
  "toolResultRow toolResult =
     \<lparr>rr_id = textOrNull (r_id toolResult), rr_toolUseId = textOrNull (r_toolUseId toolResult),
      rr_messageId = textOrNull (r_messageId toolResult),
      rr_output = optOrNull (r_output toolResult),
      rr_outputMimeType = optOrNull (r_outputMimeType toolResult),
      rr_error = optOrNull (r_error toolResult),
      rr_errorType = optOrNull (r_errorType toolResult)\<rparr>"

definition placeholderRow :: "string \<Rightarrow> string \<Rightarrow> string \<Rightarrow> string \<Rightarrow> message_row" where
  "placeholderRow u s sessionPath now =
     \<lparr>mr_id = Some u, mr_sessionId = Some s, mr_type = Some ''tool_message'',
      mr_timestamp = Some now, mr_isSidechain = 0, mr_projectName = textOrNull sessionPath,
      mr_activeFile = None, mr_userText = None, mr_userType = None, mr_userAttachments = None,
      mr_toolUseResultId = None, mr_toolUseResultName = None, mr_assistantRole = None,
      mr_assistantText = None, mr_assistantModel = None\<rparr>"

text \<open>
  What the claim supposes of the store: the tool uses that the fragments answer are stored,
  and the identifiers drawn for the results are new, distinct and not empty.
\<close>

definition toolUsesStored :: "json list \<Rightarrow> Store \<Rightarrow> bool" where
  "toolUsesStored items db =
     list_all (\<lambda>item. case optProp (Some item) ''tool_use_id'' of
                         Some (JStr t) \<Rightarrow> t \<noteq> [] \<and> hasKey ur_id (tool_uses db) t
                       | other \<Rightarrow> False) items"

definition freshIds :: "string list \<Rightarrow> Store \<Rightarrow> bool" where
  "freshIds ids db =
     (distinct ids \<and> list_all (\<lambda>i. i \<noteq> [] \<and> \<not> hasKey rr_id (tool_use_results db) i) ids)"

definition sessionsKeyed :: "Store \<Rightarrow> bool" where
  "sessionsKeyed db = list_all (\<lambda>r. sr_id r = sr_sessionId r) (sessions db)"

definition envMembersTyped :: "json \<Rightarrow> bool" where
  "envMembersTyped entry =
     (optionalText (optProp (Some entry) ''cwd'') \<and> optionalText (optProp (Some entry) ''platform'') \<and>
      optionalText (optProp (Some entry) ''osVersion''))"

text \<open>The store after the tool-use line of the scenario has been executed on the empty store.\<close>

definition storeAfterToolUse :: Store where
  "storeAfterToolUse =
     (case parseAndTransform uuidSeq 0 ''T0'' ''/p/s1.jsonl'' toolUseLine of
        Inl e \<Rightarrow> emptyStore
      | Inr pd \<Rightarrow>
          (case typedEntry pd of
             None \<Rightarrow> emptyStore
           | Some p \<Rightarrow> fst (executeParsedEntries ''T0'' [p] emptyStore)))"

section \<open>Facts about the string operations\<close>

lemma startsWith_prefix: "startsWith s p = prefix p s"
  by (auto simp: startsWith_def prefix_def)
     (metis append_eq_conv_conj)

lemma includesStr_sublist: "includesStr s k = sublist k s"
  by (induction s) (auto simp: startsWith_prefix sublist_Cons_right)

lemma isSpace_upperChar: "isSpace c \<Longrightarrow> upperChar c = c"
  unfolding isSpace_def by (elim disjE) (simp_all add: upperChar_def)



text \<open>
  Dropping leading characters that cannot start the run \<open>k\<close> keeps every occurrence of \<open>k\<close>.
\<close>

lemma sublist_map_dropWhile:
  assumes "sublist k (map f s)" "k \<noteq> []" "\<And>c. P c \<Longrightarrow> f c \<noteq> hd k"
  shows "sublist k (map f (dropWhile P s))"
  using assms(1)
proof (induction s)
  case Nil
  then show ?case by simp
next
  case (Cons c cs)
  show ?case
  proof (cases "P c")
    case True
    from Cons.prems have "prefix k (f c # map f cs) \<or> sublist k (map f cs)"
      by (simp add: sublist_Cons_right)
    moreover have "\<not> prefix k (f c # map f cs)"
      using assms(2) assms(3)[OF True] by (cases k) auto
    ultimately show ?thesis using Cons.IH True by simp
  next
    case False
    then show ?thesis using Cons.prems by simp
  qed
qed

lemma sublist_fold_trim:
  assumes "sublist k (map upperChar s)" "k \<noteq> []" "\<not> isSpace (hd k)" "\<not> isSpace (last k)"
  shows "sublist k (map upperChar (trim s))"
proof -
  have nh: "\<And>c. isSpace c \<Longrightarrow> upperChar c \<noteq> hd k"
    using assms(3) isSpace_upperChar by metis
  have nl: "\<And>c. isSpace c \<Longrightarrow> upperChar c \<noteq> hd (rev k)"
    using assms(2,4) isSpace_upperChar by (metis hd_rev)
  have "sublist k (map upperChar (dropWhile isSpace s))"
    using sublist_map_dropWhile[where f = upperChar and P = isSpace, OF assms(1) assms(2) nh]
    by simp
  then have "sublist (rev k) (map upperChar (rev (dropWhile isSpace s)))"
    by (simp add: rev_map[symmetric])
  then have "sublist (rev k) (map upperChar (dropWhile isSpace (rev (dropWhile isSpace s))))"
    using sublist_map_dropWhile[where f = upperChar and P = isSpace and k = "rev k", OF _ _ nl]
      assms(2) by simp
  then have "sublist (rev (rev k))
               (rev (map upperChar (dropWhile isSpace (rev (dropWhile isSpace s)))))"
    by (simp only: sublist_rev)
  then show ?thesis by (simp add: trim_def rev_map)
qed

subsection \<open>Capitals of ASCII letters under \<open>toUpperCase\<close>\<close>

lemma upperChar_capital_letter:
  assumes "upperChar c \<in> set capitals"
  shows "c \<in> set (''abcdefghijklmnopqrstuvwxyz'' @ capitals)"
proof (cases "map_of (zip ''abcdefghijklmnopqrstuvwxyz'' ''ABCDEFGHIJKLMNOPQRSTUVWXYZ'') c")
  case None
  then have "upperChar c = c" by (simp add: upperChar_def)
  with assms have "c \<in> set capitals" by simp
  then show ?thesis by (simp only: set_append Un_iff simp_thms)
next
  case (Some u)
  then have "(c, u) \<in> set (zip ''abcdefghijklmnopqrstuvwxyz'' ''ABCDEFGHIJKLMNOPQRSTUVWXYZ'')"
    by (rule map_of_SomeD)
  then have "c \<in> set ''abcdefghijklmnopqrstuvwxyz''" by (rule set_zip_leftD)
  then show ?thesis by (simp only: set_append Un_iff simp_thms)
qed

lemma upperCase_letter:
  assumes "c \<in> set (''abcdefghijklmnopqrstuvwxyz'' @ capitals)"
  shows "upperCase c = [upperChar c]"
proof -
  have 1: "c \<noteq> CHR 0xDF" using assms by (auto simp: capitals_def)
  have 2: "c \<notin> set latinSmall" using assms by (auto simp: capitals_def latinSmall_def)
  have "length latinSmall = length latinCapital" by (simp add: latinSmall_def latinCapital_def)
  then have "map_of (zip latinSmall latinCapital) c = None"
    using 2 by (simp add: map_of_zip_is_None)
  with 1 show ?thesis by (simp add: upperCase_def)
qed

lemma upperCase_capital: "upperChar c \<in> set capitals \<Longrightarrow> upperCase c = [upperChar c]"
  by (rule upperCase_letter) (rule upperChar_capital_letter)

lemma toUpperCase_letters:
  "set (map upperChar m) \<subseteq> set capitals \<Longrightarrow> toUpperCase m = map upperChar m"
  by (induction m) (simp_all add: toUpperCase_def upperCase_capital)

lemma toUpperCase_append: "toUpperCase (a @ b) = toUpperCase a @ toUpperCase b"
  by (simp add: toUpperCase_def)

text \<open>A run of capitals that the ASCII comparison finds is found in the upper-cased text.\<close>

lemma sublist_fold_upper:
  assumes "sublist k (map upperChar t)" "set k \<subseteq> set capitals"
  shows "sublist k (toUpperCase t)"
proof -
  from assms(1) obtain a b where "map upperChar t = a @ k @ b" by (auto simp: sublist_def)
  then have "\<exists>ta r. t = ta @ r \<and> a = map upperChar ta \<and> k @ b = map upperChar r"
    by (simp only: map_eq_append_conv)
  then obtain ta r where r: "t = ta @ r" "map upperChar r = k @ b" by auto
  from r(2) have "\<exists>tm tb. r = tm @ tb \<and> k = map upperChar tm \<and> b = map upperChar tb"
    by (simp only: map_eq_append_conv)
  then obtain tm tb where "r = tm @ tb" "map upperChar tm = k" by auto
  with r(1) have t: "t = ta @ tm @ tb" "map upperChar tm = k" by simp_all
  have "toUpperCase tm = k" using toUpperCase_letters[of tm] t(2) assms(2) by simp
  then have "toUpperCase t = toUpperCase ta @ k @ toUpperCase tb"
    by (simp add: t(1) toUpperCase_append)
  then show ?thesis by (auto simp: sublist_def)
qed



section \<open>Query validation: what is rejected\<close>

lemma forbidden_keyword_shape:
  "k \<in> set FORBIDDEN_KEYWORDS \<Longrightarrow>
     k \<noteq> [] \<and> \<not> isSpace (hd k) \<and> \<not> isSpace (last k) \<and> set k \<subseteq> set capitals"
  by (auto simp: FORBIDDEN_KEYWORDS_def isSpace_def capitals_def)


lemma validateQuery_forbidden:
  assumes "k \<in> set FORBIDDEN_KEYWORDS" "includesStr (toUpperCase (trim s)) k"
  shows "\<exists>e. validateQuery s = Inl e"
proof -
  have "find (\<lambda>keyword. includesStr (toUpperCase (trim s)) keyword) FORBIDDEN_KEYWORDS \<noteq> None"
    using assms by (auto simp: find_None_iff)
  then show ?thesis by (auto simp: validateQuery_def Let_def)
qed

lemma validateQuery_keyword_anywhere:
  assumes "k \<in> set FORBIDDEN_KEYWORDS" "containsKeyword s k"
  shows "\<exists>e. validateQuery s = Inl e"
proof -
  note sh = forbidden_keyword_shape[OF assms(1)]
  have "sublist k (map upperChar (trim s))"
    using assms(2) sh by (simp add: containsKeyword_def sublist_fold_trim)
  then have "includesStr (toUpperCase (trim s)) k"
    using sh by (simp add: includesStr_sublist sublist_fold_upper)
  then show ?thesis using validateQuery_forbidden assms(1) by blast
qed


lemma validateQuery_comment_marker:
  assumes "sublist ''--'' s"
  shows "\<exists>e. validateQuery s = Inl e"
proof -
  have "list_ex (\<lambda>pattern. pattern s) suspiciousPatterns"
    using assms by (simp add: suspiciousPatterns_def includesStr_sublist)
  then show ?thesis
    by (auto simp: validateQuery_def Let_def split: option.splits)
qed


text \<open>
  A statement behind a no-break space is trimmed like one behind a space, and a sharp s in a
  literal does not disturb the test for the first word.
\<close>

lemma validateQuery_trims_no_break_space:
  "validateQuery (CHR 0xA0 # ''SELECT 1'') = Inr () \<and>
   validateQuery (''SELECT '' @ [CHR 0xDF, CHR 0xE9, CHR 0xB5]) = Inr ()"
  by code_simp



text \<open>
  Claim C10. Validation rejects statements that only read: a keyword of the denylist is searched
  as a substring of the upper-cased text, and the comment marker as a substring of the text, so
  a column named \<open>created\<close> or a literal holding two dashes is enough. Both hold for every
  statement, and the two SELECT statements shown are rejected for exactly these reasons.
\<close>

theorem validateQuery_rejects_reading_selects:
  "validateQuery ''SELECT created FROM sessions'' = Inl (ForbiddenKeyword ''CREATE'') \<and>
   validateQuery ''SELECT id FROM m WHERE t LIKE 'a--b' LIMIT 5'' = Inl SuspiciousPattern \<and>
   (\<forall>s k. k \<in> set FORBIDDEN_KEYWORDS \<and> containsKeyword s k \<longrightarrow> (\<exists>e. validateQuery s = Inl e)) \<and>
   (\<forall>s. sublist ''--'' s \<longrightarrow> (\<exists>e. validateQuery s = Inl e))"
proof -
  have 1: "validateQuery ''SELECT created FROM sessions'' = Inl (ForbiddenKeyword ''CREATE'')"
    by code_simp
  have 2: "validateQuery ''SELECT id FROM m WHERE t LIKE 'a--b' LIMIT 5'' = Inl SuspiciousPattern"
    by code_simp
  show ?thesis
    using 1 2 validateQuery_keyword_anywhere validateQuery_comment_marker by blast
qed

theorem validateQuery_rejects_reading_selects_witness:
  "\<exists>e. validateQuery ''SELECT updated_at FROM messages'' = Inl e"
proof -
  have k: "''UPDATE'' \<in> set FORBIDDEN_KEYWORDS" by (simp add: FORBIDDEN_KEYWORDS_def)
  have c: "containsKeyword ''SELECT updated_at FROM messages'' ''UPDATE''" by code_simp
  show ?thesis
    using validateQuery_rejects_reading_selects k c by blast
qed

section \<open>Sliding window: one request against a known entry\<close>

lemma ceilSeconds_pos: "0 < ms \<Longrightarrow> 1 \<le> ceilSeconds ms"
  unfolding ceilSeconds_def by linarith

lemma checkSlidingWindow_allows_under_limit:
  assumes "clients c = Some e" "now - windowStart e \<le> windowSize" "\<not> blocked e"
    and "count e < effectiveLimit rpm custom"
  shows "fst (checkSlidingWindow rpm now clients c custom) =
           \<lparr>allowed = True, retryAfter = None,
            remaining = Some (effectiveLimit rpm custom - (count e + 1))\<rparr>"
    and "snd (checkSlidingWindow rpm now clients c custom) = clients(c \<mapsto> e\<lparr>count := count e + 1\<rparr>)"
  using assms by (simp_all add: checkSlidingWindow_def stillBlocked_def Let_def)

lemma checkSlidingWindow_denies_inside_window:
  assumes "clients c = Some e" "now - windowStart e < windowSize"
    and "effectiveLimit rpm custom \<le> count e"
  shows "\<exists>r. fst (checkSlidingWindow rpm now clients c custom) =
               \<lparr>allowed = False, retryAfter = Some r, remaining = Some 0\<rparr> \<and> 1 \<le> r"
proof (cases "stillBlocked e now")
  case True
  then obtain b where "blockUntil e = Some b" "now < b"
    by (auto simp: stillBlocked_def split: option.splits)
  then show ?thesis
    using assms True by (simp add: checkSlidingWindow_def Let_def ceilSeconds_pos)
next
  case False
  have "0 < windowStart e + windowSize - now" using assms(2) by simp
  then show ?thesis
    using assms False by (simp add: checkSlidingWindow_def Let_def ceilSeconds_pos)
qed

lemma checkSlidingWindow_allows_after_window:
  assumes "clients c = Some e" "now - windowStart e > windowSize"
    and "1 \<le> effectiveLimit rpm custom"
  shows "allowed (fst (checkSlidingWindow rpm now clients c custom))"
  using assms
  by (simp add: checkSlidingWindow_def stillBlocked_def freshEntry_def Let_def)

text \<open>
  Claim C9. With a budget of two requests per minute, a caller's requests at 1000 ms and
  2000 ms are allowed; the third request, made at 61000 ms, still falls into the window that
  opened at 1000 ms (the window is reset only when more than 60000 ms have passed) and is denied
  with a retry-after of 0 seconds, which is not strictly positive.
\<close>

theorem checkSlidingWindow_zero_retryAfter_at_window_end:
  "map (\<lambda>r. (allowed r, retryAfter r))
       (fst (slidingRequests 2 Map.empty ''caller'' [1000, 2000, 61000])) =
     [(True, None), (True, None), (False, Some 0)]"
  by (simp add: checkSlidingWindow_def effectiveLimit_def freshEntry_def stillBlocked_def
      windowSize_def ceilSeconds_def Let_def)

section \<open>Connection pool: what acquire and release do\<close>

lemma takeIdle_None_iff: "takeIdle now cs = None \<longleftrightarrow> (\<forall>c \<in> set cs. inUse c)"
  by (induction cs) (auto split: option.splits)

lemma takeIdle_Some:
  assumes "takeIdle now cs = Some (r, cs')"
  shows "\<exists>pre c post. cs = pre @ c # post \<and> (\<forall>p \<in> set pre. inUse p) \<and> \<not> inUse c \<and>
           r = c\<lparr>inUse := True, lastUsed := now\<rparr> \<and> cs' = pre @ r # post"
  using assms
proof (induction cs arbitrary: cs')
  case Nil
  then show ?case by simp
next
  case (Cons a cs)
  show ?case
  proof (cases "inUse a")
    case False
    with Cons.prems have "r = a\<lparr>inUse := True, lastUsed := now\<rparr>" "cs' = r # cs"
      by (auto simp: Let_def)
    with False show ?thesis by (intro exI[of _ "[]"] exI[of _ a] exI[of _ cs]) simp
  next
    case True
    with Cons.prems obtain cs0 where t: "takeIdle now cs = Some (r, cs0)" and c: "cs' = a # cs0"
      by (auto split: option.splits)
    from Cons.IH[OF t] obtain pre c post where
      "cs = pre @ c # post" "\<forall>p \<in> set pre. inUse p" "\<not> inUse c"
      "r = c\<lparr>inUse := True, lastUsed := now\<rparr>" "cs0 = pre @ r # post"
      by blast
    with True c show ?thesis
      by (intro exI[of _ "a # pre"] exI[of _ c] exI[of _ post]) simp
  qed
qed

lemma acquire_returns_first_idle:
  assumes "\<not> closed pool" "\<exists>c \<in> set (connections pool). \<not> inUse c"
  shows "\<exists>pre c post. connections pool = pre @ c # post \<and> (\<forall>p \<in> set pre. inUse p) \<and> \<not> inUse c \<and>
           acquire now pool =
             (Acquired (c\<lparr>inUse := True, lastUsed := now\<rparr>),
              pool\<lparr>connections := pre @ c\<lparr>inUse := True, lastUsed := now\<rparr> # post\<rparr>)"
proof -
  from assms(2) obtain r cs' where t: "takeIdle now (connections pool) = Some (r, cs')"
    using takeIdle_None_iff[of now "connections pool"] by (cases "takeIdle now (connections pool)") auto
  from takeIdle_Some[OF t] obtain pre c post where
    "connections pool = pre @ c # post" "\<forall>p \<in> set pre. inUse p" "\<not> inUse c"
    "r = c\<lparr>inUse := True, lastUsed := now\<rparr>" "cs' = pre @ r # post"
    by blast
  then show ?thesis using assms(1) t by (auto simp: acquire_def)
qed

lemma acquire_creates_below_opt_max:
  assumes "\<not> closed pool" "\<forall>c \<in> set (connections pool). inUse c"
    and "opt_max (poolOptions pool) = Some m" "int (length (connections pool)) < m"
  shows "fst (acquire now pool) =
           Acquired \<lparr>conn_id = nextId pool, inUse = True, lastUsed = now, created = now\<rparr>"
    and "length (connections (snd (acquire now pool))) = length (connections pool) + 1"
  using assms takeIdle_None_iff[of now "connections pool"]
  by (simp_all add: acquire_def lessThanOpt_def createConnection_def updateConnection_def Let_def)

lemma acquire_waits_when_exhausted:
  assumes "\<not> closed pool" "\<forall>c \<in> set (connections pool). inUse c"
    and "\<not> lessThanOpt (int (length (connections pool))) (opt_max (poolOptions pool))"
  shows "acquire now pool =
           (Waiting (nextTicket pool) (opt_acquireTimeout (poolOptions pool)),
            pool\<lparr>waitQueue := waitQueue pool @ [nextTicket pool], nextTicket := nextTicket pool + 1\<rparr>)"
  using assms takeIdle_None_iff[of now "connections pool"]
  by (simp add: acquire_def)

lemma release_serves_oldest_waiter:
  assumes "waitQueue pool = w # ws"
  shows "fst (release now i pool) = Some w" and "waitQueue (snd (release now i pool)) = ws"
  using assms by (simp_all add: release_def Let_def)

lemma release_without_waiters:
  assumes "waitQueue pool = []"
  shows "release now i pool =
           (None, pool\<lparr>connections :=
                          updateConnection i (\<lambda>c. c\<lparr>inUse := False, lastUsed := now\<rparr>) (connections pool)\<rparr>)"
  using assms by (simp add: release_def Let_def)

lemma released_connection_idle:
  assumes "c \<in> set (updateConnection i (\<lambda>c. c\<lparr>inUse := False, lastUsed := now\<rparr>) cs)" "conn_id c = i"
  shows "\<not> inUse c"
proof -
  from assms(1) obtain c0 where "c0 \<in> set cs"
    and c: "c = (if conn_id c0 = i then c0\<lparr>inUse := False, lastUsed := now\<rparr> else c0)"
    unfolding updateConnection_def by auto
  show ?thesis
  proof (cases "conn_id c0 = i")
    case True
    with c show ?thesis by simp
  next
    case False
    with c assms(2) show ?thesis by simp
  qed
qed

text \<open>
  Claim C8. The connection manager configures the pool with \<open>maxConnections = 10\<close> and
  \<open>acquireTimeoutMs = 5000\<close>. The pool built from these options holds no connection, and its
  first \<open>acquire\<close> neither finds an idle handle nor creates one, although zero handles are
  open: it reads the maximum from \<open>options.max\<close>, which is undefined. The caller is queued, and
  the timer is started with the undefined \<open>options.acquireTimeout\<close>, a delay of 1 ms, not the
  configured 5000 ms.
\<close>

theorem acquire_ignores_configured_maximum:
  "maxConnections (poolOptions (newDatabasePool 0 managerPoolOptions)) = Some 10 \<and>
   acquireTimeoutMs (poolOptions (newDatabasePool 0 managerPoolOptions)) = Some 5000 \<and>
   connections (newDatabasePool 0 managerPoolOptions) = [] \<and>
   acquire 5 (newDatabasePool 0 managerPoolOptions) =
     (Waiting 0 None, (newDatabasePool 0 managerPoolOptions)\<lparr>waitQueue := [0], nextTicket := 1\<rparr>) \<and>
   timerDelay None = 1"
  by (simp add: newDatabasePool_def initializePool_def constructorDefaults_def orNumber_def
      managerPoolOptions_def acquire_def lessThanOpt_def timerDelay_def)

section \<open>Streaming line processor: errors reported, entries delivered\<close>

lemma lineErrorNumbers_append:
  "lineErrorNumbers (xs @ ys) = lineErrorNumbers xs @ lineErrorNumbers ys"
  by (induction xs rule: lineErrorNumbers.induct) simp_all

lemma processBatch_keeps:
  "lineCounter (processBatch p sp) = lineCounter sp"
  "optMaxLineLength (processBatch p sp) = optMaxLineLength sp"
  "optBatchSize (processBatch p sp) = optBatchSize sp"
  "totalLines (stats (processBatch p sp)) = totalLines (stats sp)"
  "lineErrorNumbers (emitted (processBatch p sp)) = lineErrorNumbers (emitted sp)"
  "concat (delivered (processBatch p sp)) @ currentBatch (processBatch p sp) =
     concat (delivered sp) @ currentBatch sp"
  by (simp_all add: processBatch_def emit_def addErrorLines_def Let_def lineErrorNumbers_append)

lemma processBatch_empties: "currentBatch (processBatch p sp) = []"
  by (simp add: processBatch_def emit_def addErrorLines_def Let_def)

lemma processBatch_errorLines:
  "p (currentBatch sp) \<Longrightarrow> errorLines (stats (processBatch p sp)) = errorLines (stats sp)"
  by (simp add: processBatch_def emit_def addErrorLines_def Let_def)

lemma onLine_keeps:
  "lineCounter (onLine parse p l sp) = lineCounter sp + 1"
  "optMaxLineLength (onLine parse p l sp) = optMaxLineLength sp"
  "optBatchSize (onLine parse p l sp) = optBatchSize sp"
  "totalLines (stats (onLine parse p l sp)) = totalLines (stats sp) + 1"
  by (simp_all add: onLine_def Let_def emit_def addErrorLines_def processBatch_keeps
      split: option.splits)

lemma onLine_lineErrors:
  "lineErrorNumbers (emitted (onLine parse p l sp)) =
     lineErrorNumbers (emitted sp) @ reportedLines parse (optMaxLineLength sp) (lineCounter sp) [l]"
  by (simp add: onLine_def Let_def emit_def addErrorLines_def processBatch_keeps
      lineErrorNumbers_append tooLong_def split: option.splits)

lemma onLine_entries:
  "concat (delivered (onLine parse p l sp)) @ currentBatch (onLine parse p l sp) =
     concat (delivered sp) @ currentBatch sp @
       decodedEntries parse (optMaxLineLength sp) (lineCounter sp) [l]"
  by (simp add: onLine_def Let_def emit_def addErrorLines_def processBatch_keeps tooLong_def
      split: option.splits)

lemma onLine_errorLines:
  assumes "\<And>b. p b"
  shows "errorLines (stats (onLine parse p l sp)) =
           errorLines (stats sp) + length (reportedLines parse (optMaxLineLength sp) (lineCounter sp) [l])"
  using assms
  by (simp add: onLine_def Let_def emit_def addErrorLines_def processBatch_errorLines tooLong_def
      split: option.splits)

lemma reportedLines_Cons:
  "reportedLines parse m n (l # ls) = reportedLines parse m n [l] @ reportedLines parse m (n + 1) ls"
  by simp

lemma decodedEntries_Cons:
  "decodedEntries parse m n (l # ls) = decodedEntries parse m n [l] @ decodedEntries parse m (n + 1) ls"
  by (simp split: option.splits)

lemma onLines_keeps:
  "lineCounter (onLines parse p ls sp) = lineCounter sp + length ls"
  "optMaxLineLength (onLines parse p ls sp) = optMaxLineLength sp"
  "totalLines (stats (onLines parse p ls sp)) = totalLines (stats sp) + length ls"
  by (induction ls arbitrary: sp) (simp_all add: onLine_keeps)

lemma onLines_lineErrors:
  "lineErrorNumbers (emitted (onLines parse p ls sp)) =
     lineErrorNumbers (emitted sp) @ reportedLines parse (optMaxLineLength sp) (lineCounter sp) ls"
proof (induction ls arbitrary: sp)
  case Nil
  show ?case by simp
next
  case (Cons l ls)
  have "lineErrorNumbers (emitted (onLines parse p (l # ls) sp)) =
          lineErrorNumbers (emitted (onLine parse p l sp)) @
            reportedLines parse (optMaxLineLength sp) (lineCounter sp + 1) ls"
    by (simp add: Cons.IH onLine_keeps)
  also have "\<dots> = lineErrorNumbers (emitted sp) @
                     reportedLines parse (optMaxLineLength sp) (lineCounter sp) (l # ls)"
    by (subst reportedLines_Cons) (simp add: onLine_lineErrors)
  finally show ?case .
qed

lemma onLines_entries:
  "concat (delivered (onLines parse p ls sp)) @ currentBatch (onLines parse p ls sp) =
     concat (delivered sp) @ currentBatch sp @
       decodedEntries parse (optMaxLineLength sp) (lineCounter sp) ls"
proof (induction ls arbitrary: sp)
  case Nil
  show ?case by simp
next
  case (Cons l ls)
  have "concat (delivered (onLines parse p (l # ls) sp)) @ currentBatch (onLines parse p (l # ls) sp) =
          (concat (delivered (onLine parse p l sp)) @ currentBatch (onLine parse p l sp)) @
            decodedEntries parse (optMaxLineLength sp) (lineCounter sp + 1) ls"
    by (simp add: Cons.IH onLine_keeps)
  also have "\<dots> = concat (delivered sp) @ currentBatch sp @
                     decodedEntries parse (optMaxLineLength sp) (lineCounter sp) (l # ls)"
    by (subst decodedEntries_Cons, subst onLine_entries) simp
  finally show ?case .
qed

lemma onLines_errorLines:
  assumes "\<And>b. p b"
  shows "errorLines (stats (onLines parse p ls sp)) =
           errorLines (stats sp) + length (reportedLines parse (optMaxLineLength sp) (lineCounter sp) ls)"
proof (induction ls arbitrary: sp)
  case Nil
  show ?case by simp
next
  case (Cons l ls)
  have "errorLines (stats (onLines parse p (l # ls) sp)) =
          errorLines (stats (onLine parse p l sp)) +
            length (reportedLines parse (optMaxLineLength sp) (lineCounter sp + 1) ls)"
    by (simp add: Cons.IH onLine_keeps)
  also have "\<dots> = errorLines (stats sp) +
                     length (reportedLines parse (optMaxLineLength sp) (lineCounter sp) (l # ls))"
    by (subst reportedLines_Cons) (simp add: onLine_errorLines[OF assms])
  finally show ?case .
qed

lemma onClose_keeps:
  "lineErrorNumbers (emitted (onClose p sp)) = lineErrorNumbers (emitted sp)"
  "totalLines (stats (onClose p sp)) = totalLines (stats sp)"
  "concat (delivered (onClose p sp)) = concat (delivered sp) @ currentBatch sp"
  "currentBatch (onClose p sp) = []"
  using processBatch_keeps(6)[of p sp]
  by (simp_all add: onClose_def emit_def processBatch_keeps lineErrorNumbers_append
      processBatch_empties)

lemma onClose_errorLines:
  "p (currentBatch sp) \<Longrightarrow> errorLines (stats (onClose p sp)) = errorLines (stats sp)"
  by (simp add: onClose_def emit_def processBatch_errorLines)

lemma reportedLines_count:
  "length (reportedLines parse m n ls) =
     length (filter (\<lambda>l. malformedLine parse m l \<and> \<not> blankLine m l) ls)"
  by (induction ls arbitrary: n) (auto simp: malformedLine_def blankLine_def tooLong_def)

lemma decodedEntries_count:
  "length (decodedEntries parse m n ls) =
     length (filter (\<lambda>l. \<not> malformedLine parse m l \<and> \<not> blankLine m l) ls)"
  by (induction ls arbitrary: n)
     (auto simp: malformedLine_def blankLine_def tooLong_def split: option.splits)

text \<open>
  Claim C7, as the code has it. For every file, every decoder and every downstream processor:
  the line-level error events are exactly those of the lines that are too long or are
  non-blank and cannot be decoded, in file order; the batches handed to the processor,
  concatenated, are exactly the decoded entries of the remaining non-blank lines, in file order
  and with their line numbers, and nothing is left in the buffer; every line is counted. The
  number of reported lines is the number of malformed lines that are not blank, the number of
  delivered entries the number of well-formed lines, and when the processor never rejects a
  batch the error counter equals the number of reported lines. A line of white space only is
  skipped without a report.
\<close>

theorem processFile_reports_malformed_and_delivers_rest:
  "lineErrorNumbers (emitted (processFile parse processor options ls)) =
     reportedLines parse (orDefault (maxLineLength options) (10 * 1024 * 1024)) 0 ls \<and>
   concat (delivered (processFile parse processor options ls)) =
     decodedEntries parse (orDefault (maxLineLength options) (10 * 1024 * 1024)) 0 ls \<and>
   currentBatch (processFile parse processor options ls) = [] \<and>
   totalLines (stats (processFile parse processor options ls)) = length ls \<and>
   length (reportedLines parse (orDefault (maxLineLength options) (10 * 1024 * 1024)) 0 ls) =
     length (filter (\<lambda>l. malformedLine parse (orDefault (maxLineLength options) (10 * 1024 * 1024)) l \<and>
                          \<not> blankLine (orDefault (maxLineLength options) (10 * 1024 * 1024)) l) ls) \<and>
   length (decodedEntries parse (orDefault (maxLineLength options) (10 * 1024 * 1024)) 0 ls) =
     length (filter (\<lambda>l. \<not> malformedLine parse (orDefault (maxLineLength options) (10 * 1024 * 1024)) l \<and>
                          \<not> blankLine (orDefault (maxLineLength options) (10 * 1024 * 1024)) l) ls) \<and>
   ((\<forall>b. processor b) \<longrightarrow>
      errorLines (stats (processFile parse processor options ls)) =
        length (reportedLines parse (orDefault (maxLineLength options) (10 * 1024 * 1024)) 0 ls))"
proof -
  let ?m = "orDefault (maxLineLength options) (10 * 1024 * 1024)"
  let ?ini = "newJSONLStreamProcessor options :: 'a JSONLStreamProcessor"
  let ?sp = "onLines parse processor ls ?ini"
  have init: "optMaxLineLength ?ini = ?m" "lineCounter ?ini = 0" "emitted ?ini = []"
    "delivered ?ini = []" "currentBatch ?ini = []" "totalLines (stats ?ini) = 0"
    "errorLines (stats ?ini) = 0"
    by (simp_all add: newJSONLStreamProcessor_def)
  have 1: "lineErrorNumbers (emitted (processFile parse processor options ls)) =
             reportedLines parse ?m 0 ls"
    using onLines_lineErrors[of parse processor ls ?ini]
    by (simp add: processFile_def onClose_keeps init)
  have 2: "concat (delivered (processFile parse processor options ls)) = decodedEntries parse ?m 0 ls"
    using onLines_entries[of parse processor ls ?ini]
    by (simp add: processFile_def onClose_keeps init)
  have 3: "currentBatch (processFile parse processor options ls) = []"
    by (simp add: processFile_def onClose_keeps)
  have 4: "totalLines (stats (processFile parse processor options ls)) = length ls"
    by (simp add: processFile_def onClose_keeps onLines_keeps init)
  have 5: "errorLines (stats (processFile parse processor options ls)) =
             length (reportedLines parse ?m 0 ls)" if "\<forall>b. processor b"
    using that onLines_errorLines[of processor parse ls ?ini]
    by (simp add: processFile_def onClose_errorLines init)
  show ?thesis
    using 1 2 3 4 5 reportedLines_count[of parse ?m 0 ls] decodedEntries_count[of parse ?m 0 ls]
    by blast
qed

text \<open>
  A file of five lines: two literals, a blank line, an undecodable line, a line that is too long.
\<close>

theorem processFile_reports_malformed_and_delivers_rest_witness:
  "lineErrorNumbers (emitted (processFile parseLiteral alwaysResolves
       \<lparr>batchSize = Some 2, maxLineLength = Some 8\<rparr>
       [''{}'', ''  '', ''{oops'', ''null'', ''     true''])) = [3, 5] \<and>
   map lineNumber (concat (delivered (processFile parseLiteral alwaysResolves
       \<lparr>batchSize = Some 2, maxLineLength = Some 8\<rparr>
       [''{}'', ''  '', ''{oops'', ''null'', ''     true'']))) = [1, 4] \<and>
   errorLines (stats (processFile parseLiteral alwaysResolves
       \<lparr>batchSize = Some 2, maxLineLength = Some 8\<rparr>
       [''{}'', ''  '', ''{oops'', ''null'', ''     true''])) = 2"
proof -
  have p: "\<forall>b :: json_literal JSONLEntry list. alwaysResolves b"
    by (simp add: alwaysResolves_def)
  have r: "reportedLines parseLiteral (orDefault (maxLineLength \<lparr>batchSize = Some 2, maxLineLength = Some 8\<rparr>) (10 * 1024 * 1024)) 0
             [''{}'', ''  '', ''{oops'', ''null'', ''     true''] = [3, 5]"
    by (simp add: orDefault_def tooLong_def parseLiteral_def trim_def isSpace_def)
  have d: "map lineNumber (decodedEntries parseLiteral (orDefault (maxLineLength \<lparr>batchSize = Some 2, maxLineLength = Some 8\<rparr>) (10 * 1024 * 1024)) 0
             [''{}'', ''  '', ''{oops'', ''null'', ''     true'']) = [1, 4]"
    by (simp add: orDefault_def tooLong_def parseLiteral_def trim_def isSpace_def)
  show ?thesis
    using p r d
      processFile_reports_malformed_and_delivers_rest
        [of parseLiteral alwaysResolves "\<lparr>batchSize = Some 2, maxLineLength = Some 8\<rparr>"
            "[''{}'', ''  '', ''{oops'', ''null'', ''     true'']"]
    by simp
qed

text \<open>
  The claim as stated fails on a blank line: it cannot be decoded, so it is one of the malformed
  lines of the claim, but the processor reports no error for it.
\<close>

theorem processFile_blank_line_counterexample:
  "length (filter (malformedLine parseLiteral 100) [''{}'', ''  '', ''null'']) = 1 \<and>
   lineErrorNumbers (emitted (processFile parseLiteral alwaysResolves
       \<lparr>batchSize = Some 2, maxLineLength = Some 100\<rparr> [''{}'', ''  '', ''null''])) = [] \<and>
   errorLines (stats (processFile parseLiteral alwaysResolves
       \<lparr>batchSize = Some 2, maxLineLength = Some 100\<rparr> [''{}'', ''  '', ''null''])) = 0"
  by (simp add: malformedLine_def tooLong_def parseLiteral_def trim_def isSpace_def
      processFile_def onLine_def onClose_def processBatch_def newJSONLStreamProcessor_def
      orDefault_def emit_def addErrorLines_def alwaysResolves_def Let_def)

text \<open>A line that holds a no-break space only is blank: it is skipped without a report.\<close>

lemma processFile_skips_no_break_space:
  "blankLine 100 [CHR 0xA0] \<and>
   lineErrorNumbers (emitted (processFile parseLiteral alwaysResolves
       \<lparr>batchSize = Some 2, maxLineLength = Some 100\<rparr> [[CHR 0xA0], ''null''])) = [] \<and>
   map lineNumber (concat (delivered (processFile parseLiteral alwaysResolves
       \<lparr>batchSize = Some 2, maxLineLength = Some 100\<rparr> [[CHR 0xA0], ''null'']))) = [2]"
  by (simp add: blankLine_def tooLong_def parseLiteral_def trim_def isSpace_def
      processFile_def onLine_def onClose_def processBatch_def newJSONLStreamProcessor_def
      orDefault_def emit_def addErrorLines_def alwaysResolves_def Let_def)

section \<open>Tool extraction: identifiers and output\<close>

lemma getProp_optProp: "item \<noteq> JNull \<Longrightarrow> getProp item f = Inr (optProp (Some item) f)"
  by (cases item) simp_all

lemma typeIs_isFragment: "item \<noteq> JNull \<Longrightarrow> typeIs item t = Inr (isFragment t item)"
  by (simp add: typeIs_def isFragment_def getProp_optProp)

lemma typeIs_null: "typeIs JNull t = Inl (TypeError ''type'')"
  by (simp add: typeIs_def)

lemma typeIs_Inr: "typeIs item t = Inr b \<Longrightarrow> item \<noteq> JNull \<and> b = isFragment t item"
  by (cases "item = JNull") (simp_all add: typeIs_null typeIs_isFragment)

lemma toolUseOf_Some:
  "toolUseOf uuid item = Inr (Some u) \<Longrightarrow>
     isFragment ''tool_use'' item \<and> tu_id u = optProp (Some item) ''id'' \<and> tu_messageId u = uuid"
  unfolding toolUseOf_def
  by (auto split: sum.splits bool.splits dest: typeIs_Inr)

lemma toolUseOf_None: "toolUseOf uuid item = Inr None \<Longrightarrow> \<not> isFragment ''tool_use'' item"
  unfolding toolUseOf_def
  by (auto split: sum.splits bool.splits dest: typeIs_Inr)

lemma toolUseOf_total: "item \<noteq> JNull \<Longrightarrow> \<exists>r. toolUseOf uuid item = Inr r"
  by (cases "isFragment ''tool_use'' item") (simp_all add: toolUseOf_def typeIs_isFragment)

lemma toolUsesLoop_ids:
  "toolUsesLoop uuid items = Inr (uses, cleaned) \<Longrightarrow>
     map tu_id uses = map (\<lambda>i. optProp (Some i) ''id'') (filter (isFragment ''tool_use'') items) \<and>
     cleaned = filter (\<lambda>i. \<not> isFragment ''tool_use'' i) items"
proof (induction items arbitrary: uses cleaned)
  case Nil
  then show ?case by simp
next
  case (Cons item rest)
  from Cons.prems obtain r uses' cleaned' where
    r: "toolUseOf uuid item = Inr r" and l: "toolUsesLoop uuid rest = Inr (uses', cleaned')"
    by (auto split: sum.splits)
  note ih = Cons.IH[OF l]
  show ?case
  proof (cases r)
    case None
    with Cons.prems r l have "uses = uses'" "cleaned = item # cleaned'" by simp_all
    with ih toolUseOf_None[of uuid item] r None show ?thesis by simp
  next
    case (Some u)
    with Cons.prems r l have "uses = u # uses'" "cleaned = cleaned'" by simp_all
    with ih toolUseOf_Some[of uuid item u] r Some show ?thesis by simp
  qed
qed

lemma toolUsesLoop_total: "JNull \<notin> set items \<Longrightarrow> \<exists>r. toolUsesLoop uuid items = Inr r"
proof (induction items)
  case Nil
  show ?case by simp
next
  case (Cons item rest)
  then obtain r q where "toolUseOf uuid item = Inr r" "toolUsesLoop uuid rest = Inr q"
    using toolUseOf_total[of item uuid] by auto
  then show ?case by (cases q; cases r) simp_all
qed

lemma resultItemText_fragmentText:
  "item \<noteq> JNull \<Longrightarrow> resultItemText item = Inr (fragmentText item)"
  by (cases item) (simp_all add: resultItemText_def fragmentText_def)

lemma resultItemText_null: "resultItemText JNull = Inl (TypeError ''text'')"
  by (simp add: resultItemText_def)

lemma resultItemText_Inr: "resultItemText item = Inr t \<Longrightarrow> t = fragmentText item"
proof (cases "item = JNull")
  case True
  then show "resultItemText item = Inr t \<Longrightarrow> t = fragmentText item"
    by (simp add: resultItemText_null)
next
  case False
  then show "resultItemText item = Inr t \<Longrightarrow> t = fragmentText item"
    by (simp add: resultItemText_fragmentText)
qed

lemma mapE_resultItemText_Inr:
  "mapE resultItemText xs = Inr ts \<Longrightarrow> ts = map fragmentText xs"
  by (induction xs arbitrary: ts) (auto split: sum.splits dest: resultItemText_Inr)

lemma mapE_resultItemText_total:
  "JNull \<notin> set xs \<Longrightarrow> mapE resultItemText xs = Inr (map fragmentText xs)"
  by (induction xs) (simp_all add: resultItemText_fragmentText[OF not_sym])

lemma outputContent_Inr:
  "outputContent (optProp (Some item) ''content'') = Inr out \<Longrightarrow> out = normalisedOutput item"
  unfolding outputContent_def normalisedOutput_def Let_def
  by (auto split: if_splits json.splits sum.splits dest: mapE_resultItemText_Inr)

lemma outputContent_total:
  "nullFreeContent item \<Longrightarrow>
     outputContent (optProp (Some item) ''content'') = Inr (normalisedOutput item)"
  unfolding outputContent_def normalisedOutput_def nullFreeContent_def Let_def
  by (auto split: option.splits json.splits simp: mapE_resultItemText_total)

text \<open>What a tool-result record must hold for the fragment it was made from.\<close>

lemma toolResultOf_Some:
  assumes "toolResultOf fresh uuid item = Inr (Some r)"
  shows "isFragment ''tool_result'' item" "tr_id r = fresh"
    "tr_toolUseId r = optProp (Some item) ''tool_use_id''" "tr_messageId r = uuid"
    "tr_output r = normalisedOutput item"
    "tr_error r = orNull (optProp (Some item) ''error'')"
    "tr_errorType r = (if truthy (optProp (Some item) ''error'') then Some ''tool_error'' else None)"
  using assms unfolding toolResultOf_def
  by (auto split: sum.splits bool.splits dest: typeIs_Inr outputContent_Inr)

lemma toolResultOf_None: "toolResultOf fresh uuid item = Inr None \<Longrightarrow> \<not> isFragment ''tool_result'' item"
  unfolding toolResultOf_def
  by (auto split: sum.splits bool.splits dest: typeIs_Inr)

lemma toolResultOf_total:
  "item \<noteq> JNull \<Longrightarrow> nullFreeContent item \<Longrightarrow> \<exists>r. toolResultOf fresh uuid item = Inr r"
  by (cases "isFragment ''tool_result'' item")
     (simp_all add: toolResultOf_def typeIs_isFragment outputContent_total)

definition resultMatches :: "jsval \<Rightarrow> json \<Rightarrow> ToolResultData \<Rightarrow> bool" where
  "resultMatches uuid item r =
     (tr_toolUseId r = optProp (Some item) ''tool_use_id'' \<and> tr_messageId r = uuid \<and>
      tr_output r = normalisedOutput item \<and>
      tr_error r = orNull (optProp (Some item) ''error'') \<and>
      tr_errorType r = (if truthy (optProp (Some item) ''error'') then Some ''tool_error'' else None))"

lemma toolResultsLoop_matches:
  "toolResultsLoop uuids k uuid items = Inr (rs, cleaned) \<Longrightarrow>
     list_all2 (resultMatches uuid) (filter (isFragment ''tool_result'') items) rs \<and>
     map tr_id rs = map uuids [k ..< k + length rs] \<and>
     cleaned = filter (\<lambda>i. \<not> isFragment ''tool_result'' i) items"
proof (induction items arbitrary: k rs cleaned)
  case Nil
  then show ?case by simp
next
  case (Cons item rest)
  from Cons.prems obtain r where r: "toolResultOf (uuids k) uuid item = Inr r"
    by (auto split: sum.splits)
  show ?case
  proof (cases r)
    case None
    with Cons.prems r obtain rs' cleaned' where
      l: "toolResultsLoop uuids k uuid rest = Inr (rs', cleaned')" and
      e: "rs = rs'" "cleaned = item # cleaned'"
      by (auto split: sum.splits)
    from Cons.IH[OF l] toolResultOf_None[of "uuids k" uuid item] r None e
    show ?thesis by simp
  next
    case (Some x)
    with Cons.prems r obtain rs' cleaned' where
      l: "toolResultsLoop uuids (k + 1) uuid rest = Inr (rs', cleaned')" and
      e: "rs = x # rs'" "cleaned = cleaned'"
      by (auto split: sum.splits)
    have m: "resultMatches uuid item x" "isFragment ''tool_result'' item" "tr_id x = uuids k"
      using toolResultOf_Some[of "uuids k" uuid item x] r Some
      by (simp_all add: resultMatches_def)
    have "[k ..< k + length (x # rs')] = k # [k + 1 ..< k + 1 + length rs']"
      by (subst upt_rec) simp
    then have "map uuids [k ..< k + length (x # rs')] = uuids k # map uuids [k + 1 ..< k + 1 + length rs']"
      by simp
    with Cons.IH[OF l] m e show ?thesis by simp
  qed
qed

lemma toolResultsLoop_total:
  "noNullFragments items \<Longrightarrow> \<exists>r. toolResultsLoop uuids k uuid items = Inr r"
proof (induction items arbitrary: k)
  case Nil
  show ?case by simp
next
  case (Cons item rest)
  then have n: "item \<noteq> JNull" "nullFreeContent item" "noNullFragments rest"
    by (auto simp: noNullFragments_def)
  from toolResultOf_total[OF n(1,2)] obtain r where r: "toolResultOf (uuids k) uuid item = Inr r"
    by blast
  show ?case
  proof (cases r)
    case None
    from Cons.IH[OF n(3), of k] obtain q where "toolResultsLoop uuids k uuid rest = Inr q" by blast
    with r None show ?thesis by (cases q) simp
  next
    case (Some x)
    from Cons.IH[OF n(3), of "k + 1"] obtain q where "toolResultsLoop uuids (k + 1) uuid rest = Inr q"
      by blast
    with r Some show ?thesis by (cases q) simp
  qed
qed

lemma extractToolUses_array:
  assumes "messageContent entry = Inr (Some (JArr items))"
  shows "extractToolUses entry =
           (case toolUsesLoop (optProp (Some entry) ''uuid'') items of
              Inl e \<Rightarrow> Inl e
            | Inr (uses, cleaned) \<Rightarrow>
                Inr \<lparr>extracted = uses, cleanedContent = cleaned, hasTools = (uses \<noteq> [])\<rparr>)"
proof -
  have "entry \<noteq> JNull" using assms by (auto simp: messageContent_def)
  then show ?thesis using assms by (simp add: extractToolUses_def getProp_optProp)
qed

lemma extractToolResults_array:
  assumes "messageContent entry = Inr (Some (JArr items))"
  shows "extractToolResults uuids k entry =
           (case toolResultsLoop uuids k (optProp (Some entry) ''uuid'') items of
              Inl e \<Rightarrow> Inl e
            | Inr (rs, cleaned) \<Rightarrow>
                Inr \<lparr>extracted = rs, cleanedContent = cleaned, hasTools = (rs \<noteq> [])\<rparr>)"
proof -
  have "entry \<noteq> JNull" using assms by (auto simp: messageContent_def)
  then show ?thesis using assms by (simp add: extractToolResults_def getProp_optProp)
qed

text \<open>
  Claim C1. Let the content of an entry be the list \<open>items\<close>. Whenever extraction returns, the
  identifiers of the mapped tool-use records are the \<open>id\<close> members of the \<open>tool_use\<close> fragments,
  in order, and the \<open>toolUseId\<close>s of the mapped tool-result records are the \<open>tool_use_id\<close>
  members of the \<open>tool_result\<close> fragments, in order: no identifier is generated for them. And
  extraction does return when no fragment is \<open>null\<close>.
\<close>

theorem tool_ids_copied_from_fragments:
  assumes "messageContent entry = Inr (Some (JArr items))"
  shows "(\<forall>ex. extractToolUses entry = Inr ex \<longrightarrow>
            map tu_id (map mapToToolUseRecord (extracted ex)) =
              map (\<lambda>i. optProp (Some i) ''id'') (filter (isFragment ''tool_use'') items)) \<and>
         (\<forall>ex. extractToolResults uuids k entry = Inr ex \<longrightarrow>
            map tr_toolUseId (map mapToToolResultRecord (extracted ex)) =
              map (\<lambda>i. optProp (Some i) ''tool_use_id'') (filter (isFragment ''tool_result'') items)) \<and>
         (JNull \<notin> set items \<longrightarrow> (\<exists>ex. extractToolUses entry = Inr ex)) \<and>
         (noNullFragments items \<longrightarrow> (\<exists>ex. extractToolResults uuids k entry = Inr ex))"
proof (intro conjI allI impI)
  fix ex
  assume "extractToolUses entry = Inr ex"
  then obtain uses cleaned where
    "toolUsesLoop (optProp (Some entry) ''uuid'') items = Inr (uses, cleaned)" "extracted ex = uses"
    unfolding extractToolUses_array[OF assms] by (auto split: sum.splits)
  then show "map tu_id (map mapToToolUseRecord (extracted ex)) =
               map (\<lambda>i. optProp (Some i) ''id'') (filter (isFragment ''tool_use'') items)"
    using toolUsesLoop_ids by (simp add: mapToToolUseRecord_def comp_def)
next
  fix ex
  assume "extractToolResults uuids k entry = Inr ex"
  then obtain rs cleaned where
    l: "toolResultsLoop uuids k (optProp (Some entry) ''uuid'') items = Inr (rs, cleaned)"
    and e: "extracted ex = rs"
    unfolding extractToolResults_array[OF assms] by (auto split: sum.splits)
  from toolResultsLoop_matches[OF l]
  have "list_all2 (\<lambda>item r. tr_toolUseId r = optProp (Some item) ''tool_use_id'')
          (filter (isFragment ''tool_result'') items) rs"
    by (auto simp: resultMatches_def elim: list_all2_mono)
  then have "map tr_toolUseId rs =
               map (\<lambda>i. optProp (Some i) ''tool_use_id'') (filter (isFragment ''tool_result'') items)"
    by (induction rule: list_all2_induct) simp_all
  then show "map tr_toolUseId (map mapToToolResultRecord (extracted ex)) =
               map (\<lambda>i. optProp (Some i) ''tool_use_id'') (filter (isFragment ''tool_result'') items)"
    using e by (simp add: mapToToolResultRecord_def comp_def)
next
  assume "JNull \<notin> set items"
  from toolUsesLoop_total[OF this, of "optProp (Some entry) ''uuid''"]
  show "\<exists>ex. extractToolUses entry = Inr ex"
    unfolding extractToolUses_array[OF assms] by auto
next
  assume "noNullFragments items"
  from toolResultsLoop_total[OF this, of uuids k "optProp (Some entry) ''uuid''"]
  show "\<exists>ex. extractToolResults uuids k entry = Inr ex"
    unfolding extractToolResults_array[OF assms] by auto
qed

text \<open>The invocation line of the specification's scenario: one tool use, \<open>toolu_1\<close>.\<close>

theorem tool_ids_copied_from_fragments_witness:
  "messageContent toolUseLine =
     Inr (Some (JArr [JObj [(''type'', JStr ''text''), (''text'', JStr ''ok'')],
                      JObj [(''type'', JStr ''tool_use''), (''id'', JStr ''toolu_1''),
                            (''name'', JStr ''Read''),
                            (''input'', JObj [(''file_path'', JStr ''/a'')])]])) \<and>
   (\<exists>ex. extractToolUses toolUseLine = Inr ex \<and>
         map tu_id (map mapToToolUseRecord (extracted ex)) = [Some (JStr ''toolu_1'')])"
proof -
  let ?items = "[JObj [(''type'', JStr ''text''), (''text'', JStr ''ok'')],
                 JObj [(''type'', JStr ''tool_use''), (''id'', JStr ''toolu_1''),
                       (''name'', JStr ''Read''),
                       (''input'', JObj [(''file_path'', JStr ''/a'')])]]"
  have c: "messageContent toolUseLine = Inr (Some (JArr ?items))"
    by (simp add: messageContent_def toolUseLine_def)
  have n: "JNull \<notin> set ?items" by simp
  have f: "map (\<lambda>i. optProp (Some i) ''id'') (filter (isFragment ''tool_use'') ?items) =
             [Some (JStr ''toolu_1'')]"
    by (simp add: isFragment_def)
  from tool_ids_copied_from_fragments[OF c, of uuidSeq 0] n f
  have "\<exists>ex. extractToolUses toolUseLine = Inr ex" and
       "\<forall>ex. extractToolUses toolUseLine = Inr ex \<longrightarrow>
             map tu_id (map mapToToolUseRecord (extracted ex)) = [Some (JStr ''toolu_1'')]"
    by auto
  with c show ?thesis by blast
qed

lemma normalisedOutput_cases:
  "optProp (Some item) ''content'' = Some (JStr s) \<Longrightarrow> s \<noteq> [] \<Longrightarrow> normalisedOutput item = Some s"
  "optProp (Some item) ''content'' = Some (JArr xs) \<Longrightarrow>
     normalisedOutput item = Some (joinWith [CHR 0x0A] (map fragmentText xs))"
  "optProp (Some item) ''content'' = Some (JObj m) \<Longrightarrow>
     normalisedOutput item = Some (stringify (JObj m))"
  "\<not> truthy (optProp (Some item) ''content'') \<Longrightarrow> normalisedOutput item = None"
  by (simp_all add: normalisedOutput_def)

text \<open>
  What extraction yields. For every entry with a content list, whenever extraction returns, the
  extracted records correspond one to one, in order, to the \<open>tool_result\<close> fragments; each
  record's output is \<open>normalisedOutput\<close> of its fragment, its error the fragment's \<open>error\<close>
  member when that is truthy, and the extractor sets the error type \<open>tool_error\<close> beside it. The
  schema mapping keeps output and error.
\<close>

lemma extracted_output_normalised:
  assumes "messageContent entry = Inr (Some (JArr items))"
    and "extractToolResults uuids k entry = Inr ex"
  shows "list_all2 (resultMatches (optProp (Some entry) ''uuid''))
           (filter (isFragment ''tool_result'') items) (extracted ex) \<and>
         map tr_output (map mapToToolResultRecord (extracted ex)) = map tr_output (extracted ex) \<and>
         map tr_error (map mapToToolResultRecord (extracted ex)) = map tr_error (extracted ex)"
proof -
  from assms(2) obtain rs cleaned where
    l: "toolResultsLoop uuids k (optProp (Some entry) ''uuid'') items = Inr (rs, cleaned)"
    and e: "extracted ex = rs"
    unfolding extractToolResults_array[OF assms(1)] by (auto split: sum.splits)
  from toolResultsLoop_matches[OF l] e show ?thesis
    by (simp add: mapToToolResultRecord_def comp_def)
qed

lemma mixedResultLine_extracted:
  "\<exists>ex r. extractToolResults uuidSeq 0 mixedResultLine = Inr ex \<and> extracted ex = [r] \<and>
          tr_output r = Some (''a'' @ [CHR 0x0A] @ ''b'' @ [CHR 0x0A] @ stringify (JObj [(''n'', JNum 7)])) \<and>
          tr_error r = JStr ''bad'' \<and> tr_errorType r = Some ''tool_error''"
proof -
  let ?frag = "JObj [(''type'', JStr ''tool_result''), (''tool_use_id'', JStr ''toolu_2''),
                     (''content'', JArr [JStr ''a'',
                                        JObj [(''type'', JStr ''text''), (''text'', JStr ''b'')],
                                        JObj [(''n'', JNum 7)]]),
                     (''error'', JStr ''bad'')]"
  have c: "messageContent mixedResultLine = Inr (Some (JArr [?frag]))"
    by (simp add: messageContent_def mixedResultLine_def)
  have n: "noNullFragments [?frag]"
    by (simp add: noNullFragments_def nullFreeContent_def)
  from toolResultsLoop_total[OF n, of uuidSeq 0 "optProp (Some mixedResultLine) ''uuid''"]
  obtain ex where ex: "extractToolResults uuidSeq 0 mixedResultLine = Inr ex"
    unfolding extractToolResults_array[OF c] by auto
  have f: "filter (isFragment ''tool_result'') [?frag] = [?frag]"
    by (simp add: isFragment_def)
  from extracted_output_normalised[OF c ex] f
  obtain r where r: "extracted ex = [r]"
    "resultMatches (optProp (Some mixedResultLine) ''uuid'') ?frag r"
    by (auto simp: list_all2_Cons1)
  have o: "normalisedOutput ?frag =
             Some (''a'' @ [CHR 0x0A] @ ''b'' @ [CHR 0x0A] @ stringify (JObj [(''n'', JNum 7)]))"
    by (simp add: normalisedOutput_def fragmentText_def)
  from r(2) o have "tr_output r = Some (''a'' @ [CHR 0x0A] @ ''b'' @ [CHR 0x0A] @ stringify (JObj [(''n'', JNum 7)]))"
    "tr_error r = JStr ''bad''" "tr_errorType r = Some ''tool_error''"
    by (simp_all add: resultMatches_def orNull_def orElse_def)
  with ex r(1) show ?thesis by blast
qed

text \<open>The guard \<open>if (contentItem.content)\<close> takes the empty string for an absent content.\<close>

lemma emptyContentLine_extracted:
  "extractToolResults uuidSeq 0 emptyContentLine =
     Inr \<lparr>extracted =
            [\<lparr>tr_id = uuidSeq 0, tr_toolUseId = Some (JStr ''toolu_3''),
              tr_messageId = Some (JStr ''m4''), tr_output = None, tr_outputMimeType = JNull,
              tr_error = JNull, tr_errorType = None\<rparr>],
          cleanedContent = [], hasTools = True\<rparr>"
  by (simp add: extractToolResults_def emptyContentLine_def messageContent_def
      toolResultOf_def typeIs_def outputContent_def orNull_def orElse_def)

text \<open>
  Claim C5. The record produced for a fragment with an \<open>error\<close> member is to carry the error and
  the fixed error type. The extractor sets both, but the schema mapping, through which
  \<open>parseAndTransform\<close> passes every extracted record, writes null over the error type: no
  produced record has one. On the line \<open>mixedResultLine\<close>, whose fragment has the error
  \<open>bad\<close>, the extracted record has the error type \<open>tool_error\<close> and the produced record has the
  error and no error type.
\<close>

theorem mapToToolResultRecord_drops_error_type:
  "tr_errorType (mapToToolResultRecord toolResult) = None \<and>
   map (\<lambda>r. (tr_error r, tr_errorType r))
       (case extractToolResults uuidSeq 0 mixedResultLine of
          Inl e \<Rightarrow> []
        | Inr ex \<Rightarrow> extracted ex) = [(JStr ''bad'', Some ''tool_error'')] \<and>
   map (\<lambda>r. (tr_error r, tr_errorType r))
       (case parseAndTransform uuidSeq 0 ''T3'' ''/p/s1.jsonl'' mixedResultLine of
          Inl e \<Rightarrow> []
        | Inr parsed \<Rightarrow> jp_toolResults parsed) = [(JStr ''bad'', None)]"
proof -
  have 1: "tr_errorType (mapToToolResultRecord toolResult) = None"
    by (simp add: mapToToolResultRecord_def)
  have 2: "map (\<lambda>r. (tr_error r, tr_errorType r))
             (case extractToolResults uuidSeq 0 mixedResultLine of
                Inl e \<Rightarrow> []
              | Inr ex \<Rightarrow> extracted ex) = [(JStr ''bad'', Some ''tool_error'')]"
    by code_simp
  have 3: "map (\<lambda>r. (tr_error r, tr_errorType r))
             (case parseAndTransform uuidSeq 0 ''T3'' ''/p/s1.jsonl'' mixedResultLine of
                Inl e \<Rightarrow> []
              | Inr parsed \<Rightarrow> jp_toolResults parsed) = [(JStr ''bad'', None)]"
    by code_simp
  from 1 2 3 show ?thesis by simp
qed

section \<open>The executor: a second run over the same entries\<close>

lemma extends_refl: "extends a a"
  by (simp add: extends_def)

lemma extends_trans: "extends a b \<Longrightarrow> extends b c \<Longrightarrow> extends a c"
  unfolding extends_def by blast

lemma hasKey_mono: "hasKey key rows k \<Longrightarrow> set rows \<subseteq> set rows' \<Longrightarrow> hasKey key rows' k"
  unfolding hasKey_def by auto

lemma hasKey_append: "hasKey key (rows @ [row]) k = (hasKey key rows k \<or> key row = Some k)"
  unfolding hasKey_def by auto

lemma checkInsert_None_fks: "checkInsert nn pk fks = None \<Longrightarrow> list_all (\<lambda>ok. ok) fks"
  unfolding checkInsert_def by (auto split: option.splits if_splits)

subsection \<open>Single inserts add one row and make the record findable\<close>

lemma insertToolUseRecord_Inr:
  assumes "insertToolUseRecord u db = Inr db'"
  shows "extends db db'" "toolUsePresent u db'"
  using assms
  by (auto simp: insertToolUseRecord_def insertToolUseRow_def extends_def toolUsePresent_def
      hasKey_append split: option.splits)

lemma insertToolResultRecord_Inr:
  assumes "insertToolResultRecord t db = Inr db'"
  shows "extends db db'" "r_id t \<noteq> [] \<Longrightarrow> toolResultPresent t db'"
  using assms
  by (auto simp: insertToolResultRecord_def insertToolResultRow_def extends_def
      toolResultPresent_def hasKey_append textOrNull_def split: option.splits)

lemma insertAttachmentRecord_Inr:
  assumes "insertAttachmentRecord a db = Inr db'"
  shows "extends db db'" "attachmentPresent a db'"
  using assms
  by (auto simp: insertAttachmentRecord_def insertAttachmentRow_def extends_def
      attachmentPresent_def hasKey_append split: option.splits)

lemma insertEnvInfoRecord_Inr:
  assumes "insertEnvInfoRecord e db = Inr db'"
  shows "extends db db'" "envInfoPresent e db'"
  using assms
  by (auto simp: insertEnvInfoRecord_def insertEnvInfoRow_def extends_def envInfoPresent_def
      hasKey_append split: option.splits)

lemma insertMessageRecord_Inr:
  assumes "insertMessageRecord m db = Inr db'"
  shows "extends db db'" "hasKey mr_id (messages db') (m_id m)"
  using assms
  by (auto simp: insertMessageRecord_def insertMessageRow_def extends_def hasKey_append
      split: option.splits)

lemma ensureSessionRecord_extends: "extends db (ensureSessionRecord s db)"
  by (auto simp: ensureSessionRecord_def insertSessionOrIgnore_def extends_def)

lemma ensureSessionRecord_present: "sessionPresent s (ensureSessionRecord s db)"
  by (auto simp: ensureSessionRecord_def insertSessionOrIgnore_def sessionPresent_def
      keyTaken_def hasKey_append)

lemma ensureSessionRecord_ignored: "sessionPresent s db \<Longrightarrow> ensureSessionRecord s db = db"
  by (auto simp: ensureSessionRecord_def insertSessionOrIgnore_def sessionPresent_def keyTaken_def)

subsection \<open>Presence survives later inserts\<close>

lemma present_mono:
  assumes "extends db db'"
  shows "toolUsePresent u db \<Longrightarrow> toolUsePresent u db'"
    "toolResultPresent t db \<Longrightarrow> toolResultPresent t db'"
    "attachmentPresent a db \<Longrightarrow> attachmentPresent a db'"
    "envInfoPresent e db \<Longrightarrow> envInfoPresent e db'"
    "sessionPresent s db \<Longrightarrow> sessionPresent s db'"
    "messagePresent p db \<Longrightarrow> messagePresent p db'"
    "hasKey mr_id (messages db) i \<Longrightarrow> hasKey mr_id (messages db') i"
  using assms
  unfolding toolUsePresent_def toolResultPresent_def attachmentPresent_def envInfoPresent_def
    sessionPresent_def messagePresent_def extends_def
  by (auto intro: hasKey_mono split: option.splits)

lemma list_all_present_mono:
  assumes "extends db db'" "\<And>x. present x db \<Longrightarrow> present x db'"
  shows "list_all (\<lambda>x. present x db) xs \<Longrightarrow> list_all (\<lambda>x. present x db') xs"
  using assms(2) by (induction xs) auto

lemma writtenOut_mono: "extends db db' \<Longrightarrow> writtenOut p db \<Longrightarrow> writtenOut p db'"
  unfolding writtenOut_def
  using present_mono[of db db']
  by (auto intro: list_all_present_mono[of db db'])

subsection \<open>The insert loops\<close>

lemma insertMissing_all_present:
  "list_all (\<lambda>x. present x (fst st)) xs \<Longrightarrow> insertMissing present ins counted xs st = (None, st)"
  by (induction xs) simp_all

lemma insertMissing_extends:
  assumes "\<And>x db db'. ins x db = Inr db' \<Longrightarrow> extends db db'"
  shows "insertMissing present ins counted xs st = (err, st') \<Longrightarrow> extends (fst st) (fst st')"
proof (induction xs arbitrary: st)
  case Nil
  then show ?case by (simp add: extends_refl)
next
  case (Cons x xs)
  show ?case
  proof (cases "present x (fst st)")
    case True
    with Cons show ?thesis by simp
  next
    case False
    show ?thesis
    proof (cases "ins x (fst st)")
      case (Inl e)
      with False Cons.prems show ?thesis by (simp add: extends_refl)
    next
      case (Inr db')
      with False Cons.prems
      have "insertMissing present ins counted xs (db', counted (snd st)) = (err, st')" by simp
      from Cons.IH[OF this] assms[OF Inr] show ?thesis
        by (auto intro: extends_trans)
    qed
  qed
qed

lemma insertMissing_errors:
  assumes "\<And>r. errors (counted r) = errors r"
  shows "insertMissing present ins counted xs st = (err, st') \<Longrightarrow> errors (snd st') = errors (snd st)"
proof (induction xs arbitrary: st)
  case Nil
  then show ?case by simp
next
  case (Cons x xs)
  then show ?case
    by (cases "present x (fst st)"; cases "ins x (fst st)") (auto simp: assms)
qed

lemma insertMissing_done:
  assumes ext: "\<And>x db db'. ins x db = Inr db' \<Longrightarrow> extends db db'"
    and found: "\<And>x db db'. good x \<Longrightarrow> ins x db = Inr db' \<Longrightarrow> present x db'"
    and mono: "\<And>x db db'. present x db \<Longrightarrow> extends db db' \<Longrightarrow> present x db'"
  shows "list_all good xs \<Longrightarrow> insertMissing present ins counted xs st = (None, st') \<Longrightarrow>
           list_all (\<lambda>x. present x (fst st')) xs"
proof (induction xs arbitrary: st)
  case Nil
  then show ?case by simp
next
  case (Cons x xs)
  from Cons.prems(1) have g: "good x" "list_all good xs" by simp_all
  show ?case
  proof (cases "present x (fst st)")
    case True
    with Cons.prems(2) have r: "insertMissing present ins counted xs st = (None, st')" by simp
    have "extends (fst st) (fst st')"
      by (rule insertMissing_extends[OF _ r]) (rule ext)
    then have "present x (fst st')" using True mono by blast
    with Cons.IH[OF g(2) r] show ?thesis by simp
  next
    case False
    show ?thesis
    proof (cases "ins x (fst st)")
      case (Inl e)
      with False Cons.prems(2) show ?thesis by simp
    next
      case (Inr db')
      with False Cons.prems(2)
      have r: "insertMissing present ins counted xs (db', counted (snd st)) = (None, st')" by simp
      have "extends (fst (db', counted (snd st))) (fst st')"
        by (rule insertMissing_extends[OF _ r]) (rule ext)
      then have "extends db' (fst st')" by simp
      then have "present x (fst st')" using found[OF g(1) Inr] mono by blast
      with Cons.IH[OF g(2) r] show ?thesis by simp
    qed
  qed
qed

subsection \<open>The steps of an entry's body\<close>

lemma thenStep_extends:
  assumes "\<And>st err st'. f st = (err, st') \<Longrightarrow> extends (fst st) (fst st') \<and> errors (snd st') = errors (snd st)"
    and "\<And>st err st'. g st = (err, st') \<Longrightarrow> extends (fst st) (fst st') \<and> errors (snd st') = errors (snd st)"
  shows "thenStep f g st = (err, st') \<Longrightarrow> extends (fst st) (fst st') \<and> errors (snd st') = errors (snd st)"
proof -
  assume r: "thenStep f g st = (err, st')"
  obtain e1 st1 where f: "f st = (e1, st1)" by (cases "f st")
  show ?thesis
  proof (cases e1)
    case (Some e)
    with r f have "st' = st1" by (simp add: thenStep_def)
    with assms(1)[OF f] show ?thesis by simp
  next
    case None
    with r f have g: "g st1 = (err, st')" by (simp add: thenStep_def)
    from assms(1)[OF f] assms(2)[OF g] show ?thesis by (auto intro: extends_trans)
  qed
qed

lemma thenStep_post:
  assumes "\<And>st st'. f st = (None, st') \<Longrightarrow> Qf (fst st')"
    and "\<And>st st'. g st = (None, st') \<Longrightarrow> Qg (fst st')"
    and "\<And>st err st'. g st = (err, st') \<Longrightarrow> extends (fst st) (fst st') \<and> errors (snd st') = errors (snd st)"
    and "\<And>db db'. Qf db \<Longrightarrow> extends db db' \<Longrightarrow> Qf db'"
  shows "thenStep f g st = (None, st') \<Longrightarrow> Qf (fst st') \<and> Qg (fst st')"
proof -
  assume r: "thenStep f g st = (None, st')"
  obtain e1 st1 where f: "f st = (e1, st1)" by (cases "f st")
  from r f have n: "e1 = None" by (cases e1) (simp_all add: thenStep_def)
  with r f have g: "g st1 = (None, st')" by (simp add: thenStep_def)
  from f n have "Qf (fst st1)" using assms(1) by simp
  with assms(3)[OF g] assms(4) have "Qf (fst st')" by blast
  with assms(2)[OF g] show ?thesis by simp
qed

lemma messageToInsert_id:
  "map_option m_id (messageToInsert now p) = map_option m_id (messageToInsert now' p)"
  by (auto simp: messageToInsert_def placeholderMessage_def option.map_comp comp_def
      split: option.splits)

lemma messagePresent_alt:
  "messagePresent p db =
     (case messageToInsert now p of None \<Rightarrow> True | Some m \<Rightarrow> hasKey mr_id (messages db) (m_id m))"
  using messageToInsert_id[of now p "[]"]
  by (auto simp: messagePresent_def split: option.splits)

lemma writesMessage_alt: "writesMessage p = (messageToInsert now p \<noteq> None)"
  using messageToInsert_id[of now p "[]"]
  by (cases "messageToInsert now p"; cases "messageToInsert [] p") (auto simp: writesMessage_def)

lemma insertMessage_mild:
  "insertMessage now p st = (err, st') \<Longrightarrow>
     extends (fst st) (fst st') \<and> errors (snd st') = errors (snd st)"
  unfolding insertMessage_def
  by (auto simp: extends_refl split: option.splits if_splits sum.splits
      dest: insertMessageRecord_Inr(1))

lemma insertMessage_done: "insertMessage now p st = (None, st') \<Longrightarrow> messagePresent p (fst st')"
  unfolding insertMessage_def messagePresent_alt[of p _ now]
  by (auto split: option.splits if_splits sum.splits dest: insertMessageRecord_Inr(2))

lemma insertMessage_present:
  assumes "messagePresent p (fst st)"
  shows "insertMessage now p st =
           (None, (fst st, (snd st)\<lparr>messagesUpdated :=
                     messagesUpdated (snd st) + (if writesMessage p then 1 else 0)\<rparr>))"
  using assms
  unfolding insertMessage_def messagePresent_alt[of p _ now] writesMessage_alt[of p now]
  by (auto split: option.splits)

lemma insertToolUses_mild:
  assumes "insertToolUses xs st = (err, st')"
  shows "extends (fst st) (fst st') \<and> errors (snd st') = errors (snd st)"
proof -
  note r = assms[unfolded insertToolUses_def]
  have "extends (fst st) (fst st')"
    by (rule insertMissing_extends[OF _ r]) (rule insertToolUseRecord_Inr(1))
  moreover have "errors (snd st') = errors (snd st)"
    by (rule insertMissing_errors[OF _ r]) simp
  ultimately show ?thesis by simp
qed

lemma insertToolResults_mild:
  assumes "insertToolResults xs st = (err, st')"
  shows "extends (fst st) (fst st') \<and> errors (snd st') = errors (snd st)"
proof -
  note r = assms[unfolded insertToolResults_def]
  have "extends (fst st) (fst st')"
    by (rule insertMissing_extends[OF _ r]) (rule insertToolResultRecord_Inr(1))
  moreover have "errors (snd st') = errors (snd st)"
    by (rule insertMissing_errors[OF _ r]) simp
  ultimately show ?thesis by simp
qed

lemma insertAttachments_mild:
  assumes "insertAttachments xs st = (err, st')"
  shows "extends (fst st) (fst st') \<and> errors (snd st') = errors (snd st)"
proof -
  note r = assms[unfolded insertAttachments_def]
  have "extends (fst st) (fst st')"
    by (rule insertMissing_extends[OF _ r]) (rule insertAttachmentRecord_Inr(1))
  moreover have "errors (snd st') = errors (snd st)"
    by (rule insertMissing_errors[OF _ r]) simp
  ultimately show ?thesis by simp
qed

lemma insertEnvInfo_mild:
  assumes "insertEnvInfo x st = (err, st')"
  shows "extends (fst st) (fst st') \<and> errors (snd st') = errors (snd st)"
proof -
  note r = assms[unfolded insertEnvInfo_def]
  have "extends (fst st) (fst st')"
    by (rule insertMissing_extends[OF _ r]) (rule insertEnvInfoRecord_Inr(1))
  moreover have "errors (snd st') = errors (snd st)"
    by (rule insertMissing_errors[OF _ r]) simp
  ultimately show ?thesis by simp
qed

lemma insertToolUses_done:
  assumes "insertToolUses xs st = (None, st')"
  shows "list_all (\<lambda>u. toolUsePresent u (fst st')) xs"
proof -
  have "list_all (\<lambda>u. True) xs" by (induction xs) simp_all
  then show ?thesis
    using assms[unfolded insertToolUses_def]
    by (rule insertMissing_done[rotated 3])
       (auto intro: insertToolUseRecord_Inr present_mono(1))
qed

lemma insertToolResults_done:
  assumes "insertToolResults xs st = (None, st')" "list_all (\<lambda>t. r_id t \<noteq> []) xs"
  shows "list_all (\<lambda>t. toolResultPresent t (fst st')) xs"
  using assms(2) assms(1)[unfolded insertToolResults_def]
  by (rule insertMissing_done[rotated 3])
     (auto intro: insertToolResultRecord_Inr present_mono(2))

lemma insertAttachments_done:
  assumes "insertAttachments xs st = (None, st')"
  shows "list_all (\<lambda>a. attachmentPresent a (fst st')) xs"
proof -
  have "list_all (\<lambda>u. True) xs" by (induction xs) simp_all
  then show ?thesis
    using assms[unfolded insertAttachments_def]
    by (rule insertMissing_done[rotated 3])
       (auto intro: insertAttachmentRecord_Inr present_mono(3))
qed

lemma insertEnvInfo_done:
  assumes "insertEnvInfo x st = (None, st')"
  shows "list_all (\<lambda>e. envInfoPresent e (fst st')) (case x of None \<Rightarrow> [] | Some e \<Rightarrow> [e])"
proof -
  have "list_all (\<lambda>u. True) (case x of None \<Rightarrow> [] | Some e \<Rightarrow> [e])" by (cases x) simp_all
  then show ?thesis
    using assms[unfolded insertEnvInfo_def]
    by (rule insertMissing_done[rotated 3])
       (auto intro: insertEnvInfoRecord_Inr present_mono(4))
qed

subsection \<open>One entry\<close>

lemma executeEntry_entryBody:
  "executeEntry now parsed st =
     (case entryBody now parsed
             (ensureSessionRecord (pe_session parsed) (fst st),
              (snd st)\<lparr>errors := errors (snd st) @ map ParseError (pe_errors parsed)\<rparr>) of
        (None, st3) \<Rightarrow> st3
      | (Some e, st3) \<Rightarrow> pushErrors [StoreError e] st3)"
  by (simp add: executeEntry_def entryBody_def pushErrors_def Let_def)

lemma entryBody_mild:
  assumes "entryBody now p st = (err, st')"
  shows "extends (fst st) (fst st') \<and> errors (snd st') = errors (snd st)"
proof -
  have m4: "extends (fst s) (fst s') \<and> errors (snd s') = errors (snd s)"
    if "thenStep (insertAttachments (pe_attachments p)) (insertEnvInfo (pe_envInfo p)) s = (e, s')"
    for s e s'
    by (rule thenStep_extends[OF _ _ that]) (erule insertAttachments_mild, erule insertEnvInfo_mild)
  have m3: "extends (fst s) (fst s') \<and> errors (snd s') = errors (snd s)"
    if "thenStep (insertToolResults (pe_toolResults p))
          (thenStep (insertAttachments (pe_attachments p)) (insertEnvInfo (pe_envInfo p))) s = (e, s')"
    for s e s'
    by (rule thenStep_extends[OF _ _ that]) (erule insertToolResults_mild, erule m4)
  have m2: "extends (fst s) (fst s') \<and> errors (snd s') = errors (snd s)"
    if "thenStep (insertToolUses (pe_toolUses p))
          (thenStep (insertToolResults (pe_toolResults p))
             (thenStep (insertAttachments (pe_attachments p)) (insertEnvInfo (pe_envInfo p)))) s = (e, s')"
    for s e s'
    by (rule thenStep_extends[OF _ _ that]) (erule insertToolUses_mild, erule m3)
  show ?thesis
    by (rule thenStep_extends[OF _ _ assms[unfolded entryBody_def]])
       (erule insertMessage_mild, erule m2)
qed

lemma entryBody_done:
  assumes "entryBody now p st = (None, st')" "resultIdsGiven p"
  shows "messagePresent p (fst st')"
    "list_all (\<lambda>u. toolUsePresent u (fst st')) (pe_toolUses p)"
    "list_all (\<lambda>t. toolResultPresent t (fst st')) (pe_toolResults p)"
    "list_all (\<lambda>a. attachmentPresent a (fst st')) (pe_attachments p)"
    "list_all (\<lambda>e. envInfoPresent e (fst st')) (case pe_envInfo p of None \<Rightarrow> [] | Some e \<Rightarrow> [e])"
proof -
  let ?f5 = "insertEnvInfo (pe_envInfo p)"
  let ?f4 = "thenStep (insertAttachments (pe_attachments p)) ?f5"
  let ?f3 = "thenStep (insertToolResults (pe_toolResults p)) ?f4"
  let ?f2 = "thenStep (insertToolUses (pe_toolUses p)) ?f3"
  let ?Q5 = "\<lambda>db. list_all (\<lambda>e. envInfoPresent e db) (case pe_envInfo p of None \<Rightarrow> [] | Some e \<Rightarrow> [e])"
  let ?Q4 = "\<lambda>db. list_all (\<lambda>a. attachmentPresent a db) (pe_attachments p)"
  let ?Q3 = "\<lambda>db. list_all (\<lambda>t. toolResultPresent t db) (pe_toolResults p)"
  let ?Q2 = "\<lambda>db. list_all (\<lambda>u. toolUsePresent u db) (pe_toolUses p)"
  have ids: "list_all (\<lambda>t. r_id t \<noteq> []) (pe_toolResults p)"
    using assms(2) by (simp add: resultIdsGiven_def)
  have m4: "extends (fst s) (fst s') \<and> errors (snd s') = errors (snd s)" if "?f4 s = (e, s')" for s e s'
    by (rule thenStep_extends[OF _ _ that]) (erule insertAttachments_mild, erule insertEnvInfo_mild)
  have m3: "extends (fst s) (fst s') \<and> errors (snd s') = errors (snd s)" if "?f3 s = (e, s')" for s e s'
    by (rule thenStep_extends[OF _ _ that]) (erule insertToolResults_mild, erule m4)
  have m2: "extends (fst s) (fst s') \<and> errors (snd s') = errors (snd s)" if "?f2 s = (e, s')" for s e s'
    by (rule thenStep_extends[OF _ _ that]) (erule insertToolUses_mild, erule m3)
  have p4: "?Q4 (fst s') \<and> ?Q5 (fst s')" if "?f4 s = (None, s')" for s s'
    by (rule thenStep_post[where Qf = ?Q4 and Qg = ?Q5, OF _ _ _ _ that])
       (erule insertAttachments_done, erule insertEnvInfo_done, erule insertEnvInfo_mild,
        erule list_all_present_mono[rotated 2], assumption, erule (1) present_mono(3))
  have p3: "?Q3 (fst s') \<and> (?Q4 (fst s') \<and> ?Q5 (fst s'))" if "?f3 s = (None, s')" for s s'
    by (rule thenStep_post[where Qf = ?Q3 and Qg = "\<lambda>db. ?Q4 db \<and> ?Q5 db", OF _ _ _ _ that])
       (erule insertToolResults_done, rule ids, erule p4, erule m4,
        erule list_all_present_mono[rotated 2], assumption, erule (1) present_mono(2))
  have p2: "?Q2 (fst s') \<and> (?Q3 (fst s') \<and> (?Q4 (fst s') \<and> ?Q5 (fst s')))" if "?f2 s = (None, s')" for s s'
    by (rule thenStep_post[where Qf = ?Q2 and Qg = "\<lambda>db. ?Q3 db \<and> (?Q4 db \<and> ?Q5 db)", OF _ _ _ _ that])
       (erule insertToolUses_done, erule p3, erule m3,
        erule list_all_present_mono[rotated 2], assumption, erule (1) present_mono(1))
  have p1: "messagePresent p (fst st') \<and> (?Q2 (fst st') \<and> (?Q3 (fst st') \<and> (?Q4 (fst st') \<and> ?Q5 (fst st'))))"
    by (rule thenStep_post[where Qf = "messagePresent p"
            and Qg = "\<lambda>db. ?Q2 db \<and> (?Q3 db \<and> (?Q4 db \<and> ?Q5 db))",
          OF _ _ _ _ assms(1)[unfolded entryBody_def]])
       (erule insertMessage_done, erule p2, erule m2, erule (1) present_mono(6)[rotated])
  from p1 show "messagePresent p (fst st')" "?Q2 (fst st')" "?Q3 (fst st')" "?Q4 (fst st')" "?Q5 (fst st')"
    by simp_all
qed

lemma entryBody_written:
  assumes "writtenOut p (fst st)"
  shows "entryBody now p st =
           (None, (fst st, (snd st)\<lparr>messagesUpdated :=
                     messagesUpdated (snd st) + (if writesMessage p then 1 else 0)\<rparr>))"
proof -
  let ?s1 = "(fst st, (snd st)\<lparr>messagesUpdated :=
                messagesUpdated (snd st) + (if writesMessage p then 1 else 0)\<rparr>)"
  from assms have w: "messagePresent p (fst st)"
    "list_all (\<lambda>u. toolUsePresent u (fst ?s1)) (pe_toolUses p)"
    "list_all (\<lambda>t. toolResultPresent t (fst ?s1)) (pe_toolResults p)"
    "list_all (\<lambda>a. attachmentPresent a (fst ?s1)) (pe_attachments p)"
    "list_all (\<lambda>e. envInfoPresent e (fst ?s1)) (case pe_envInfo p of None \<Rightarrow> [] | Some e \<Rightarrow> [e])"
    by (simp_all add: writtenOut_def)
  have 1: "insertMessage now p st = (None, ?s1)" by (rule insertMessage_present[OF w(1)])
  have 2: "insertToolUses (pe_toolUses p) ?s1 = (None, ?s1)"
    unfolding insertToolUses_def by (rule insertMissing_all_present[where present = toolUsePresent and st = "?s1", OF w(2)])
  have 3: "insertToolResults (pe_toolResults p) ?s1 = (None, ?s1)"
    unfolding insertToolResults_def by (rule insertMissing_all_present[where present = toolResultPresent and st = "?s1", OF w(3)])
  have 4: "insertAttachments (pe_attachments p) ?s1 = (None, ?s1)"
    unfolding insertAttachments_def by (rule insertMissing_all_present[where present = attachmentPresent and st = "?s1", OF w(4)])
  have 5: "insertEnvInfo (pe_envInfo p) ?s1 = (None, ?s1)"
    unfolding insertEnvInfo_def by (rule insertMissing_all_present[where present = envInfoPresent and st = "?s1", OF w(5)])
  show ?thesis
    unfolding entryBody_def
    by (simp add: thenStep_def 1 2 3 4 5)
qed

lemma executeEntry_extends: "extends (fst st) (fst (executeEntry now p st))"
proof -
  let ?st2 = "(ensureSessionRecord (pe_session p) (fst st),
               (snd st)\<lparr>errors := errors (snd st) @ map ParseError (pe_errors p)\<rparr>)"
  obtain err st3 where b: "entryBody now p ?st2 = (err, st3)" by (cases "entryBody now p ?st2")
  from entryBody_mild[OF b] have "extends (fst st) (fst st3)"
    using ensureSessionRecord_extends[of "fst st" "pe_session p"] by (auto intro: extends_trans)
  with b show ?thesis
    by (cases err) (simp_all add: executeEntry_entryBody pushErrors_def)
qed

text \<open>
  An entry's body either throws, which leaves a store error at the end of the error list, or
  leaves only the forwarded parse errors; in the second case the entry is written out.
\<close>

lemma executeEntry_outcome:
  "(\<exists>e. errors (snd (executeEntry now p st)) =
          errors (snd st) @ map ParseError (pe_errors p) @ [StoreError e]) \<or>
   (errors (snd (executeEntry now p st)) = errors (snd st) @ map ParseError (pe_errors p) \<and>
    (resultIdsGiven p \<longrightarrow> writtenOut p (fst (executeEntry now p st))))"
proof -
  let ?st2 = "(ensureSessionRecord (pe_session p) (fst st),
               (snd st)\<lparr>errors := errors (snd st) @ map ParseError (pe_errors p)\<rparr>)"
  obtain err st3 where b: "entryBody now p ?st2 = (err, st3)" by (cases "entryBody now p ?st2")
  from entryBody_mild[OF b]
  have m: "extends (ensureSessionRecord (pe_session p) (fst st)) (fst st3)"
    "errors (snd st3) = errors (snd st) @ map ParseError (pe_errors p)"
    by simp_all
  show ?thesis
  proof (cases err)
    case (Some e)
    with b m show ?thesis by (simp add: executeEntry_entryBody pushErrors_def)
  next
    case None
    with b have r: "executeEntry now p st = st3" by (simp add: executeEntry_entryBody)
    have "writtenOut p (fst st3)" if "resultIdsGiven p"
      using entryBody_done[OF b[unfolded None] that]
        present_mono(5)[OF m(1) ensureSessionRecord_present]
      by (simp add: writtenOut_def)
    with r m show ?thesis by simp
  qed
qed

lemma executeEntry_written:
  assumes "writtenOut p (fst st)"
  shows "executeEntry now p st =
           (fst st, (snd st)\<lparr>messagesUpdated :=
                       messagesUpdated (snd st) + (if writesMessage p then 1 else 0),
                     errors := errors (snd st) @ map ParseError (pe_errors p)\<rparr>)"
proof -
  from assms have s: "ensureSessionRecord (pe_session p) (fst st) = fst st"
    by (simp add: writtenOut_def ensureSessionRecord_ignored)
  show ?thesis
    unfolding executeEntry_entryBody s
    by (subst entryBody_written) (simp_all add: assms)
qed

subsection \<open>A batch, and the second run\<close>

lemma executeEntries_extends: "extends (fst st) (fst (executeEntries now es st))"
proof (induction es arbitrary: st)
  case Nil
  show ?case by (simp add: extends_refl)
next
  case (Cons p es)
  from executeEntry_extends[of st now p] Cons[of "executeEntry now p st"]
  show ?case by (auto intro: extends_trans)
qed

lemma executeEntry_errors_grow:
  "\<exists>tail. errors (snd (executeEntry now p st)) = errors (snd st) @ tail"
  using executeEntry_outcome[of now p st] by auto

lemma executeEntries_errors_grow:
  "\<exists>tail. errors (snd (executeEntries now es st)) = errors (snd st) @ tail"
proof (induction es arbitrary: st)
  case Nil
  show ?case by simp
next
  case (Cons p es)
  from executeEntry_errors_grow[of now p st] Cons[of "executeEntry now p st"]
  show ?case by auto
qed

lemma executeEntries_all_written:
  assumes "list_all isParseError (errors (snd (executeEntries now es st)))"
    and "list_all resultIdsGiven es"
  shows "list_all (\<lambda>p. writtenOut p (fst (executeEntries now es st))) es"
  using assms
proof (induction es arbitrary: st)
  case Nil
  show ?case by simp
next
  case (Cons p es)
  let ?st1 = "executeEntry now p st"
  from Cons.prems have fin: "list_all isParseError (errors (snd (executeEntries now es ?st1)))"
    and ids: "resultIdsGiven p" "list_all resultIdsGiven es"
    by simp_all
  from executeEntries_errors_grow[of now es ?st1] fin
  have clean: "list_all isParseError (errors (snd ?st1))" by auto
  have "writtenOut p (fst ?st1)"
    using executeEntry_outcome[of now p st] clean ids(1) by auto
  then have "writtenOut p (fst (executeEntries now es ?st1))"
    using executeEntries_extends writtenOut_mono by blast
  with Cons.IH[OF fin ids(2)] show ?case by simp
qed

lemma executeEntries_written:
  "list_all (\<lambda>p. writtenOut p (fst st)) es \<Longrightarrow>
     executeEntries now es st =
       (fst st, (snd st)\<lparr>messagesUpdated := messagesUpdated (snd st) + length (filter writesMessage es),
                         errors := errors (snd st) @ concat (map (\<lambda>p. map ParseError (pe_errors p)) es)\<rparr>)"
proof (induction es arbitrary: st)
  case Nil
  show ?case by simp
next
  case (Cons p es)
  then have w: "writtenOut p (fst st)" and ws: "list_all (\<lambda>p. writtenOut p (fst st)) es"
    by simp_all
  show ?case
    by (simp add: executeEntry_written[OF w] Cons.IH ws)
qed

text \<open>
  Claim C2, as the code has it. Run the executor on a batch, and let the run have raised no
  store error (its error list holds forwarded parse errors only); let every tool result of the
  batch carry a non-empty identifier. Then a second run of the same batch on the store that the
  first run left changes nothing in the store and inserts nothing: every insert counter is
  zero, \<open>messagesUpdated\<close> counts the entries that have a message or a placeholder to write,
  and the errors are the forwarded parse errors. Tool uses, tool results, attachments and
  environment records that are already there are skipped without being counted: the summary
  has an "updated" counter for messages only.
\<close>

theorem second_run_inserts_nothing:
  assumes "executeParsedEntries now es db = (db1, r1)"
    and "list_all isParseError (errors r1)"
    and "list_all resultIdsGiven es"
  shows "executeParsedEntries now' es db1 =
           (db1, \<lparr>messagesInserted = 0, messagesUpdated = length (filter writesMessage es),
                  toolUsesInserted = 0, toolResultsInserted = 0, attachmentsInserted = 0,
                  envInfoInserted = 0,
                  errors = concat (map (\<lambda>p. map ParseError (pe_errors p)) es)\<rparr>)"
proof -
  from assms(1) have r: "executeEntries now es (db, emptyResult) = (db1, r1)"
    by (simp add: executeParsedEntries_def)
  from executeEntries_all_written[of now es "(db, emptyResult)"] r assms(2,3)
  have "list_all (\<lambda>p. writtenOut p (fst (db1, emptyResult))) es" by simp
  from executeEntries_written[OF this, of now'] show ?thesis
    by (simp add: executeParsedEntries_def emptyResult_def)
qed


text \<open>A batch in file order: the tool use comes before the result that answers it.\<close>

theorem second_run_inserts_nothing_witness:
  "executeParsedEntries ''N2'' [useSecondEntry, resultFirstEntry]
     (fst (executeParsedEntries ''N'' [useSecondEntry, resultFirstEntry] emptyStore)) =
   (fst (executeParsedEntries ''N'' [useSecondEntry, resultFirstEntry] emptyStore),
    \<lparr>messagesInserted = 0, messagesUpdated = 2, toolUsesInserted = 0, toolResultsInserted = 0,
     attachmentsInserted = 0, envInfoInserted = 0, errors = []\<rparr>)"
proof -
  let ?es = "[useSecondEntry, resultFirstEntry]"
  have h1: "executeParsedEntries ''N'' ?es emptyStore =
              (fst (executeParsedEntries ''N'' ?es emptyStore),
               snd (executeParsedEntries ''N'' ?es emptyStore))"
    by simp
  have h2: "list_all isParseError (errors (snd (executeParsedEntries ''N'' ?es emptyStore)))"
    by code_simp
  have h3: "list_all resultIdsGiven ?es"
    by code_simp
  have c: "length (filter writesMessage ?es) = 2"
    by code_simp
  have e: "concat (map (\<lambda>p. map ParseError (pe_errors p)) ?es) = []"
    by (simp add: useSecondEntry_def resultFirstEntry_def)
  from second_run_inserts_nothing[OF h1 h2 h3, of "''N2''"] show ?thesis
    by (simp only: c e)
qed

text \<open>
  The claim as stated fails for a batch in which a tool result comes before its tool use: the
  first run cannot insert the result (its foreign key has no parent yet) and records the error;
  the tool use arrives later in the same run; the second run then inserts the result, one more
  row, and counts it as inserted.
\<close>

theorem second_run_inserts_late_parent_counterexample:
  "errors (snd (executeParsedEntries ''N'' [resultFirstEntry, useSecondEntry] emptyStore)) =
     [StoreError ForeignKeyFailed] \<and>
   length (tool_use_results
     (fst (executeParsedEntries ''N'' [resultFirstEntry, useSecondEntry] emptyStore))) = 0 \<and>
   length (tool_use_results
     (fst (executeParsedEntries ''N'' [resultFirstEntry, useSecondEntry]
        (fst (executeParsedEntries ''N'' [resultFirstEntry, useSecondEntry] emptyStore))))) = 1 \<and>
   snd (executeParsedEntries ''N'' [resultFirstEntry, useSecondEntry]
     (fst (executeParsedEntries ''N'' [resultFirstEntry, useSecondEntry] emptyStore))) =
   \<lparr>messagesInserted = 0, messagesUpdated = 2, toolUsesInserted = 0, toolResultsInserted = 1,
    attachmentsInserted = 0, envInfoInserted = 0, errors = []\<rparr>"
  by code_simp

section \<open>Foreign-key resolution: what the resolver creates\<close>

lemma parseFKError_value: "parseFKError error = Some fkError \<Longrightarrow> fk_value fkError = None"
  by (auto simp: parseFKError_def split: if_splits option.splits)

lemma insertMessageRow_Inr:
  "insertMessageRow row db = Inr db' \<Longrightarrow> db' = db\<lparr>messages := messages db @ [row]\<rparr>"
  by (auto simp: insertMessageRow_def split: option.splits)

lemma orIgnore_Inr: "orIgnore r db = Inr db' \<Longrightarrow> r = Inr db' \<or> db' = db"
  by (auto simp: orIgnore_def split: sum.splits sqlite_error.splits)

lemma createPlaceholder_tool_uses:
  "createPlaceholder now ''tool_uses'' i db = Some (Inr db)"
  by (simp add: createPlaceholder_def insertToolUseRow_def checkInsert_def orIgnore_def)

lemma createPlaceholder_rows:
  assumes "createPlaceholder now parent i db = Some (Inr db')"
  shows "sessions db' = sessions db \<and> tool_uses db' = tool_uses db \<and>
         tool_use_results db' = tool_use_results db \<and>
         set (map mr_id (messages db')) \<subseteq> insert (Some i) (set (map mr_id (messages db)))"
proof -
  consider "parent = ''sessions''" | "parent = ''messages''" | "parent = ''tool_uses''"
    | "parent \<noteq> ''sessions''" "parent \<noteq> ''messages''" "parent \<noteq> ''tool_uses''"
    by blast
  then show ?thesis
  proof cases
    case 1
    with assms show ?thesis by (simp add: createPlaceholder_def)
  next
    case 2
    with assms obtain row where
      o: "orIgnore (insertMessageRow row db) db = Inr db'" and r: "mr_id row = Some i"
      by (auto simp: createPlaceholder_def)
    from orIgnore_Inr[OF o] show ?thesis
    proof
      assume "insertMessageRow row db = Inr db'"
      from insertMessageRow_Inr[OF this] r show ?thesis by auto
    next
      assume "db' = db"
      then show ?thesis by auto
    qed
  next
    case 3
    with assms createPlaceholder_tool_uses[of now i db] show ?thesis by auto
  next
    case 4
    with assms show ?thesis by (simp add: createPlaceholder_def)
  qed
qed

lemma resolveByCreatingParent_rows:
  "sessions (snd (resolveByCreatingParent now parent i db)) = sessions db \<and>
   tool_uses (snd (resolveByCreatingParent now parent i db)) = tool_uses db \<and>
   tool_use_results (snd (resolveByCreatingParent now parent i db)) = tool_use_results db \<and>
   set (map mr_id (messages (snd (resolveByCreatingParent now parent i db))))
     \<subseteq> insert (Some i) (set (map mr_id (messages db)))"
proof (cases "\<exists>db'. resolveByCreatingParent now parent i db = (True, db') \<and>
                     createPlaceholder now parent i db = Some (Inr db')")
  case True
  then obtain db' where "resolveByCreatingParent now parent i db = (True, db')"
    "createPlaceholder now parent i db = Some (Inr db')" by blast
  with createPlaceholder_rows[of now parent i db db'] show ?thesis by simp
next
  case False
  then have "snd (resolveByCreatingParent now parent i db) = db"
    by (auto simp: resolveByCreatingParent_def split: sum.splits bool.splits option.splits)
  then show ?thesis by auto
qed

text \<open>
  Whatever the operation threw, the only row the resolver can add is a message whose
  identifier is the text \<open>unknown\<close>: the identifier of the missing parent is never read from
  the error.
\<close>

lemma tryCommonResolutions_rows:
  assumes "parseFKError error = Some fkError"
  shows "sessions (snd (tryCommonResolutions now fkError db)) = sessions db"
    "tool_uses (snd (tryCommonResolutions now fkError db)) = tool_uses db"
    "tool_use_results (snd (tryCommonResolutions now fkError db)) = tool_use_results db"
    "set (map mr_id (messages (snd (tryCommonResolutions now fkError db))))
       \<subseteq> insert (Some ''unknown'') (set (map mr_id (messages db)))"
  using parseFKError_value[OF assms] resolveByCreatingParent_rows[of now _ "''unknown''" db]
  by (auto simp: tryCommonResolutions_def split: option.splits)

text \<open>
  Claim C3. The store holds session \<open>s1\<close> and message \<open>m2\<close> and no tool use. Inserting a tool
  result for tool use \<open>toolu_1\<close> and message \<open>m2\<close> through the retrying wrapper, with a bound of
  three attempts, does not succeed: the driver's message names no column, no parent is
  created, every attempt fails, and the wrapper throws. When the operation's error does name
  the column \<open>tool_use_results.toolUseId\<close>, the resolver looks for the tool use \<open>unknown\<close>
  instead of \<open>toolu_1\<close>, its placeholder insert leaves out the NOT NULL column \<open>parameters\<close> and
  is ignored, it reports success, and the wrapper again fails after three attempts. In both
  runs the store is unchanged: no tool use was created.
\<close>

theorem retryWithFKResolution_creates_no_parent:
  "retryWithFKResolution ''T1'' insertDanglingResult 3 storeWithMessageOnly =
     (Inl (PlainError ''FK constraint failure after 3 attempts: FOREIGN KEY constraint failed''),
      storeWithMessageOnly) \<and>
   retryWithFKResolution ''T1'' insertDanglingResultDetailed 3 storeWithMessageOnly =
     (Inl (SqliteError ''SQLITE_CONSTRAINT_FOREIGNKEY''
             ''FOREIGN KEY constraint failed: tool_use_results.toolUseId''),
      storeWithMessageOnly) \<and>
   map mr_id (messages storeWithMessageOnly) = [Some ''m2''] \<and>
   tool_uses storeWithMessageOnly = []"
  by code_simp

section \<open>Tool-result carriers: classification, parsing and execution\<close>

lemma isFragment_not_null: "isFragment t item \<Longrightarrow> item \<noteq> JNull"
  by (auto simp: isFragment_def)

lemma isFragment_other: "isFragment t item \<Longrightarrow> t' \<noteq> t \<Longrightarrow> \<not> isFragment t' item"
  by (auto simp: isFragment_def)

lemma isToolItem_result:
  "isFragment ''tool_result'' item \<Longrightarrow> isToolItem item = Inr True"
  using isFragment_other[of "''tool_result''" item "''tool_use''"]
  by (simp add: isToolItem_def typeIs_isFragment isFragment_not_null)

lemma isTextItem_result:
  "isFragment ''tool_result'' item \<Longrightarrow> isTextItem item = Inr False"
  using isFragment_other[of "''tool_result''" item "''text''"]
  by (simp add: isTextItem_def typeIs_isFragment isFragment_not_null)

lemma someE_isTextItem_results:
  "list_all (isFragment ''tool_result'') items \<Longrightarrow> someE isTextItem items = Inr False"
  by (induction items) (simp_all add: isTextItem_result)

lemma someE_isToolItem_results:
  "items \<noteq> [] \<Longrightarrow> list_all (isFragment ''tool_result'') items \<Longrightarrow> someE isToolItem items = Inr True"
  by (cases items) (simp_all add: isToolItem_result)

lemma toolUseOf_result:
  "isFragment ''tool_result'' item \<Longrightarrow> toolUseOf uuid item = Inr None"
  using isFragment_other[of "''tool_result''" item "''tool_use''"]
  by (simp add: toolUseOf_def typeIs_isFragment isFragment_not_null)

lemma toolUsesLoop_results:
  "list_all (isFragment ''tool_result'') items \<Longrightarrow> toolUsesLoop uuid items = Inr ([], items)"
  by (induction items) (simp_all add: toolUseOf_result)

lemma textItems_results:
  "list_all (isFragment ''tool_result'') items \<Longrightarrow> textItems items = Inr []"
proof (induction items)
  case Nil
  show ?case by simp
next
  case (Cons item rest)
  then have f: "isFragment ''tool_result'' item" and r: "textItems rest = Inr []" by simp_all
  from isFragment_other[OF f, of "''text''"] have "typeIs item ''text'' = Inr False"
    by (simp add: typeIs_isFragment isFragment_not_null[OF f])
  with r show ?case by simp
qed

text \<open>Classification of a carrier.\<close>

lemma carrier_content:
  assumes "optProp (optProp (Some entry) ''message'') ''content'' = Some (JArr items)"
  shows "entry \<noteq> JNull" "messageContent entry = Inr (Some (JArr items))"
proof -
  show n: "entry \<noteq> JNull" using assms by auto
  show "messageContent entry = Inr (Some (JArr items))"
    using assms by (simp add: messageContent_def getProp_optProp[OF n])
qed

lemma carrier_classified:
  assumes ty: "optProp (Some entry) ''type'' = Some (JStr ''user'')"
    and c: "optProp (optProp (Some entry) ''message'') ''content'' = Some (JArr items)"
    and ne: "items \<noteq> []"
    and fr: "list_all (isFragment ''tool_result'') items"
  shows "\<exists>cl. classifyMessage now entry = Inr cl \<and> cm_type cl = tool_result_message \<and>
           \<not> hasTextContent cl \<and> originalMessage cl = entry \<and>
           cm_sessionId cl = orElse (optProp (Some entry) ''sessionId'') (JStr []) \<and>
           cm_messageId cl = orElse (optProp (Some entry) ''uuid'') (JStr [])"
proof -
  note cc = carrier_content[OF c]
  have 1: "containsTools entry = Inr True"
    by (simp add: containsTools_def cc(2) someE_isToolItem_results[OF ne fr])
  have 2: "hasNonToolTextContent entry = Inr False"
    by (simp add: hasNonToolTextContent_def cc(2) someE_isTextItem_results[OF fr])
  show ?thesis
    by (simp add: classifyMessage_def getProp_optProp[OF cc(1)] 1 2 ty Let_def)
qed

lemma carrier_tool_uses:
  assumes c: "optProp (optProp (Some entry) ''message'') ''content'' = Some (JArr items)"
    and fr: "list_all (isFragment ''tool_result'') items"
  shows "extractToolUses entry = Inr \<lparr>extracted = [], cleanedContent = items, hasTools = False\<rparr>"
  by (simp add: extractToolUses_array[OF carrier_content(2)[OF c]] toolUsesLoop_results[OF fr])

lemma carrier_text:
  assumes c: "optProp (optProp (Some entry) ''message'') ''content'' = Some (JArr items)"
    and fr: "list_all (isFragment ''tool_result'') items"
  shows "extractMessageText entry tool_result_message = Inr (None, None)"
  by (simp add: extractMessageText_def getTextContent_def carrier_content(2)[OF c]
      textItems_results[OF fr] textOrNull_def)


text \<open>The tool results of a carrier, at their declared types.\<close>

lemma plain_fragments:
  assumes "list_all plainResultFragment items"
  shows "list_all (isFragment ''tool_result'') items" "noNullFragments items"
    "filter (isFragment ''tool_result'') items = items"
    "filter (\<lambda>i. \<not> isFragment ''tool_result'' i) items = []"
proof -
  show 1: "list_all (isFragment ''tool_result'') items"
    using assms by (induction items) (simp_all add: plainResultFragment_def)
  have "list_all nullFreeContent items"
    using assms
    by (induction items)
       (auto simp: plainResultFragment_def nullFreeContent_def split: option.splits json.splits)
  moreover have "JNull \<notin> set items"
    using 1 isFragment_not_null by (auto simp: list_all_iff)
  ultimately show "noNullFragments items" by (simp add: noNullFragments_def)
  show "filter (isFragment ''tool_result'') items = items"
    using 1 by (induction items) simp_all
  show "filter (\<lambda>i. \<not> isFragment ''tool_result'' i) items = []"
    using 1 by (induction items) simp_all
qed

lemma orElse_text: "orElse (Some (JStr s)) (JStr []) = JStr s"
  by (simp add: orElse_def)

lemma optionalText_nullable: "optionalText v \<Longrightarrow> \<exists>c. asNullableText (orNull v) = Some c"
  by (cases v rule: truthy.cases) (simp_all add: optionalText_def orNull_def orElse_def)

lemma typedToolResult_plain:
  assumes m: "resultMatches (Some (JStr u)) item r" and p: "plainResultFragment item"
  shows "\<exists>r'. typedToolResult (mapToToolResultRecord r) = Some r' \<and> carriedBy u item r' \<and>
           r_id r' = tr_id r"
proof -
  from p obtain t c where
    t: "optProp (Some item) ''tool_use_id'' = Some (JStr t)" and
    c: "optProp (Some item) ''content'' = Some (JStr c)" and
    e: "optionalText (optProp (Some item) ''error'')"
    by (auto simp: plainResultFragment_def split: option.splits json.splits)
  from optionalText_nullable[OF e] obtain err where
    err: "asNullableText (orNull (optProp (Some item) ''error'')) = Some err" by blast
  have out: "normalisedOutput item = (if c = [] then None else Some c)"
    by (simp add: normalisedOutput_def c)
  from m have f: "tr_toolUseId r = Some (JStr t)" "tr_messageId r = Some (JStr u)"
    "tr_output r = (if c = [] then None else Some c)"
    "tr_error r = orNull (optProp (Some item) ''error'')"
    by (simp_all add: resultMatches_def t out)
  show ?thesis
    by (simp add: typedToolResult_def mapToToolResultRecord_def f err carriedBy_def t c)
qed

lemma typedToolResults_plain:
  assumes "list_all2 (resultMatches (Some (JStr u))) items rs"
    and "list_all plainResultFragment items"
  shows "\<exists>rs'. allSome (map typedToolResult (map mapToToolResultRecord rs)) = Some rs' \<and>
           list_all2 (carriedBy u) items rs' \<and> map r_id rs' = map tr_id rs"
  using assms
proof (induction rule: list_all2_induct)
  case Nil
  show ?case by simp
next
  case (Cons item items r rs)
  from Cons.prems have p: "plainResultFragment item" "list_all plainResultFragment items"
    by simp_all
  from typedToolResult_plain[OF Cons.hyps(1) p(1)] obtain r' where
    r': "typedToolResult (mapToToolResultRecord r) = Some r'" "carriedBy u item r'"
        "r_id r' = tr_id r" by blast
  from Cons.IH[OF p(2)] obtain rs' where
    rs': "allSome (map typedToolResult (map mapToToolResultRecord rs)) = Some rs'"
         "list_all2 (carriedBy u) items rs'" "map r_id rs' = map tr_id rs" by blast
  show ?case
    using r' rs' by (intro exI[of _ "r' # rs'"]) simp
qed

lemma carrier_tool_results:
  assumes uu: "optProp (Some entry) ''uuid'' = Some (JStr u)"
    and c: "optProp (optProp (Some entry) ''message'') ''content'' = Some (JArr items)"
    and pl: "list_all plainResultFragment items"
  shows "\<exists>rs rs'. extractToolResults uuids k entry =
              Inr \<lparr>extracted = rs, cleanedContent = [], hasTools = (rs \<noteq> [])\<rparr> \<and>
           allSome (map typedToolResult (map mapToToolResultRecord rs)) = Some rs' \<and>
           list_all2 (carriedBy u) items rs' \<and>
           map r_id rs' = map uuids [k ..< k + length items]"
proof -
  note pf = plain_fragments[OF pl]
  from toolResultsLoop_total[OF pf(2), of uuids k "Some (JStr u)"] obtain rs cleaned where
    l: "toolResultsLoop uuids k (Some (JStr u)) items = Inr (rs, cleaned)" by (cases) auto
  from toolResultsLoop_matches[OF l] have
    m: "list_all2 (resultMatches (Some (JStr u))) items rs"
       "map tr_id rs = map uuids [k ..< k + length rs]" "cleaned = []"
    by (simp_all add: pf(3) pf(4))
  from m(1) have len: "length rs = length items" by (simp add: list_all2_lengthD)
  from typedToolResults_plain[OF m(1) pl] obtain rs' where
    rs': "allSome (map typedToolResult (map mapToToolResultRecord rs)) = Some rs'"
         "list_all2 (carriedBy u) items rs'" "map r_id rs' = map tr_id rs" by blast
  have "extractToolResults uuids k entry =
          Inr \<lparr>extracted = rs, cleanedContent = [], hasTools = (rs \<noteq> [])\<rparr>"
    by (simp add: extractToolResults_array[OF carrier_content(2)[OF c]] uu l m(3))
  with rs' m(2) len show ?thesis by auto
qed

text \<open>The environment record and the parsed entry of a carrier.\<close>

lemma env_nullable:
  assumes t: "envMembersTyped entry"
  shows "\<exists>wd pf os.
    asNullableText (orNull (optProp (Some entry) ''cwd'')) = Some wd \<and>
    asNullableText (orNull (optProp (Some entry) ''platform'')) = Some pf \<and>
    asNullableText (orNull (optProp (Some entry) ''osVersion'')) = Some os"
proof -
  from t have a: "optionalText (optProp (Some entry) ''cwd'')"
    and b: "optionalText (optProp (Some entry) ''platform'')"
    and c: "optionalText (optProp (Some entry) ''osVersion'')"
    unfolding envMembersTyped_def by blast+
  from optionalText_nullable[OF a] optionalText_nullable[OF b] optionalText_nullable[OF c]
  show ?thesis by blast
qed

lemma typedEnvInfo_Some:
  assumes "asNullableText wd' = Some wd" "asNullableText pf' = Some pf"
    "asNullableText os' = Some os"
  shows "typedEnvInfo \<lparr>je_id = i, je_messageId = JStr u, je_workingDirectory = wd',
                        je_isGitRepo = g, je_platform = pf', je_osVersion = os',
                        je_todaysDate = JNull\<rparr> =
           Some \<lparr>e_id = i, e_messageId = u, e_workingDirectory = wd, e_isGitRepo = g,
                 e_platform = pf, e_osVersion = os, e_todaysDate = None\<rparr>"
  by (simp add: typedEnvInfo_def assms)

lemma extractEnvInfo_cases:
  assumes o: "originalMessage cl = entry" and i: "cm_messageId cl = JStr u"
  shows "extractEnvInfo cl = None \<or>
         extractEnvInfo cl =
           Some \<lparr>je_id = ''env_'' @ toStr (JStr u), je_messageId = JStr u,
                 je_workingDirectory = orNull (optProp (Some entry) ''cwd''),
                 je_isGitRepo = (if truthy (optProp (Some entry) ''gitBranch'') then Some True else None),
                 je_platform = orNull (optProp (Some entry) ''platform''),
                 je_osVersion = orNull (optProp (Some entry) ''osVersion''),
                 je_todaysDate = JNull\<rparr>"
  unfolding extractEnvInfo_def Let_def o i by (rule if_split[THEN iffD2]) blast

lemma carrier_env_info:
  assumes o: "originalMessage cl = entry" and i: "cm_messageId cl = JStr u"
    and t: "envMembersTyped entry"
  shows "\<exists>e. (case extractEnvInfo cl of
                 None \<Rightarrow> Some None
               | Some x \<Rightarrow> map_option Some (typedEnvInfo x)) = Some e \<and>
             (case e of None \<Rightarrow> True | Some x \<Rightarrow> e_messageId x = u)"
proof -
  from env_nullable[OF t] obtain wd pf os where n:
    "asNullableText (orNull (optProp (Some entry) ''cwd'')) = Some wd"
    "asNullableText (orNull (optProp (Some entry) ''platform'')) = Some pf"
    "asNullableText (orNull (optProp (Some entry) ''osVersion'')) = Some os"
    by blast
  note ty = typedEnvInfo_Some[OF n, of "''env_'' @ toStr (JStr u)" u
      "if truthy (optProp (Some entry) ''gitBranch'') then Some True else None"]
  from extractEnvInfo_cases[OF o i] show ?thesis
  proof
    assume "extractEnvInfo cl = None"
    then show ?thesis by simp
  next
    assume x: "extractEnvInfo cl =
           Some \<lparr>je_id = ''env_'' @ toStr (JStr u), je_messageId = JStr u,
                 je_workingDirectory = orNull (optProp (Some entry) ''cwd''),
                 je_isGitRepo = (if truthy (optProp (Some entry) ''gitBranch'') then Some True else None),
                 je_platform = orNull (optProp (Some entry) ''platform''),
                 je_osVersion = orNull (optProp (Some entry) ''osVersion''),
                 je_todaysDate = JNull\<rparr>"
    show ?thesis
      unfolding x option.case ty by simp
  qed
qed

lemma carrier_parsed:
  assumes ty: "optProp (Some entry) ''type'' = Some (JStr ''user'')"
    and uu: "optProp (Some entry) ''uuid'' = Some (JStr u)" and un: "u \<noteq> []"
    and sid: "optProp (Some entry) ''sessionId'' = Some (JStr s)"
    and c: "optProp (optProp (Some entry) ''message'') ''content'' = Some (JArr items)"
    and ne: "items \<noteq> []"
    and pl: "list_all plainResultFragment items"
    and env: "envMembersTyped entry"
  shows "\<exists>pd p. parseAndTransform uuids k now sessionPath entry = Inr pd \<and>
           typedEntry pd = Some p \<and>
           pe_session p = \<lparr>s_id = s, s_sessionId = s, s_sessionPath = sessionPath\<rparr> \<and>
           pe_message p = None \<and> pe_shouldSkipMessage p \<and> pe_toolUses p = [] \<and>
           pe_attachments p = [] \<and>
           (case pe_envInfo p of None \<Rightarrow> True | Some x \<Rightarrow> e_messageId x = u) \<and>
           list_all2 (carriedBy u) items (pe_toolResults p) \<and>
           map r_id (pe_toolResults p) = map uuids [k ..< k + length items]"
proof -
  note fr = plain_fragments(1)[OF pl]
  from carrier_classified[OF ty c ne fr, of now] obtain cl where
    cl: "classifyMessage now entry = Inr cl" "cm_type cl = tool_result_message"
        "\<not> hasTextContent cl" "originalMessage cl = entry"
        "cm_sessionId cl = JStr s" "cm_messageId cl = JStr u"
    by (auto simp: sid uu orElse_def un)
  from carrier_tool_results[OF uu c pl, of uuids k] obtain rs rs' where
    rs: "extractToolResults uuids k entry =
           Inr \<lparr>extracted = rs, cleanedContent = [], hasTools = (rs \<noteq> [])\<rparr>"
        "allSome (map typedToolResult (map mapToToolResultRecord rs)) = Some rs'"
        "list_all2 (carriedBy u) items rs'"
        "map r_id rs' = map uuids [k ..< k + length items]" by blast
  from carrier_env_info[OF cl(4) cl(6) env] obtain e where
    e: "(case extractEnvInfo cl of
           None \<Rightarrow> Some None
         | Some x \<Rightarrow> map_option Some (typedEnvInfo x)) = Some e"
       "(case e of None \<Rightarrow> True | Some x \<Rightarrow> e_messageId x = u)" by blast
  have skip: "\<not> shouldStoreAsMessage cl"
    by (simp add: shouldStoreAsMessage_def cl(2,3))
  define pd where "pd =
    \<lparr>jp_session = createSessionRecord cl sessionPath, jp_message = None, jp_toolUses = [],
     jp_toolResults = map mapToToolResultRecord rs, jp_attachments = [],
     jp_envInfo = extractEnvInfo cl, jp_shouldSkipMessage = True,
     jp_errors = validateRecords [] [] (map mapToToolResultRecord rs)\<rparr>"
  have t: "transformEntry uuids k now sessionPath entry = Inr pd"
    by (simp add: transformEntry_def cl(1) carrier_tool_uses[OF c fr] rs(1) cl(2)
        carrier_text[OF c fr] skip extractAttachments_def pd_def Let_def)
  then have p: "parseAndTransform uuids k now sessionPath entry = Inr pd"
    by (simp add: parseAndTransform_def)
  define p where "p =
    \<lparr>pe_session = \<lparr>s_id = s, s_sessionId = s, s_sessionPath = sessionPath\<rparr>, pe_message = None,
     pe_toolUses = [], pe_toolResults = rs', pe_attachments = [], pe_envInfo = e,
     pe_shouldSkipMessage = True, pe_errors = jp_errors pd\<rparr>"
  have ts: "typedSession (createSessionRecord cl sessionPath) =
              Some \<lparr>s_id = s, s_sessionId = s, s_sessionPath = sessionPath\<rparr>"
    by (simp add: typedSession_def createSessionRecord_def cl(5))
  have "typedEntry pd = Some p"
    using rs(2) e(1) by (simp add: typedEntry_def pd_def p_def ts)
  with p rs(3,4) e(2) show ?thesis
    by (intro exI[of _ pd] exI[of _ p]) (simp add: p_def)
qed

end
